theory Spec2Isabelle
  imports Main "HOL-Library.AList" "HOL-Library.Sublist" "HOL-Library.Word"
begin

section \<open>JavaScript strings and values\<close>

text \<open>
  A JavaScript string is a \<^typ>\<open>string\<close> whose characters are the code units below 256
  (Latin-1). Among them \<open>String.prototype.trim\<close> and the class \<^verbatim>\<open>\s\<close> take as white space
  the tab, line feed, vertical tab, form feed, carriage return, space and no-break space
  (U+00A0); \<open>toLowerCase\<close> folds \<open>A\<close>--\<open>Z\<close> and the capital letters U+00C0--U+00DE
  (U+00D7, the multiplication sign, apart). A value that is \<open>undefined\<close> is \<open>None\<close>.
\<close>

definition isWhitespace :: "char \<Rightarrow> bool" where
  "isWhitespace c =
     (c \<in> set [CHR 0x09, CHR 0x0A, CHR 0x0B, CHR 0x0C, CHR 0x0D, CHR 0x20, CHR 0xA0])"

definition trim :: "string \<Rightarrow> string" where
  "trim s = rev (dropWhile isWhitespace (rev (dropWhile isWhitespace s)))"

definition upperLetters :: string where
  "upperLetters =
     ''ABCDEFGHIJKLMNOPQRSTUVWXYZ'' @
     [CHR 0xC0, CHR 0xC1, CHR 0xC2, CHR 0xC3, CHR 0xC4, CHR 0xC5, CHR 0xC6, CHR 0xC7,
      CHR 0xC8, CHR 0xC9, CHR 0xCA, CHR 0xCB, CHR 0xCC, CHR 0xCD, CHR 0xCE, CHR 0xCF,
      CHR 0xD0, CHR 0xD1, CHR 0xD2, CHR 0xD3, CHR 0xD4, CHR 0xD5, CHR 0xD6,
      CHR 0xD8, CHR 0xD9, CHR 0xDA, CHR 0xDB, CHR 0xDC, CHR 0xDD, CHR 0xDE]"

definition lowerLetters :: string where
  "lowerLetters =
     ''abcdefghijklmnopqrstuvwxyz'' @
     [CHR 0xE0, CHR 0xE1, CHR 0xE2, CHR 0xE3, CHR 0xE4, CHR 0xE5, CHR 0xE6, CHR 0xE7,
      CHR 0xE8, CHR 0xE9, CHR 0xEA, CHR 0xEB, CHR 0xEC, CHR 0xED, CHR 0xEE, CHR 0xEF,
      CHR 0xF0, CHR 0xF1, CHR 0xF2, CHR 0xF3, CHR 0xF4, CHR 0xF5, CHR 0xF6,
      CHR 0xF8, CHR 0xF9, CHR 0xFA, CHR 0xFB, CHR 0xFC, CHR 0xFD, CHR 0xFE]"

definition lowerChar :: "char \<Rightarrow> char" where
  "lowerChar c = (case map_of (zip upperLetters lowerLetters) c of Some d \<Rightarrow> d | None \<Rightarrow> c)"

definition toLowerCase :: "string \<Rightarrow> string" where
  "toLowerCase s = map lowerChar s"

text \<open>The character classes of the regular expressions of the source.\<close>

definition isDigit :: "char \<Rightarrow> bool" where
  "isDigit c = (c \<in> set ''0123456789'')"

definition isLetter :: "char \<Rightarrow> bool" where
  "isLetter c = (c \<in> set ''abcdefghijklmnopqrstuvwxyzABCDEFGHIJKLMNOPQRSTUVWXYZ'')"

text \<open>\<^verbatim>\<open>/^[a-zA-Z0-9._-]{1,128}$/\<close>\<close>

definition isScopeIdChar :: "char \<Rightarrow> bool" where
  "isScopeIdChar c = (isLetter c \<or> isDigit c \<or> c \<in> set ''._-'')"

definition matchesScopeId :: "string \<Rightarrow> bool" where
  "matchesScopeId s = (1 \<le> length s \<and> length s \<le> 128 \<and> list_all isScopeIdChar s)"

text \<open>\<^verbatim>\<open>/^[a-f0-9]{16,128}$/i\<close>\<close>

definition isHexChar :: "char \<Rightarrow> bool" where
  "isHexChar c = (c \<in> set ''0123456789abcdefABCDEF'')"

definition matchesLeaseId :: "string \<Rightarrow> bool" where
  "matchesLeaseId s = (16 \<le> length s \<and> length s \<le> 128 \<and> list_all isHexChar s)"

text \<open>
  Template literals print numbers in decimal. All numbers of the model are integers
  (a \<open>number\<close> that \<^verbatim>\<open>Number.isInteger\<close> rejects is treated by the source like \<open>undefined\<close>,
  and is \<open>None\<close> here).
\<close>

definition digitChar :: "nat \<Rightarrow> char" where
  "digitChar d = ''0123456789'' ! (d mod 10)"

function showNat :: "nat \<Rightarrow> string" where
  "showNat n = (if n < 10 then [digitChar n] else showNat (n div 10) @ [digitChar (n mod 10)])"
  by pat_completeness auto
termination
  by (relation "measure id") auto

declare showNat.simps [simp del]

definition showInt :: "int \<Rightarrow> string" where
  "showInt i = (if i < 0 then CHR ''-'' # showNat (nat (- i)) else showNat (nat i))"

datatype jsval =
    JUndefined
  | JNull
  | JBool bool
  | JNum int
  | JStr string
  | JArr "jsval list"
  | JObj "(string \<times> jsval) list"

type_synonym jsobject = "(string \<times> jsval) list"

section \<open>Errors (utils/errors.ts)\<close>

text \<open>
  \<open>AppError code message details\<close>; a \<^verbatim>\<open>throw\<close> is the \<open>Inl\<close> of a sum.
\<close>

datatype AppError = AppError string string "jsobject option"

fun errorCode :: "AppError \<Rightarrow> string" where
  "errorCode (AppError c m d) = c"

fun errorMessage :: "AppError \<Rightarrow> string" where
  "errorMessage (AppError c m d) = m"

fun errorDetails :: "AppError \<Rightarrow> jsobject option" where
  "errorDetails (AppError c m d) = d"

section \<open>Lease registry (daemon/lease-registry.ts)\<close>

record SimulatorLease =
  leaseId :: string
  tenantId :: string
  runId :: string
  backend :: string
  createdAt :: int
  heartbeatAt :: int
  expiresAt :: int

record LeaseRegistryOptions =
  opt_maxActiveSimulatorLeases :: "int option"
  opt_defaultLeaseTtlMs :: "int option"
  opt_minLeaseTtlMs :: "int option"
  opt_maxLeaseTtlMs :: "int option"

definition DEFAULT_LEASE_TTL_MS :: int where "DEFAULT_LEASE_TTL_MS = 60000"
definition MIN_LEASE_TTL_MS :: int where "MIN_LEASE_TTL_MS = 5000"
definition MAX_LEASE_TTL_MS :: int where "MAX_LEASE_TTL_MS = 10 * 60000"

text \<open>
  The two JavaScript \<open>Map\<close>s are association lists in insertion order: \<open>set\<close> is
  \<^const>\<open>AList.update\<close>, \<open>delete\<close> is \<^const>\<open>AList.delete\<close>, \<open>get\<close> is \<^const>\<open>map_of\<close>.
\<close>

record LeaseRegistry =
  leases :: "(string \<times> SimulatorLease) list"
  runBindings :: "(string \<times> string) list"
  maxActiveSimulatorLeases :: int
  defaultLeaseTtlMs :: int
  minLeaseTtlMs :: int
  maxLeaseTtlMs :: int

definition newLeaseRegistry :: "LeaseRegistryOptions \<Rightarrow> LeaseRegistry" where
  "newLeaseRegistry options =
     (let minTtl = (case opt_minLeaseTtlMs options of Some v \<Rightarrow> max 1 v | None \<Rightarrow> MIN_LEASE_TTL_MS)
      in \<lparr> leases = [],
           runBindings = [],
           maxActiveSimulatorLeases =
             (case opt_maxActiveSimulatorLeases options of Some v \<Rightarrow> max 0 v | None \<Rightarrow> 0),
           defaultLeaseTtlMs =
             (case opt_defaultLeaseTtlMs options of Some v \<Rightarrow> max 1 v | None \<Rightarrow> DEFAULT_LEASE_TTL_MS),
           minLeaseTtlMs = minTtl,
           maxLeaseTtlMs =
             (case opt_maxLeaseTtlMs options of Some v \<Rightarrow> max minTtl v | None \<Rightarrow> MAX_LEASE_TTL_MS) \<rparr>)"

definition noOptions :: LeaseRegistryOptions where
  "noOptions = \<lparr> opt_maxActiveSimulatorLeases = None, opt_defaultLeaseTtlMs = None,
                 opt_minLeaseTtlMs = None, opt_maxLeaseTtlMs = None \<rparr>"

definition normalizeTenantId :: "string option \<Rightarrow> string option" where
  "normalizeTenantId raw =
     (case raw of
        None \<Rightarrow> None
      | Some r \<Rightarrow>
          if r = [] then None
          else let v = trim r in
            if v = [] then None
            else if \<not> matchesScopeId v then None
            else Some v)"

definition normalizeRunId :: "string option \<Rightarrow> string option" where
  "normalizeRunId raw =
     (case raw of
        None \<Rightarrow> None
      | Some r \<Rightarrow>
          if r = [] then None
          else let v = trim r in
            if v = [] then None
            else if \<not> matchesScopeId v then None
            else Some v)"

definition normalizeLeaseId :: "string option \<Rightarrow> string option" where
  "normalizeLeaseId raw =
     (case raw of
        None \<Rightarrow> None
      | Some r \<Rightarrow>
          if r = [] then None
          else let v = trim r in
            if v = [] then None
            else if \<not> matchesLeaseId v then None
            else Some (toLowerCase v))"

definition normalizeLeaseBackend :: "string option \<Rightarrow> AppError + string" where
  "normalizeLeaseBackend raw =
     (let v = toLowerCase (trim (case raw of Some r \<Rightarrow> r | None \<Rightarrow> []))
      in if v = [] \<or> v = ''ios-simulator'' then Inr ''ios-simulator''
         else Inl (AppError ''INVALID_ARGS''
                (''Unsupported lease backend: '' @ (case raw of Some r \<Rightarrow> r | None \<Rightarrow> [])) None))"

definition bindingKey :: "string \<Rightarrow> string \<Rightarrow> string \<Rightarrow> string" where
  "bindingKey tenant run be = tenant @ '':'' @ run @ '':'' @ be"

definition leaseBindingKey :: "SimulatorLease \<Rightarrow> string" where
  "leaseBindingKey l = bindingKey (tenantId l) (runId l) (backend l)"

text \<open>
  \<open>cleanupExpiredLeases\<close> iterates over the live \<open>Map\<close> while it deletes from it:
  \<open>seen\<close> holds the entries already visited and still present, the third argument the
  entries not yet visited. An entry deleted before its turn is not visited.
\<close>

function cleanupLoop ::
  "int \<Rightarrow> (string \<times> SimulatorLease) list \<Rightarrow> (string \<times> SimulatorLease) list \<Rightarrow>
   (string \<times> string) list \<Rightarrow> (string \<times> SimulatorLease) list \<times> (string \<times> string) list" where
  "cleanupLoop now seen [] rb = (seen, rb)"
| "cleanupLoop now seen ((k, l) # rest) rb =
     (if expiresAt l > now then cleanupLoop now (seen @ [(k, l)]) rest rb
      else cleanupLoop now
             (AList.delete (leaseId l) (seen @ [(k, l)]))
             (AList.delete (leaseId l) rest)
             (AList.delete (leaseBindingKey l) rb))"
  by pat_completeness auto
termination
  by (relation "measure (\<lambda>(now, seen, rest, rb). length rest)")
     (auto simp: AList.delete_eq less_Suc_eq_le)

definition cleanupExpiredLeases :: "LeaseRegistry \<Rightarrow> int \<Rightarrow> LeaseRegistry" where
  "cleanupExpiredLeases reg now =
     (case cleanupLoop now [] (leases reg) (runBindings reg) of
        (ls, rb) \<Rightarrow> reg\<lparr>leases := ls, runBindings := rb\<rparr>)"

definition enforceCapacity :: "LeaseRegistry \<Rightarrow> string \<Rightarrow> AppError option" where
  "enforceCapacity reg be =
     (if be \<noteq> ''ios-simulator'' then None
      else if maxActiveSimulatorLeases reg \<le> 0 then None
      else let activeSimulatorLeases =
                 int (length (filter (\<lambda>(k, l). backend l = ''ios-simulator'') (leases reg)))
        in if activeSimulatorLeases < maxActiveSimulatorLeases reg then None
           else Some (AppError ''COMMAND_FAILED'' ''No simulator lease capacity available''
                  (Some [(''reason'', JStr ''LEASE_CAPACITY_EXCEEDED''),
                         (''activeLeases'', JNum activeSimulatorLeases),
                         (''maxActiveLeases'', JNum (maxActiveSimulatorLeases reg)),
                         (''backend'', JStr be),
                         (''hint'', JStr ''Retry after releasing another simulator lease.'')])))"

definition resolveLeaseTtlMs :: "LeaseRegistry \<Rightarrow> int option \<Rightarrow> AppError + int" where
  "resolveLeaseTtlMs reg raw =
     (case raw of
        None \<Rightarrow> Inr (defaultLeaseTtlMs reg)
      | Some v \<Rightarrow>
          if v < minLeaseTtlMs reg \<or> v > maxLeaseTtlMs reg
          then Inl (AppError ''INVALID_ARGS''
                 (''Lease ttlMs must be between '' @ showInt (minLeaseTtlMs reg) @ '' and ''
                  @ showInt (maxLeaseTtlMs reg) @ ''.'') None)
          else Inr v)"

definition refreshLease ::
  "LeaseRegistry \<Rightarrow> SimulatorLease \<Rightarrow> int \<Rightarrow> int \<Rightarrow> SimulatorLease \<times> LeaseRegistry" where
  "refreshLease reg lease ttlMs now =
     (let updated = lease\<lparr>heartbeatAt := now, expiresAt := now + ttlMs\<rparr>
      in (updated,
          reg\<lparr>leases := AList.update (leaseId updated) updated (leases reg),
              runBindings := AList.update (leaseBindingKey updated) (leaseId updated) (runBindings reg)\<rparr>))"

text \<open>\<^verbatim>\<open>crypto.randomBytes(16).toString('hex')\<close>: the bytes drawn are an argument.\<close>

definition hexDigit :: "nat \<Rightarrow> char" where
  "hexDigit d = ''0123456789abcdef'' ! (d mod 16)"

definition hexByte :: "8 word \<Rightarrow> string" where
  "hexByte b = [hexDigit (unat b div 16), hexDigit (unat b mod 16)]"

definition toHex :: "8 word list \<Rightarrow> string" where
  "toHex bs = concat (map hexByte bs)"

definition invalidTenantMessage :: string where
  "invalidTenantMessage =
     ''Invalid tenant id. Use 1-128 chars: letters, numbers, dot, underscore, hyphen.''"

definition invalidRunMessage :: string where
  "invalidRunMessage =
     ''Invalid run id. Use 1-128 chars: letters, numbers, dot, underscore, hyphen.''"

text \<open>
  The operations take the registry and return the outcome with the registry as the call
  leaves it. \<open>t0\<close> is the reading of \<open>this.now()\<close> made by \<open>cleanupExpiredLeases\<close>, \<open>t1\<close>
  the later reading that stamps the lease; \<open>rnd\<close> are the 16 random bytes.
\<close>

definition mintLease ::
  "LeaseRegistry \<Rightarrow> int \<Rightarrow> 8 word list \<Rightarrow> string \<Rightarrow> string \<Rightarrow> string \<Rightarrow> int \<Rightarrow>
   (AppError + SimulatorLease) \<times> LeaseRegistry" where
  "mintLease reg t1 rnd tenant run be leaseTtlMs =
     (case enforceCapacity reg be of
        Some e \<Rightarrow> (Inl e, reg)
      | None \<Rightarrow>
          let lease = \<lparr> leaseId = toHex rnd, tenantId = tenant, runId = run, backend = be,
                        createdAt = t1, heartbeatAt = t1, expiresAt = t1 + leaseTtlMs \<rparr>
          in (Inr lease,
              reg\<lparr>leases := AList.update (leaseId lease) lease (leases reg),
                  runBindings := AList.update (bindingKey tenant run be) (leaseId lease)
                                   (runBindings reg)\<rparr>))"

definition allocateLease ::
  "LeaseRegistry \<Rightarrow> int \<Rightarrow> int \<Rightarrow> 8 word list \<Rightarrow> string \<Rightarrow> string \<Rightarrow> string option \<Rightarrow>
   int option \<Rightarrow> (AppError + SimulatorLease) \<times> LeaseRegistry" where
  "allocateLease reg t0 t1 rnd tenantRaw runRaw backendRaw ttlRaw =
     (case normalizeLeaseBackend backendRaw of
        Inl e \<Rightarrow> (Inl e, reg)
      | Inr be \<Rightarrow>
     (case normalizeTenantId (Some tenantRaw) of
        None \<Rightarrow> (Inl (AppError ''INVALID_ARGS'' invalidTenantMessage None), reg)
      | Some tenant \<Rightarrow>
     (case normalizeRunId (Some runRaw) of
        None \<Rightarrow> (Inl (AppError ''INVALID_ARGS'' invalidRunMessage None), reg)
      | Some run \<Rightarrow>
     (let reg1 = cleanupExpiredLeases reg t0 in
      case resolveLeaseTtlMs reg1 ttlRaw of
        Inl e \<Rightarrow> (Inl e, reg1)
      | Inr leaseTtlMs \<Rightarrow>
          let key = bindingKey tenant run be in
          (case map_of (runBindings reg1) key of
             None \<Rightarrow> mintLease reg1 t1 rnd tenant run be leaseTtlMs
           | Some existingId \<Rightarrow>
               if existingId = [] then mintLease reg1 t1 rnd tenant run be leaseTtlMs
               else (case map_of (leases reg1) existingId of
                       Some existingLease \<Rightarrow>
                         (case refreshLease reg1 existingLease leaseTtlMs t1 of
                            (l, reg2) \<Rightarrow> (Inr l, reg2))
                     | None \<Rightarrow>
                         mintLease (reg1\<lparr>runBindings := AList.delete key (runBindings reg1)\<rparr>)
                           t1 rnd tenant run be leaseTtlMs))))))"

definition truthy :: "string option \<Rightarrow> bool" where
  "truthy s = (case s of None \<Rightarrow> False | Some v \<Rightarrow> v \<noteq> [])"

definition leaseNotFound :: AppError where
  "leaseNotFound =
     AppError ''UNAUTHORIZED'' ''Lease is not active'' (Some [(''reason'', JStr ''LEASE_NOT_FOUND'')])"

definition leaseScopeMismatch :: AppError where
  "leaseScopeMismatch =
     AppError ''UNAUTHORIZED'' ''Lease does not match tenant/run scope''
       (Some [(''reason'', JStr ''LEASE_SCOPE_MISMATCH'')])"

definition assertOptionalScopeMatch ::
  "SimulatorLease \<Rightarrow> string option \<Rightarrow> string option \<Rightarrow> AppError option" where
  "assertOptionalScopeMatch lease tenantRaw runRaw =
     (let tenant = normalizeTenantId tenantRaw;
          run = normalizeRunId runRaw
      in if truthy tenantRaw \<and> \<not> truthy tenant
           then Some (AppError ''INVALID_ARGS'' invalidTenantMessage None)
         else if truthy runRaw \<and> \<not> truthy run
           then Some (AppError ''INVALID_ARGS'' invalidRunMessage None)
         else if truthy tenant \<and> Some (tenantId lease) \<noteq> tenant then Some leaseScopeMismatch
         else if truthy run \<and> Some (runId lease) \<noteq> run then Some leaseScopeMismatch
         else None)"

definition heartbeatLease ::
  "LeaseRegistry \<Rightarrow> int \<Rightarrow> int \<Rightarrow> string \<Rightarrow> string option \<Rightarrow> string option \<Rightarrow> int option \<Rightarrow>
   (AppError + SimulatorLease) \<times> LeaseRegistry" where
  "heartbeatLease reg t0 t1 leaseIdRaw tenantRaw runRaw ttlRaw =
     (case normalizeLeaseId (Some leaseIdRaw) of
        None \<Rightarrow> (Inl (AppError ''INVALID_ARGS'' ''Invalid lease id.'' None), reg)
      | Some lid \<Rightarrow>
     (let reg1 = cleanupExpiredLeases reg t0 in
      case map_of (leases reg1) lid of
        None \<Rightarrow> (Inl leaseNotFound, reg1)
      | Some lease \<Rightarrow>
     (case assertOptionalScopeMatch lease tenantRaw runRaw of
        Some e \<Rightarrow> (Inl e, reg1)
      | None \<Rightarrow>
     (case resolveLeaseTtlMs reg1 ttlRaw of
        Inl e \<Rightarrow> (Inl e, reg1)
      | Inr leaseTtlMs \<Rightarrow>
          (case refreshLease reg1 lease leaseTtlMs t1 of (l, reg2) \<Rightarrow> (Inr l, reg2))))))"

text \<open>The result \<open>{released: b}\<close> is the boolean \<open>b\<close>.\<close>

definition releaseLease ::
  "LeaseRegistry \<Rightarrow> int \<Rightarrow> string \<Rightarrow> string option \<Rightarrow> string option \<Rightarrow>
   (AppError + bool) \<times> LeaseRegistry" where
  "releaseLease reg t0 leaseIdRaw tenantRaw runRaw =
     (case normalizeLeaseId (Some leaseIdRaw) of
        None \<Rightarrow> (Inl (AppError ''INVALID_ARGS'' ''Invalid lease id.'' None), reg)
      | Some lid \<Rightarrow>
     (let reg1 = cleanupExpiredLeases reg t0 in
      case map_of (leases reg1) lid of
        None \<Rightarrow> (Inr False, reg1)
      | Some lease \<Rightarrow>
     (case assertOptionalScopeMatch lease tenantRaw runRaw of
        Some e \<Rightarrow> (Inl e, reg1)
      | None \<Rightarrow>
          (Inr True,
           reg1\<lparr>leases := AList.delete lid (leases reg1),
                runBindings := AList.delete (leaseBindingKey lease) (runBindings reg1)\<rparr>))))"

text \<open>\<open>assertLeaseAdmission\<close> returns nothing: \<open>None\<close> is a normal return, \<open>Some e\<close> a throw.\<close>

definition assertLeaseAdmission ::
  "LeaseRegistry \<Rightarrow> int \<Rightarrow> string option \<Rightarrow> string option \<Rightarrow> string option \<Rightarrow> string option \<Rightarrow>
   AppError option \<times> LeaseRegistry" where
  "assertLeaseAdmission reg t0 tenantRaw runRaw leaseIdRaw backendRaw =
     (case normalizeLeaseBackend backendRaw of
        Inl e \<Rightarrow> (Some e, reg)
      | Inr be \<Rightarrow>
     (case normalizeTenantId tenantRaw of
        None \<Rightarrow> (Some (AppError ''INVALID_ARGS'' ''tenant isolation requires tenant id.'' None), reg)
      | Some tenant \<Rightarrow>
     (case normalizeRunId runRaw of
        None \<Rightarrow> (Some (AppError ''INVALID_ARGS'' ''tenant isolation requires run id.'' None), reg)
      | Some run \<Rightarrow>
     (case normalizeLeaseId leaseIdRaw of
        None \<Rightarrow> (Some (AppError ''INVALID_ARGS'' ''tenant isolation requires lease id.'' None), reg)
      | Some lid \<Rightarrow>
     (let reg1 = cleanupExpiredLeases reg t0 in
      case map_of (leases reg1) lid of
        None \<Rightarrow> (Some leaseNotFound, reg1)
      | Some lease \<Rightarrow>
          if backend lease \<noteq> be \<or> tenantId lease \<noteq> tenant \<or> runId lease \<noteq> run
          then (Some leaseScopeMismatch, reg1)
          else (None, reg1))))))"

section \<open>Normalized errors (utils/errors.ts)\<close>

text \<open>
  What a \<^verbatim>\<open>catch\<close> receives: an \<open>AppError\<close>, another \<open>Error\<close> (with its message), or any
  other value. The \<open>cause\<close> of an \<open>AppError\<close> plays no part in normalization and is left out.
\<close>

datatype thrown = ThrownAppError AppError | ThrownError string | ThrownOther jsval

fun asAppError :: "thrown \<Rightarrow> AppError" where
  "asAppError (ThrownAppError e) = e"
| "asAppError (ThrownError m) = AppError ''UNKNOWN'' m None"
| "asAppError (ThrownOther v) = AppError ''UNKNOWN'' ''Unknown error'' (Some [(''err'', v)])"

record NormalizedError =
  code :: string
  message :: string
  hint :: "string option"
  diagnosticId :: "string option"
  logPath :: "string option"
  details :: "jsobject option"

text \<open>\<^verbatim>\<open>details && typeof details.k === 'string' ? details.k : undefined\<close>\<close>

definition stringField :: "jsobject option \<Rightarrow> string \<Rightarrow> string option" where
  "stringField d k =
     (case d of
        None \<Rightarrow> None
      | Some obj \<Rightarrow> (case map_of obj k of Some (JStr s) \<Rightarrow> Some s | _ \<Rightarrow> None))"

text \<open>\<^verbatim>\<open>s.split(c)\<close> for a one-character separator.\<close>

fun splitOn :: "char \<Rightarrow> string \<Rightarrow> string list" where
  "splitOn c [] = [[]]"
| "splitOn c (x # xs) =
     (if x = c then [] # splitOn c xs
      else (case splitOn c xs of [] \<Rightarrow> [[x]] | l # ls \<Rightarrow> (x # l) # ls))"

text \<open>A case-insensitive match of a literal (given in lowercase) at the start of the line.\<close>

definition startsWithCI :: "string \<Rightarrow> string \<Rightarrow> bool" where
  "startsWithCI p line = (take (length p) (toLowerCase line) = p)"

definition isWordChar :: "char \<Rightarrow> bool" where
  "isWordChar c = (isLetter c \<or> isDigit c \<or> c = CHR ''_'')"

text \<open>
  The three \<open>skipPatterns\<close>; the second ends in \<^verbatim>\<open>\b\<close>, a word boundary after the final
  \<open>r\<close>: the end of the line or a character that is not a word character.
\<close>

definition isBoilerplate :: "string \<Rightarrow> bool" where
  "isBoilerplate line =
     (startsWithCI ''an error was encountered processing the command'' line \<or>
      (startsWithCI ''underlying error'' line \<and>
       (case drop (length ''underlying error'') line of [] \<Rightarrow> True | c # _ \<Rightarrow> \<not> isWordChar c)) \<or>
      startsWithCI ''simulator device failed to complete the requested operation'' line)"

fun firstStderrLineLoop :: "string list \<Rightarrow> string option" where
  "firstStderrLineLoop [] = None"
| "firstStderrLineLoop (rawLine # rest) =
     (let line = trim rawLine
      in if line = [] then firstStderrLineLoop rest
         else if isBoilerplate line then firstStderrLineLoop rest
         else Some (if length line > 200 then take 200 line @ ''...'' else line))"

definition firstStderrLine :: "string \<Rightarrow> string option" where
  "firstStderrLine stderr = firstStderrLineLoop (splitOn (CHR 0x0A) stderr)"

definition maybeEnrichCommandFailedMessage ::
  "string \<Rightarrow> string \<Rightarrow> jsobject option \<Rightarrow> string" where
  "maybeEnrichCommandFailedMessage c msg d =
     (if c \<noteq> ''COMMAND_FAILED'' then msg
      else if (case d of None \<Rightarrow> None | Some obj \<Rightarrow> map_of obj ''processExitError'')
              \<noteq> Some (JBool True) then msg
      else let stderr = (case stringField d ''stderr'' of Some s \<Rightarrow> s | None \<Rightarrow> [])
        in (case firstStderrLine stderr of
              None \<Rightarrow> msg
            | Some excerpt \<Rightarrow> if excerpt = [] then msg else excerpt))"

definition stripDiagnosticMeta :: "jsobject option \<Rightarrow> jsobject option" where
  "stripDiagnosticMeta d =
     (case d of
        None \<Rightarrow> None
      | Some obj \<Rightarrow>
          let output = AList.delete ''logPath''
                         (AList.delete ''diagnosticId'' (AList.delete ''hint'' obj))
          in if output \<noteq> [] then Some output else None)"

definition defaultHintForCode :: "string \<Rightarrow> string" where
  "defaultHintForCode c =
     (if c = ''INVALID_ARGS'' then ''Check command arguments and run --help for usage examples.''
      else if c = ''SESSION_NOT_FOUND'' then ''Run open first or pass an explicit device selector.''
      else if c = ''TOOL_MISSING''
        then ''Install required platform tooling and ensure it is available in PATH.''
      else if c = ''DEVICE_NOT_FOUND''
        then ''Verify the target device is booted/connected and selectors match.''
      else if c = ''UNSUPPORTED_OPERATION''
        then ''This command is not available for the selected platform/device.''
      else if c = ''COMMAND_FAILED''
        then ''Retry with --debug and inspect diagnostics log for details.''
      else if c = ''UNAUTHORIZED'' then ''Refresh daemon metadata and retry the command.''
      else ''Retry with --debug and inspect diagnostics log for details.'')"

text \<open>
  \<open>redactDiagnosticData\<close> (utils/diagnostics.ts) is the argument \<open>redact\<close>; the two context
  fields are the arguments \<open>ctxDiagnosticId\<close> and \<open>ctxLogPath\<close>.
\<close>

definition normalizeError ::
  "(jsobject \<Rightarrow> jsobject) \<Rightarrow> thrown \<Rightarrow> string option \<Rightarrow> string option \<Rightarrow> NormalizedError" where
  "normalizeError redact err ctxDiagnosticId ctxLogPath =
     (case asAppError err of
        AppError c msg d0 \<Rightarrow>
          let d = (case d0 of None \<Rightarrow> None | Some obj \<Rightarrow> Some (redact obj));
              detailHint = stringField d ''hint'';
              diagId = (case stringField d ''diagnosticId'' of
                          Some x \<Rightarrow> Some x | None \<Rightarrow> ctxDiagnosticId);
              logP = (case stringField d ''logPath'' of Some x \<Rightarrow> Some x | None \<Rightarrow> ctxLogPath);
              h = (case detailHint of Some x \<Rightarrow> x | None \<Rightarrow> defaultHintForCode c);
              cleanDetails = stripDiagnosticMeta d;
              m = maybeEnrichCommandFailedMessage c msg d
          in \<lparr> code = c, message = m, hint = Some h, diagnosticId = diagId, logPath = logP,
               details = cleanDetails \<rparr>)"

section \<open>Request pipeline (daemon.ts)\<close>

text \<open>The request envelope, with the flags and the meta fields that the pipeline reads.\<close>

record CommandFlags =
  f_sessionIsolation :: "string option"
  f_tenant :: "string option"
  f_runId :: "string option"
  f_leaseId :: "string option"
  f_platform :: "string option"
  f_target :: "string option"
  f_udid :: "string option"
  f_serial :: "string option"
  f_device :: "string option"
  f_iosSimulatorDeviceSet :: "string option"
  f_androidDeviceAllowlist :: "string option"
  f_verbose :: "bool option"
  f_out :: "string option"

record RequestMeta =
  m_requestId :: "string option"
  m_debug :: "bool option"
  m_tenantId :: "string option"
  m_runId :: "string option"
  m_leaseId :: "string option"
  m_leaseTtlMs :: "int option"
  m_leaseBackend :: "string option"
  m_sessionIsolation :: "string option"

record DaemonRequest =
  token :: string
  session :: string
  command :: string
  positionals :: "string list option"
  flags :: "CommandFlags option"
  meta :: "RequestMeta option"

definition noFlags :: CommandFlags where
  "noFlags = \<lparr> f_sessionIsolation = None, f_tenant = None, f_runId = None, f_leaseId = None,
               f_platform = None, f_target = None, f_udid = None, f_serial = None,
               f_device = None, f_iosSimulatorDeviceSet = None, f_androidDeviceAllowlist = None,
               f_verbose = None, f_out = None \<rparr>"

definition noMeta :: RequestMeta where
  "noMeta = \<lparr> m_requestId = None, m_debug = None, m_tenantId = None, m_runId = None,
              m_leaseId = None, m_leaseTtlMs = None, m_leaseBackend = None,
              m_sessionIsolation = None \<rparr>"

text \<open>\<^verbatim>\<open>req.meta?.k ?? req.flags?.k\<close>\<close>

definition metaOrFlag ::
  "DaemonRequest \<Rightarrow> (RequestMeta \<Rightarrow> 'a option) \<Rightarrow> (CommandFlags \<Rightarrow> 'a option) \<Rightarrow> 'a option" where
  "metaOrFlag req fm ff =
     (case (case meta req of None \<Rightarrow> None | Some m \<Rightarrow> fm m) of
        Some v \<Rightarrow> Some v
      | None \<Rightarrow> (case flags req of None \<Rightarrow> None | Some f \<Rightarrow> ff f))"

text \<open>daemon/config.ts\<close>

definition resolveSessionIsolationMode :: "string option \<Rightarrow> string" where
  "resolveSessionIsolationMode raw =
     (let normalized = toLowerCase (trim (case raw of Some r \<Rightarrow> r | None \<Rightarrow> []))
      in if normalized = ''tenant'' then ''tenant'' else ''none'')"

definition scopeRequestSession :: "DaemonRequest \<Rightarrow> AppError + DaemonRequest" where
  "scopeRequestSession req =
     (let isolation = resolveSessionIsolationMode
                        (metaOrFlag req m_sessionIsolation f_sessionIsolation);
          rawTenant = metaOrFlag req m_tenantId f_tenant;
          tenant = normalizeTenantId rawTenant
      in if truthy rawTenant \<and> \<not> truthy tenant
           then Inl (AppError ''INVALID_ARGS'' invalidTenantMessage None)
         else if isolation \<noteq> ''tenant'' then Inr req
         else (case tenant of
                 None \<Rightarrow> Inl (AppError ''INVALID_ARGS''
                   ''session isolation mode tenant requires --tenant (or meta.tenantId).'' None)
               | Some t \<Rightarrow>
                   if t = [] then Inl (AppError ''INVALID_ARGS''
                     ''session isolation mode tenant requires --tenant (or meta.tenantId).'' None)
                   else Inr (req\<lparr> session := t @ '':'' @
                                     (if session req = [] then ''default'' else session req),
                                  meta := Some ((case meta req of None \<Rightarrow> noMeta | Some m \<Rightarrow> m)
                                     \<lparr> m_tenantId := Some t,
                                       m_sessionIsolation := Some isolation \<rparr>) \<rparr>)))"

definition normalizeAliasedCommands :: "DaemonRequest \<Rightarrow> DaemonRequest" where
  "normalizeAliasedCommands req =
     (if command req = ''click'' then req\<lparr>command := ''press''\<rparr> else req)"

text \<open>Devices and sessions (utils/device.ts, daemon/types.ts), with the fields that are read.\<close>

record DeviceInfo =
  dev_platform :: string
  dev_id :: string
  dev_name :: string
  dev_kind :: string
  dev_target :: "string option"
  dev_booted :: "bool option"
  dev_simulatorSetPath :: "string option"

record SessionState =
  sess_name :: string
  sess_device :: DeviceInfo

definition normalizePlatformSelector :: "string option \<Rightarrow> string option" where
  "normalizePlatformSelector p = (if p = Some ''apple'' then Some ''ios'' else p)"

text \<open>
  \<open>parseSerialAllowlist\<close> (utils/device-isolation.ts): the non-empty pieces of the value
  between runs of white space and commas.
\<close>

fun splitSeparators :: "string \<Rightarrow> string \<Rightarrow> string list" where
  "splitSeparators acc [] = (if acc = [] then [] else [acc])"
| "splitSeparators acc (c # cs) =
     (if isWhitespace c \<or> c = CHR '','' then
        (if acc = [] then splitSeparators [] cs else acc # splitSeparators [] cs)
      else splitSeparators (acc @ [c]) cs)"

definition parseSerialAllowlist :: "string \<Rightarrow> string list" where
  "parseSerialAllowlist v = filter (\<lambda>e. e \<noteq> []) (map trim (splitSeparators [] v))"

text \<open>daemon/session-selector.ts\<close>

fun joinWith :: "string \<Rightarrow> string list \<Rightarrow> string" where
  "joinWith sep [] = []"
| "joinWith sep [x] = x"
| "joinWith sep (x # y # ys) = x @ sep @ joinWith sep (y # ys)"

definition describeDevice :: "SessionState \<Rightarrow> string" where
  "describeDevice s =
     dev_platform (sess_device s) @ '' device \"'' @ trim (dev_name (sess_device s)) @ ''\" (''
     @ dev_id (sess_device s) @ '')''"

definition valueOf :: "string option \<Rightarrow> string" where
  "valueOf v = (case v of Some s \<Rightarrow> s | None \<Rightarrow> [])"

definition selectorMismatches :: "SessionState \<Rightarrow> CommandFlags \<Rightarrow> string list" where
  "selectorMismatches s f =
     (let device = sess_device s;
          normalizedPlatform = normalizePlatformSelector (f_platform f)
      in (if truthy normalizedPlatform \<and> normalizedPlatform \<noteq> Some (dev_platform device)
          then [''--platform='' @ valueOf (f_platform f)] else [])
       @ (if truthy (f_target f) \<and>
             f_target f \<noteq> Some (case dev_target device of Some t \<Rightarrow> t | None \<Rightarrow> ''mobile'')
          then [''--target='' @ valueOf (f_target f)] else [])
       @ (if truthy (f_udid f) \<and>
             (dev_platform device \<noteq> ''ios'' \<or> f_udid f \<noteq> Some (dev_id device))
          then [''--udid='' @ valueOf (f_udid f)] else [])
       @ (if truthy (f_serial f) \<and>
             (dev_platform device \<noteq> ''android'' \<or> f_serial f \<noteq> Some (dev_id device))
          then [''--serial='' @ valueOf (f_serial f)] else [])
       @ (if truthy (f_device f) \<and>
             toLowerCase (trim (valueOf (f_device f))) \<noteq> toLowerCase (trim (dev_name device))
          then [''--device='' @ valueOf (f_device f)] else [])
       @ (if truthy (f_iosSimulatorDeviceSet f) \<and>
             (dev_platform device \<noteq> ''ios'' \<or> dev_kind device \<noteq> ''simulator'' \<or>
              Some (trim (valueOf (f_iosSimulatorDeviceSet f)))
                \<noteq> map_option trim (dev_simulatorSetPath device))
          then [''--ios-simulator-device-set='' @ valueOf (f_iosSimulatorDeviceSet f)] else [])
       @ (if truthy (f_androidDeviceAllowlist f) \<and>
             (dev_platform device \<noteq> ''android'' \<or>
              dev_id device \<notin> set (parseSerialAllowlist (valueOf (f_androidDeviceAllowlist f))))
          then [''--android-device-allowlist='' @ valueOf (f_androidDeviceAllowlist f)] else []))"

definition assertSessionSelectorMatches ::
  "SessionState \<Rightarrow> CommandFlags option \<Rightarrow> AppError option" where
  "assertSessionSelectorMatches s fo =
     (case fo of
        None \<Rightarrow> None
      | Some f \<Rightarrow>
          let mismatches = selectorMismatches s f
          in if mismatches = [] then None
             else Some (AppError ''INVALID_ARGS''
                    (''Session \"'' @ sess_name s @ ''\" is bound to '' @ describeDevice s
                     @ '' and cannot be used with '' @ joinWith '', '' mismatches
                     @ ''. Use a different --session name or close this session first.'') None))"

text \<open>daemon/lease-context.ts\<close>

record LeaseScope =
  ls_tenantId :: "string option"
  ls_runId :: "string option"
  ls_leaseId :: "string option"
  ls_leaseTtlMs :: "int option"
  ls_leaseBackend :: "string option"

definition resolveLeaseScope :: "DaemonRequest \<Rightarrow> LeaseScope" where
  "resolveLeaseScope req =
     \<lparr> ls_tenantId = metaOrFlag req m_tenantId f_tenant,
       ls_runId = metaOrFlag req m_runId f_runId,
       ls_leaseId = metaOrFlag req m_leaseId f_leaseId,
       ls_leaseTtlMs = (case meta req of None \<Rightarrow> None | Some m \<Rightarrow> m_leaseTtlMs m),
       ls_leaseBackend = (case meta req of None \<Rightarrow> None | Some m \<Rightarrow> m_leaseBackend m) \<rparr>"

text \<open>The response envelope: \<open>{ok: true, data}\<close> or \<open>{ok: false, error}\<close>.\<close>

datatype DaemonResponse = Ok jsobject | Fail NormalizedError

definition leaseToJson :: "SimulatorLease \<Rightarrow> jsval" where
  "leaseToJson l =
     JObj [(''leaseId'', JStr (leaseId l)), (''tenantId'', JStr (tenantId l)),
           (''runId'', JStr (runId l)), (''backend'', JStr (backend l)),
           (''createdAt'', JNum (createdAt l)), (''heartbeatAt'', JNum (heartbeatAt l)),
           (''expiresAt'', JNum (expiresAt l))]"

text \<open>
  daemon/handlers/lease.ts. \<open>None\<close> is the \<open>null\<close> of a command that is not a lease
  command; a throw of the registry is \<open>Some (Inl e)\<close>.
\<close>

definition handleLeaseCommands ::
  "DaemonRequest \<Rightarrow> LeaseRegistry \<Rightarrow> int \<Rightarrow> int \<Rightarrow> 8 word list \<Rightarrow>
   (AppError + DaemonResponse) option \<times> LeaseRegistry" where
  "handleLeaseCommands req reg t0 t1 rnd =
     (let leaseScope = resolveLeaseScope req
      in if command req = ''lease_allocate'' then
           (case allocateLease reg t0 t1 rnd (valueOf (ls_tenantId leaseScope))
                   (valueOf (ls_runId leaseScope)) (ls_leaseBackend leaseScope)
                   (ls_leaseTtlMs leaseScope) of
              (Inl e, reg') \<Rightarrow> (Some (Inl e), reg')
            | (Inr lease, reg') \<Rightarrow> (Some (Inr (Ok [(''lease'', leaseToJson lease)])), reg'))
         else if command req = ''lease_heartbeat'' then
           (case heartbeatLease reg t0 t1 (valueOf (ls_leaseId leaseScope))
                   (ls_tenantId leaseScope) (ls_runId leaseScope) (ls_leaseTtlMs leaseScope) of
              (Inl e, reg') \<Rightarrow> (Some (Inl e), reg')
            | (Inr lease, reg') \<Rightarrow> (Some (Inr (Ok [(''lease'', leaseToJson lease)])), reg'))
         else if command req = ''lease_release'' then
           (case releaseLease reg t0 (valueOf (ls_leaseId leaseScope))
                   (ls_tenantId leaseScope) (ls_runId leaseScope) of
              (Inl e, reg') \<Rightarrow> (Some (Inl e), reg')
            | (Inr released, reg') \<Rightarrow> (Some (Inr (Ok [(''released'', JBool released)])), reg'))
         else (None, reg))"

definition selectorValidationExemptCommands :: "string list" where
  "selectorValidationExemptCommands = [''session_list'', ''devices'']"

definition leaseAdmissionExemptCommands :: "string list" where
  "leaseAdmissionExemptCommands =
     [''session_list'', ''devices'', ''lease_allocate'', ''lease_heartbeat'', ''lease_release'']"

text \<open>
  What \<open>handleRequest\<close> takes from modules that are not modelled: the secret \<open>token\<close> of the
  run, \<open>redactDiagnosticData\<close>, the diagnostic id and the log path of the diagnostics
  scope, \<open>resolveEffectiveSessionName\<close> (daemon/session-routing.ts) and the lookup of the
  session store.
\<close>

record PipelineEnv =
  env_token :: string
  env_redact :: "jsobject \<Rightarrow> jsobject"
  env_diagnosticId :: "string option"
  env_logPathOnFailure :: "string option"
  env_resolveEffectiveSessionName :: "DaemonRequest \<Rightarrow> string"
  env_sessionGet :: "string \<Rightarrow> SessionState option"

definition optString :: "string option \<Rightarrow> jsval" where
  "optString v = (case v of None \<Rightarrow> JUndefined | Some s \<Rightarrow> JStr s)"

definition finalizeDaemonResponse :: "PipelineEnv \<Rightarrow> DaemonResponse \<Rightarrow> DaemonResponse" where
  "finalizeDaemonResponse env response =
     (case response of
        Ok d \<Rightarrow> Ok d
      | Fail e \<Rightarrow>
          Fail (normalizeError (env_redact env)
                 (ThrownAppError (AppError (code e) (message e)
                    (Some (AList.update ''logPath'' (optString (logPath e))
                            (AList.update ''diagnosticId'' (optString (diagnosticId e))
                              (AList.update ''hint'' (optString (hint e))
                                (case details e of None \<Rightarrow> [] | Some d \<Rightarrow> d)))))))
                 (env_diagnosticId env) (env_logPathOnFailure env)))"

text \<open>
  \<open>handleRequest\<close> up to and including the lease handler. \<open>Responded r\<close>: the function
  returns \<open>r\<close> there. \<open>Proceeds req name\<close>: control goes on to the session, snapshot,
  record, find and interaction handlers and to the default dispatch, which are the only
  places that call \<open>dispatchCommand\<close>. The readings of the clock are \<open>tAdm\<close> (the sweep of
  \<open>assertLeaseAdmission\<close>) and \<open>t0\<close>, \<open>t1\<close> (the lease command).
\<close>

datatype Outcome = Responded DaemonResponse | Proceeds DaemonRequest string

definition requestFailed :: "PipelineEnv \<Rightarrow> AppError \<Rightarrow> Outcome" where
  "requestFailed env e =
     Responded (Fail (normalizeError (env_redact env) (ThrownAppError e)
                        (env_diagnosticId env) (env_logPathOnFailure env)))"

definition handleRequest ::
  "PipelineEnv \<Rightarrow> LeaseRegistry \<Rightarrow> int \<Rightarrow> int \<Rightarrow> int \<Rightarrow> 8 word list \<Rightarrow> DaemonRequest \<Rightarrow>
   Outcome \<times> LeaseRegistry" where
  "handleRequest env reg tAdm t0 t1 rnd req =
     (let normalizedReq = normalizeAliasedCommands req
      in if token normalizedReq \<noteq> env_token env then
           (Responded (Fail (normalizeError (env_redact env)
              (ThrownAppError (AppError ''UNAUTHORIZED'' ''Invalid token'' None)) None None)), reg)
         else
     (case scopeRequestSession normalizedReq of
        Inl e \<Rightarrow> (requestFailed env e, reg)
      | Inr scopedReq \<Rightarrow>
     (let cmd = command scopedReq;
          leaseScope = resolveLeaseScope scopedReq
      in
     (case (if cmd \<notin> set leaseAdmissionExemptCommands \<and>
               (case meta scopedReq of None \<Rightarrow> None | Some m \<Rightarrow> m_sessionIsolation m)
                 = Some ''tenant''
            then assertLeaseAdmission reg tAdm (ls_tenantId leaseScope) (ls_runId leaseScope)
                   (ls_leaseId leaseScope) (ls_leaseBackend leaseScope)
            else (None, reg)) of
        (Some e, reg1) \<Rightarrow> (requestFailed env e, reg1)
      | (None, reg1) \<Rightarrow>
     (let sessionName = env_resolveEffectiveSessionName env scopedReq;
          existingSession = env_sessionGet env sessionName
      in
     (case (case existingSession of
              None \<Rightarrow> None
            | Some s \<Rightarrow>
                if cmd \<notin> set selectorValidationExemptCommands
                then assertSessionSelectorMatches s (flags scopedReq) else None) of
        Some e \<Rightarrow> (requestFailed env e, reg1)
      | None \<Rightarrow>
     (case handleLeaseCommands scopedReq reg1 t0 t1 rnd of
        (Some (Inl e), reg2) \<Rightarrow> (requestFailed env e, reg2)
      | (Some (Inr response), reg2) \<Rightarrow> (Responded (finalizeDaemonResponse env response), reg2)
      | (None, reg2) \<Rightarrow> (Proceeds scopedReq sessionName, reg2))))))))"

subsection \<open>Invariant of the registry\<close>

text \<open>
  The shape of the ids that \<open>allocateLease\<close> mints, and the invariant that every public
  operation maintains: the keys of the lease map are distinct minted ids, every lease is
  stored under its own id, and the binding index maps the binding key of every stored
  lease to that lease.
\<close>

definition isMintedId :: "string \<Rightarrow> bool" where
  "isMintedId s = (length s = 32 \<and> list_all (\<lambda>c. c \<in> set ''0123456789abcdef'') s)"

definition registryInv :: "LeaseRegistry \<Rightarrow> bool" where
  "registryInv reg =
     (distinct (map fst (leases reg)) \<and>
      list_all (\<lambda>(k, l). leaseId l = k \<and> isMintedId k \<and>
                  map_of (runBindings reg) (leaseBindingKey l) = Some k) (leases reg))"

text \<open>
  A registry with two leases, as the test suite builds them: \<open>tenant-b/run-9\<close> allocated
  at time 0 for 5 s, \<open>tenant-a/run-1\<close> allocated at time 1000 for the default 60 s.
\<close>

definition bytesA :: "8 word list" where
  "bytesA = [0, 1, 2, 3, 4, 5, 6, 7, 8, 9, 10, 11, 12, 13, 14, 255]"

definition bytesB :: "8 word list" where
  "bytesB = [171, 205, 239, 1, 35, 69, 103, 137, 171, 205, 239, 1, 35, 69, 103, 137]"

definition twoLeases :: LeaseRegistry where
  "twoLeases =
     snd (allocateLease
           (snd (allocateLease (newLeaseRegistry noOptions) 0 0 bytesB
                  ''tenant-b'' ''run-9'' None (Some 5000)))
           1000 1000 bytesA ''tenant-a'' ''run-1'' None None)"

section \<open>Singleton lock (daemon.ts)\<close>

text \<open>
  The lock file, as \<open>acquireDaemonLock\<close> sees it. Its text is either rejected by
  \<^verbatim>\<open>JSON.parse\<close> or parsed to a value. The state directory exists; it accepts writes or
  not, and a directory that does not accept them stands for every failure of a write other
  than \<open>EEXIST\<close>. The calls made to the file system are recorded in order.
\<close>

datatype JsonText = NotJson | Json jsval

datatype FsCall = WriteExclusive | ExistsSync | ReadFile | Unlink

record FileSystem =
  fs_lock :: "JsonText option"
  fs_writable :: bool
  fs_calls :: "FsCall list"

datatype IoError = Errno string

text \<open>
  \<open>DaemonLockInfo\<close>, with the two fields that are read back (\<open>version\<close> and \<open>startedAt\<close> are
  only written).
\<close>

record DaemonLockInfo =
  lock_pid :: int
  lock_processStartTime :: "string option"

text \<open>
  What the starting daemon knows of itself (\<open>process.pid\<close>, \<open>version\<close>,
  \<open>daemonProcessStartTime\<close>) and the process table of the operating system.
\<close>

record OsProcess =
  proc_isDaemon :: bool
  proc_startTime :: "string option"

record DaemonProcess =
  d_pid :: int
  d_version :: string
  d_processStartTime :: "string option"
  d_processes :: "(int \<times> OsProcess) list"

text \<open>
  Modelled from the spec: \<open>isAgentDeviceDaemonProcess\<close> (utils/process-identity.ts) is not
  among the sources. The spec (4.1): it returns true iff the OS reports a process with that
  PID whose executable identity matches this project (\<open>proc_isDaemon\<close>: the command line
  contains the daemon entry path) and, when an expected start time is given, its start
  time matches.
\<close>

definition isAgentDeviceDaemonProcess ::
  "(int \<times> OsProcess) list \<Rightarrow> int \<Rightarrow> string option \<Rightarrow> bool" where
  "isAgentDeviceDaemonProcess procs pid expectedStartTime =
     (case map_of procs pid of
        None \<Rightarrow> False
      | Some p \<Rightarrow>
          proc_isDaemon p \<and>
          (case expectedStartTime of None \<Rightarrow> True | Some t \<Rightarrow> proc_startTime p = Some t))"

text \<open>
  \<open>readLockInfo\<close>: \<open>null\<close> when the file is absent, when its text does not parse, when the
  parsed value is \<open>null\<close> (reading \<open>pid\<close> throws, and the throw is caught), and when \<open>pid\<close> is
  not a positive integer.
\<close>

definition readLockInfo :: "FileSystem \<Rightarrow> DaemonLockInfo option \<times> FileSystem" where
  "readLockInfo fs =
     (case fs_lock fs of
        None \<Rightarrow> (None, fs\<lparr>fs_calls := fs_calls fs @ [ExistsSync]\<rparr>)
      | Some content \<Rightarrow>
          ((case content of
              NotJson \<Rightarrow> None
            | Json (JObj obj) \<Rightarrow>
                (case map_of obj ''pid'' of
                   Some (JNum p) \<Rightarrow>
                     if p \<le> 0 then None
                     else Some \<lparr>lock_pid = p,
                                lock_processStartTime = stringField (Some obj) ''processStartTime''\<rparr>
                 | _ \<Rightarrow> None)
            | Json _ \<Rightarrow> None),
           fs\<lparr>fs_calls := fs_calls fs @ [ExistsSync, ReadFile]\<rparr>))"

text \<open>The payload: \<^verbatim>\<open>JSON.stringify\<close> leaves out a \<open>processStartTime\<close> that is undefined.\<close>

definition lockPayload :: "DaemonProcess \<Rightarrow> int \<Rightarrow> jsval" where
  "lockPayload self now =
     JObj ([(''pid'', JNum (d_pid self)), (''version'', JStr (d_version self)),
            (''startedAt'', JNum now)]
           @ (case d_processStartTime self of
                None \<Rightarrow> [] | Some t \<Rightarrow> [(''processStartTime'', JStr t)]))"

text \<open>
  \<open>tryWriteLock\<close>: the exclusive create (flag \<open>wx\<close>). \<open>EEXIST\<close> is \<open>false\<close>; any other
  failure is thrown.
\<close>

definition tryWriteLock :: "jsval \<Rightarrow> FileSystem \<Rightarrow> (IoError + bool) \<times> FileSystem" where
  "tryWriteLock payload fs =
     (let fs1 = fs\<lparr>fs_calls := fs_calls fs @ [WriteExclusive]\<rparr>
      in if fs_lock fs \<noteq> None then (Inr False, fs1)
         else if \<not> fs_writable fs then (Inl (Errno ''EACCES''), fs1)
         else (Inr True, fs1\<lparr>fs_lock := Some (Json payload)\<rparr>))"

text \<open>\<^verbatim>\<open>try { fs.unlinkSync(lockPath) } catch { }\<close>\<close>

definition unlinkLock :: "FileSystem \<Rightarrow> FileSystem" where
  "unlinkLock fs =
     fs\<lparr>fs_lock := (if fs_writable fs then None else fs_lock fs),
        fs_calls := fs_calls fs @ [Unlink]\<rparr>"

definition acquireDaemonLock ::
  "DaemonProcess \<Rightarrow> int \<Rightarrow> FileSystem \<Rightarrow> (IoError + bool) \<times> FileSystem" where
  "acquireDaemonLock self now fs =
     (let payload = lockPayload self now
      in case tryWriteLock payload fs of
           (Inl e, fs1) \<Rightarrow> (Inl e, fs1)
         | (Inr True, fs1) \<Rightarrow> (Inr True, fs1)
         | (Inr False, fs1) \<Rightarrow>
             (case readLockInfo fs1 of
                (existing, fs2) \<Rightarrow>
                  if (case existing of
                        None \<Rightarrow> False
                      | Some info \<Rightarrow>
                          lock_pid info \<noteq> 0 \<and> lock_pid info \<noteq> d_pid self \<and>
                          isAgentDeviceDaemonProcess (d_processes self) (lock_pid info)
                            (lock_processStartTime info))
                  then (Inr False, fs2)
                  else tryWriteLock payload (unlinkLock fs2)))"

text \<open>
  The first statement of \<open>start\<close>: without the lock the daemon writes a line to stderr and
  exits with code 0; with it, it goes on to start the servers.
\<close>

datatype StartOutcome = Exits string int | StartsServers

definition start ::
  "DaemonProcess \<Rightarrow> int \<Rightarrow> FileSystem \<Rightarrow> (IoError + StartOutcome) \<times> FileSystem" where
  "start self now fs =
     (case acquireDaemonLock self now fs of
        (Inl e, fs1) \<Rightarrow> (Inl e, fs1)
      | (Inr False, fs1) \<Rightarrow>
          (Inr (Exits (''Daemon lock is held by another process; exiting.'' @ [CHR 0x0A]) 0), fs1)
      | (Inr True, fs1) \<Rightarrow> (Inr StartsServers, fs1))"

section \<open>Evaluation\<close>

text \<open>The defining equations that evaluate the model on concrete inputs.\<close>

lemmas str_defs = isWhitespace_def trim_def lowerChar_def upperLetters_def lowerLetters_def
  toLowerCase_def isDigit_def
  isLetter_def isScopeIdChar_def matchesScopeId_def isHexChar_def matchesLeaseId_def
  showInt_def showNat.simps digitChar_def

lemmas lease_defs = newLeaseRegistry_def noOptions_def DEFAULT_LEASE_TTL_MS_def
  MIN_LEASE_TTL_MS_def MAX_LEASE_TTL_MS_def normalizeTenantId_def normalizeRunId_def
  normalizeLeaseId_def normalizeLeaseBackend_def bindingKey_def leaseBindingKey_def
  cleanupExpiredLeases_def enforceCapacity_def resolveLeaseTtlMs_def refreshLease_def
  hexDigit_def hexByte_def toHex_def mintLease_def allocateLease_def truthy_def
  assertOptionalScopeMatch_def heartbeatLease_def releaseLease_def assertLeaseAdmission_def
  leaseNotFound_def leaseScopeMismatch_def invalidTenantMessage_def invalidRunMessage_def
  AList.delete_eq Let_def

section \<open>Properties of the lease registry\<close>

subsection \<open>Time to live\<close>

lemma cleanupExpiredLeases_settings [simp]:
  "defaultLeaseTtlMs (cleanupExpiredLeases reg t) = defaultLeaseTtlMs reg"
  "minLeaseTtlMs (cleanupExpiredLeases reg t) = minLeaseTtlMs reg"
  "maxLeaseTtlMs (cleanupExpiredLeases reg t) = maxLeaseTtlMs reg"
  "maxActiveSimulatorLeases (cleanupExpiredLeases reg t) = maxActiveSimulatorLeases reg"
  by (simp_all add: cleanupExpiredLeases_def split: prod.splits)

lemma resolveLeaseTtlMs_Inr:
  "resolveLeaseTtlMs reg raw = Inr v \<Longrightarrow>
     v = (case raw of None \<Rightarrow> defaultLeaseTtlMs reg | Some x \<Rightarrow> x) \<and>
     (\<forall>x. raw = Some x \<longrightarrow> minLeaseTtlMs reg \<le> x \<and> x \<le> maxLeaseTtlMs reg)"
  by (auto simp: resolveLeaseTtlMs_def split: option.splits if_splits)

lemma resolveLeaseTtlMs_reject:
  "v < minLeaseTtlMs reg \<or> maxLeaseTtlMs reg < v \<Longrightarrow>
     \<exists>e. resolveLeaseTtlMs reg (Some v) = Inl e \<and> errorCode e = ''INVALID_ARGS''"
  by (auto simp: resolveLeaseTtlMs_def)

lemma refreshLease_stamp:
  "refreshLease reg l ttl t = (l', reg') \<Longrightarrow> heartbeatAt l' = t \<and> expiresAt l' = t + ttl"
  by (auto simp: refreshLease_def Let_def)

lemma mintLease_stamp:
  "mintLease reg t rnd tn rn be ttl = (Inr l, reg') \<Longrightarrow>
     heartbeatAt l = t \<and> expiresAt l = t + ttl"
  by (auto simp: mintLease_def Let_def split: option.splits)

lemma allocateLease_stamp:
  assumes "allocateLease reg t0 t1 rnd tenant run be ttl = (Inr l, reg')"
  shows "heartbeatAt l = t1 \<and>
         expiresAt l = t1 + (case ttl of None \<Rightarrow> defaultLeaseTtlMs reg | Some v \<Rightarrow> v) \<and>
         (\<forall>v. ttl = Some v \<longrightarrow> minLeaseTtlMs reg \<le> v \<and> v \<le> maxLeaseTtlMs reg)"
  using assms
  by (auto simp: allocateLease_def Let_def
      split: sum.splits option.splits if_splits prod.splits
      dest!: resolveLeaseTtlMs_Inr refreshLease_stamp mintLease_stamp)

lemma heartbeatLease_stamp:
  assumes "heartbeatLease reg t0 t1 lid tenant run ttl = (Inr l, reg')"
  shows "heartbeatAt l = t1 \<and>
         expiresAt l = t1 + (case ttl of None \<Rightarrow> defaultLeaseTtlMs reg | Some v \<Rightarrow> v) \<and>
         (\<forall>v. ttl = Some v \<longrightarrow> minLeaseTtlMs reg \<le> v \<and> v \<le> maxLeaseTtlMs reg)"
  using assms
  by (auto simp: heartbeatLease_def Let_def
      split: sum.splits option.splits if_splits prod.splits
      dest!: resolveLeaseTtlMs_Inr refreshLease_stamp)

lemma allocateLease_ttl_reject:
  assumes "v < minLeaseTtlMs reg \<or> maxLeaseTtlMs reg < v"
  shows "\<exists>e. fst (allocateLease reg t0 t1 rnd tenant run be (Some v)) = Inl e \<and>
             errorCode e = ''INVALID_ARGS''"
proof -
  from resolveLeaseTtlMs_reject[of v "cleanupExpiredLeases reg t0"] assms
  obtain e where "resolveLeaseTtlMs (cleanupExpiredLeases reg t0) (Some v) = Inl e"
    and "errorCode e = ''INVALID_ARGS''"
    by auto
  then show ?thesis
    by (auto simp: allocateLease_def Let_def normalizeLeaseBackend_def
        split: sum.splits option.splits)
qed

lemma default_settings:
  "defaultLeaseTtlMs (newLeaseRegistry noOptions) = 60000 \<and>
   minLeaseTtlMs (newLeaseRegistry noOptions) = 5000 \<and>
   maxLeaseTtlMs (newLeaseRegistry noOptions) = 600000"
  by (simp add: newLeaseRegistry_def noOptions_def DEFAULT_LEASE_TTL_MS_def
      MIN_LEASE_TTL_MS_def MAX_LEASE_TTL_MS_def)

text \<open>
  Claim C1, as stated, says that a \<open>ttlMs\<close> below the minimum is clamped into range. In a
  registry built with no options (minimum 5000), \<open>allocateLease\<close> with \<open>ttlMs = 1000\<close>
  returns no lease: \<open>resolveLeaseTtlMs\<close> throws \<open>INVALID_ARGS\<close>.
\<close>

theorem allocateLease_ttl_not_clamped:
  "fst (allocateLease (newLeaseRegistry noOptions) 1000 1000
         [0, 1, 2, 3, 4, 5, 6, 7, 8, 9, 10, 11, 12, 13, 14, 255]
         ''tenant-a'' ''run-1'' None (Some 1000))
   = Inl (AppError ''INVALID_ARGS'' ''Lease ttlMs must be between 5000 and 600000.'' None)"
  by (simp add: lease_defs str_defs)

text \<open>
  Claim C1, amended. Every \<open>allocateLease\<close> or \<open>heartbeatLease\<close> call that returns a lease
  returns it with \<open>heartbeatAt = now\<close> and \<open>expiresAt = now + ttl\<close>, where \<open>ttl\<close> is the
  supplied \<open>ttlMs\<close>, which then lies between \<open>minLeaseTtlMs\<close> and \<open>maxLeaseTtlMs\<close>, or the
  default time to live when \<open>ttlMs\<close> is omitted. The settings of a registry built with no
  options are 60 s, 5 s and 600 s. A supplied \<open>ttlMs\<close> below the minimum or above the
  maximum is rejected, not clamped: no lease is returned, and \<open>allocateLease\<close> fails with
  \<open>INVALID_ARGS\<close>.
\<close>

theorem lease_ttl_stamp:
  "(\<forall>l reg'. allocateLease reg t0 t1 rnd tenant run be ttl = (Inr l, reg') \<longrightarrow>
      heartbeatAt l = t1 \<and>
      expiresAt l = t1 + (case ttl of None \<Rightarrow> defaultLeaseTtlMs reg | Some v \<Rightarrow> v) \<and>
      (\<forall>v. ttl = Some v \<longrightarrow> minLeaseTtlMs reg \<le> v \<and> v \<le> maxLeaseTtlMs reg)) \<and>
   (\<forall>l reg'. heartbeatLease reg t0 t1 lid tenantOpt runOpt ttl = (Inr l, reg') \<longrightarrow>
      heartbeatAt l = t1 \<and>
      expiresAt l = t1 + (case ttl of None \<Rightarrow> defaultLeaseTtlMs reg | Some v \<Rightarrow> v) \<and>
      (\<forall>v. ttl = Some v \<longrightarrow> minLeaseTtlMs reg \<le> v \<and> v \<le> maxLeaseTtlMs reg)) \<and>
   (\<forall>v. v < minLeaseTtlMs reg \<or> maxLeaseTtlMs reg < v \<longrightarrow>
      (\<exists>e. fst (allocateLease reg t0 t1 rnd tenant run be (Some v)) = Inl e \<and>
           errorCode e = ''INVALID_ARGS'')) \<and>
   defaultLeaseTtlMs (newLeaseRegistry noOptions) = 60000 \<and>
   minLeaseTtlMs (newLeaseRegistry noOptions) = 5000 \<and>
   maxLeaseTtlMs (newLeaseRegistry noOptions) = 600000"
proof (intro conjI allI impI)
  fix l reg'
  assume "allocateLease reg t0 t1 rnd tenant run be ttl = (Inr l, reg')"
  from allocateLease_stamp[OF this]
  show "heartbeatAt l = t1"
    and "expiresAt l = t1 + (case ttl of None \<Rightarrow> defaultLeaseTtlMs reg | Some v \<Rightarrow> v)"
    and "\<And>v. ttl = Some v \<Longrightarrow> minLeaseTtlMs reg \<le> v"
    and "\<And>v. ttl = Some v \<Longrightarrow> v \<le> maxLeaseTtlMs reg"
    by simp_all
next
  fix l reg'
  assume "heartbeatLease reg t0 t1 lid tenantOpt runOpt ttl = (Inr l, reg')"
  from heartbeatLease_stamp[OF this]
  show "heartbeatAt l = t1"
    and "expiresAt l = t1 + (case ttl of None \<Rightarrow> defaultLeaseTtlMs reg | Some v \<Rightarrow> v)"
    and "\<And>v. ttl = Some v \<Longrightarrow> minLeaseTtlMs reg \<le> v"
    and "\<And>v. ttl = Some v \<Longrightarrow> v \<le> maxLeaseTtlMs reg"
    by simp_all
next
  fix v
  assume "v < minLeaseTtlMs reg \<or> maxLeaseTtlMs reg < v"
  then show "\<exists>e. fst (allocateLease reg t0 t1 rnd tenant run be (Some v)) = Inl e \<and>
                errorCode e = ''INVALID_ARGS''"
    by (rule allocateLease_ttl_reject)
qed (simp_all add: default_settings)

theorem lease_ttl_stamp_witness:
  "(\<exists>l reg'. allocateLease (newLeaseRegistry noOptions) 1000 1001
        [0, 1, 2, 3, 4, 5, 6, 7, 8, 9, 10, 11, 12, 13, 14, 255]
        ''tenant-a'' ''run-1'' None (Some 20000) = (Inr l, reg') \<and>
      heartbeatAt l = 1001 \<and> expiresAt l = 21001 \<and>
      (\<exists>l' reg''. heartbeatLease reg' 5000 5002 ''000102030405060708090A0B0C0D0EFF''
             None None None = (Inr l', reg'') \<and>
           heartbeatAt l' = 5002 \<and> expiresAt l' = 65002)) \<and>
   (1000 < minLeaseTtlMs (newLeaseRegistry noOptions) \<and>
    (\<exists>e. fst (allocateLease (newLeaseRegistry noOptions) 1000 1001
               [0, 1, 2, 3, 4, 5, 6, 7, 8, 9, 10, 11, 12, 13, 14, 255]
               ''tenant-a'' ''run-1'' None (Some 1000)) = Inl e \<and>
         errorCode e = ''INVALID_ARGS''))"
proof -
  let ?L = "\<lparr>leaseId = ''000102030405060708090a0b0c0d0eff'', tenantId = ''tenant-a'',
             runId = ''run-1'', backend = ''ios-simulator'', createdAt = 1001,
             heartbeatAt = 1001, expiresAt = 21001\<rparr>"
  let ?R = "\<lparr>leases = [(''000102030405060708090a0b0c0d0eff'', ?L)],
             runBindings =
               [(''tenant-a:run-1:ios-simulator'', ''000102030405060708090a0b0c0d0eff'')],
             maxActiveSimulatorLeases = 0, defaultLeaseTtlMs = 60000,
             minLeaseTtlMs = 5000, maxLeaseTtlMs = 600000\<rparr>"
  let ?L' = "?L\<lparr>heartbeatAt := 5002, expiresAt := 65002\<rparr>"
  let ?R' = "?R\<lparr>leases := [(''000102030405060708090a0b0c0d0eff'', ?L')]\<rparr>"
  have a: "allocateLease (newLeaseRegistry noOptions) 1000 1001
        [0, 1, 2, 3, 4, 5, 6, 7, 8, 9, 10, 11, 12, 13, 14, 255]
        ''tenant-a'' ''run-1'' None (Some 20000) = (Inr ?L, ?R)"
    by (simp add: lease_defs str_defs)
  have h: "heartbeatLease ?R 5000 5002 ''000102030405060708090A0B0C0D0EFF'' None None None
        = (Inr ?L', ?R')"
    by (simp add: lease_defs str_defs)
  have m: "(1000::int) < minLeaseTtlMs (newLeaseRegistry noOptions)"
    by (simp add: lease_defs)
  note t1 = lease_ttl_stamp[THEN conjunct1, rule_format, OF a]
  note t2 = lease_ttl_stamp[THEN conjunct2, THEN conjunct1, rule_format, OF h]
  note t3 = lease_ttl_stamp[THEN conjunct2, THEN conjunct2, THEN conjunct1, rule_format,
      OF disjI1, OF m]
  from t1 have s1: "heartbeatAt ?L = 1001" "expiresAt ?L = 21001" by simp_all
  from t2 have s2: "heartbeatAt ?L' = 5002 \<and> expiresAt ?L' = 65002" by simp
  have inner: "\<exists>l' reg''. heartbeatLease ?R 5000 5002 ''000102030405060708090A0B0C0D0EFF''
             None None None = (Inr l', reg'') \<and>
           heartbeatAt l' = 5002 \<and> expiresAt l' = 65002"
    by (rule exI[of _ ?L'], rule exI[of _ ?R'], rule conjI[OF h s2])
  have outer: "\<exists>l reg'. allocateLease (newLeaseRegistry noOptions) 1000 1001
        [0, 1, 2, 3, 4, 5, 6, 7, 8, 9, 10, 11, 12, 13, 14, 255]
        ''tenant-a'' ''run-1'' None (Some 20000) = (Inr l, reg') \<and>
      heartbeatAt l = 1001 \<and> expiresAt l = 21001 \<and>
      (\<exists>l' reg''. heartbeatLease reg' 5000 5002 ''000102030405060708090A0B0C0D0EFF''
             None None None = (Inr l', reg'') \<and>
           heartbeatAt l' = 5002 \<and> expiresAt l' = 65002)"
    by (rule exI[of _ ?L], rule exI[of _ ?R], intro conjI, rule a, rule s1, rule s1, rule inner)
  show ?thesis
    by (intro conjI, rule outer, rule m, rule t3)
qed

subsection \<open>The expiry sweep\<close>

lemma map_of_filter_key:
  "map_of (filter (\<lambda>(k, v). P k) al) x = (if P x then map_of al x else None)"
  by (induction al) auto

lemma map_of_filter_val:
  "distinct (map fst al) \<Longrightarrow>
   map_of (filter (\<lambda>(k, v). Q v) al) x =
     (case map_of al x of Some v \<Rightarrow> if Q v then Some v else None | None \<Rightarrow> None)"
  by (induction al) (auto split: option.splits simp: map_of_eq_None_iff image_iff)

lemma cleanupLoop_keys:
  "fst ` set (fst (cleanupLoop now seen rest rb)) \<subseteq> fst ` set (seen @ rest)"
proof (induction now seen rest rb rule: cleanupLoop.induct)
  case (1 now seen rb)
  then show ?case by simp
next
  case (2 now seen k l rest rb)
  show ?case
  proof (cases "expiresAt l > now")
    case True
    with 2 show ?thesis by auto
  next
    case False
    with 2(2) have "fst ` set (fst (cleanupLoop now seen ((k, l) # rest) rb))
        \<subseteq> fst ` set (AList.delete (leaseId l) (seen @ [(k, l)]) @ AList.delete (leaseId l) rest)"
      by simp
    also have "\<dots> \<subseteq> fst ` set (seen @ (k, l) # rest)"
      by (auto simp: AList.delete_eq)
    finally show ?thesis .
  qed
qed

lemma cleanupLoop_inv:
  "distinct (map fst (seen @ rest)) \<Longrightarrow> \<forall>(k, l) \<in> set rest. leaseId l = k \<Longrightarrow>
   cleanupLoop now seen rest rb =
     (seen @ filter (\<lambda>(k, l). now < expiresAt l) rest,
      filter (\<lambda>(key, v). key \<notin> (\<lambda>(k, l). leaseBindingKey l) ` {e \<in> set rest. \<not> now < expiresAt (snd e)}) rb)"
proof (induction rest arbitrary: seen rb)
  case Nil
  then show ?case by simp
next
  case (Cons e rest)
  obtain k l where e: "e = (k, l)" by (cases e)
  from Cons.prems e have kl: "leaseId l = k" and knot: "k \<notin> fst ` set seen" "k \<notin> fst ` set rest"
    and d: "distinct (map fst ((seen @ [(k, l)]) @ rest))" "distinct (map fst (seen @ rest))"
    and r: "\<forall>(k, l) \<in> set rest. leaseId l = k"
    by auto
  show ?case
  proof (cases "now < expiresAt l")
    case True
    have "{e \<in> set ((k, l) # rest). \<not> now < expiresAt (snd e)} = {e \<in> set rest. \<not> now < expiresAt (snd e)}"
      using True by auto
    with Cons.IH[OF d(1) r, of rb] True e show ?thesis by simp
  next
    case False
    have s: "{e \<in> set ((k, l) # rest). \<not> now < expiresAt (snd e)} = insert (k, l) {e \<in> set rest. \<not> now < expiresAt (snd e)}"
      using False by auto
    have del1: "AList.delete (leaseId l) (seen @ [(k, l)]) = seen"
      using kl knot by (simp add: AList.delete_eq filter_id_conv) (auto simp: image_iff)
    have del2: "AList.delete (leaseId l) rest = rest"
      using kl knot by simp
    have "cleanupLoop now seen ((k, l) # rest) rb =
          cleanupLoop now seen rest (AList.delete (leaseBindingKey l) rb)"
      using False del1 del2 by simp
    also have "\<dots> = (seen @ filter (\<lambda>(k, l). now < expiresAt l) rest,
      filter (\<lambda>(key, v). key \<notin> (\<lambda>(k, l). leaseBindingKey l) ` {e \<in> set rest. \<not> now < expiresAt (snd e)})
        (AList.delete (leaseBindingKey l) rb))"
      by (rule Cons.IH[OF d(2) r])
    finally show ?thesis
      using False e s by (auto simp: AList.delete_eq intro!: filter_cong)
  qed
qed

lemma cleanup_leases:
  assumes "registryInv reg"
  shows "leases (cleanupExpiredLeases reg t) = filter (\<lambda>(k, l). t < expiresAt l) (leases reg)"
proof -
  from assms have "distinct (map fst ([] @ leases reg))" "\<forall>(k, l) \<in> set (leases reg). leaseId l = k"
    by (auto simp: registryInv_def list_all_iff)
  from cleanupLoop_inv[OF this] show ?thesis
    by (simp add: cleanupExpiredLeases_def)
qed

lemma cleanup_bindings:
  assumes "registryInv reg"
  shows "runBindings (cleanupExpiredLeases reg t) =
     filter (\<lambda>(key, v). key \<notin> (\<lambda>(k, l). leaseBindingKey l) ` {e \<in> set (leases reg). \<not> t < expiresAt (snd e)})
       (runBindings reg)"
proof -
  from assms have "distinct (map fst ([] @ leases reg))" "\<forall>(k, l) \<in> set (leases reg). leaseId l = k"
    by (auto simp: registryInv_def list_all_iff)
  from cleanupLoop_inv[OF this] show ?thesis
    by (simp add: cleanupExpiredLeases_def)
qed

lemma cleanup_lookup:
  assumes "registryInv reg"
  shows "map_of (leases (cleanupExpiredLeases reg t)) lid =
     (case map_of (leases reg) lid of
        Some l \<Rightarrow> if t < expiresAt l then Some l else None
      | None \<Rightarrow> None)"
proof -
  from assms have "distinct (map fst (leases reg))" by (simp add: registryInv_def)
  from map_of_filter_val[OF this, of "\<lambda>l. t < expiresAt l" lid] cleanup_leases[OF assms, of t]
  show ?thesis by simp
qed

lemma inv_entry:
  assumes "registryInv reg" "map_of (leases reg) lid = Some l"
  shows "leaseId l = lid" "isMintedId lid" "map_of (runBindings reg) (leaseBindingKey l) = Some lid"
  using assms by (auto simp: registryInv_def list_all_iff dest!: map_of_SomeD)

lemma inv_entry_unique:
  assumes "registryInv reg" "(k, l) \<in> set (leases reg)" "(k', l') \<in> set (leases reg)"
    "leaseBindingKey l = leaseBindingKey l'"
  shows "k = k' \<and> l = l'"
proof -
  from assms have "map_of (runBindings reg) (leaseBindingKey l) = Some k"
    "map_of (runBindings reg) (leaseBindingKey l') = Some k'" "distinct (map fst (leases reg))"
    by (auto simp: registryInv_def list_all_iff)
  with assms(4) have k: "k = k'" by simp
  from assms(2) \<open>distinct (map fst (leases reg))\<close> have "map_of (leases reg) k = Some l"
    by simp
  moreover from assms(3) \<open>distinct (map fst (leases reg))\<close> k
  have "map_of (leases reg) k = Some l'"
    by simp
  ultimately show ?thesis using k by simp
qed

lemma cleanup_binding_lookup:
  assumes "registryInv reg" "map_of (leases reg) lid = Some l" "t < expiresAt l"
  shows "map_of (runBindings (cleanupExpiredLeases reg t)) (leaseBindingKey l) = Some lid"
proof -
  have "leaseBindingKey l \<notin> (\<lambda>(k, l). leaseBindingKey l) ` {e \<in> set (leases reg). \<not> t < expiresAt (snd e)}"
  proof
    assume "leaseBindingKey l \<in> (\<lambda>(k, l). leaseBindingKey l) ` {e \<in> set (leases reg). \<not> t < expiresAt (snd e)}"
    then obtain k' l' where e: "(k', l') \<in> set (leases reg)" "\<not> t < expiresAt l'"
      "leaseBindingKey l = leaseBindingKey l'" by auto
    from assms(2) have "(lid, l) \<in> set (leases reg)" by (rule map_of_SomeD)
    from inv_entry_unique[OF assms(1) this e(1) e(3)] have "l = l'" by simp
    with e(2) assms(3) show False by simp
  qed
  with map_of_filter_key[of "\<lambda>key. key \<notin> (\<lambda>(k, l). leaseBindingKey l) ` {e \<in> set (leases reg). \<not> t < expiresAt (snd e)}" "runBindings reg" "leaseBindingKey l"]
    cleanup_bindings[OF assms(1), of t] inv_entry(3)[OF assms(1,2)]
  show ?thesis by simp
qed

lemma cleanup_inv:
  assumes "registryInv reg"
  shows "registryInv (cleanupExpiredLeases reg t)"
proof -
  let ?reg' = "cleanupExpiredLeases reg t"
  have d: "distinct (map fst (leases ?reg'))"
    using assms by (simp add: cleanup_leases registryInv_def distinct_map_filter)
  have "leaseId l = k \<and> isMintedId k \<and> map_of (runBindings ?reg') (leaseBindingKey l) = Some k"
    if "(k, l) \<in> set (leases ?reg')" for k l
  proof -
    from that d have "map_of (leases ?reg') k = Some l" by simp
    then have m: "map_of (leases reg) k = Some l" "t < expiresAt l"
      by (auto simp: cleanup_lookup[OF assms] split: option.splits if_splits)
    from inv_entry[OF assms m(1)] cleanup_binding_lookup[OF assms m]
    show ?thesis by simp
  qed
  with d show ?thesis by (auto simp: registryInv_def list_all_iff)
qed

lemma cleanup_no_new:
  assumes "map_of (leases reg) lid = None"
  shows "map_of (leases (cleanupExpiredLeases reg t)) lid = None"
proof -
  from assms have "lid \<notin> fst ` set ([] @ leases reg)" by (simp add: map_of_eq_None_iff)
  moreover have "leases (cleanupExpiredLeases reg t)
      = fst (cleanupLoop t [] (leases reg) (runBindings reg))"
    by (simp add: cleanupExpiredLeases_def split: prod.splits)
  ultimately have "lid \<notin> fst ` set (leases (cleanupExpiredLeases reg t))"
    using cleanupLoop_keys[of t "[]" "leases reg" "runBindings reg"] by auto
  then show ?thesis by (simp add: map_of_eq_None_iff)
qed

lemma cleanup_unexpired:
  assumes "list_all (\<lambda>(k, l). t < expiresAt l) (leases reg)"
  shows "cleanupExpiredLeases reg t = reg"
proof -
  have "cleanupLoop t seen rest rb = (seen @ rest, rb)" if "list_all (\<lambda>(k, l). t < expiresAt l) rest"
    for seen rest rb
    using that by (induction rest arbitrary: seen) auto
  from this[OF assms] show ?thesis by (simp add: cleanupExpiredLeases_def)
qed

subsection \<open>The invariant is maintained\<close>

lemma hexDigit_lower: "hexDigit d \<in> set ''0123456789abcdef''"
proof -
  have "d mod 16 < length ''0123456789abcdef''" by simp
  then show ?thesis
    unfolding hexDigit_def by (rule nth_mem)
qed

lemma toHex_minted:
  assumes "length rnd = 16"
  shows "isMintedId (toHex rnd)"
proof -
  have len: "length (toHex bs) = 2 * length bs" for bs
    by (induction bs) (simp_all add: toHex_def hexByte_def)
  have chars: "list_all (\<lambda>c. c \<in> set ''0123456789abcdef'') (toHex bs)" for bs
    using hexDigit_lower by (induction bs) (simp_all add: toHex_def hexByte_def)
  from len[of rnd] chars[of rnd] assms show ?thesis
    by (simp add: isMintedId_def)
qed

lemma isMintedId_nonempty: "isMintedId s \<Longrightarrow> s \<noteq> []"
  by (auto simp: isMintedId_def)

lemma inv_lookupI:
  assumes "distinct (map fst (leases reg))"
    and "\<And>k l. map_of (leases reg) k = Some l \<Longrightarrow>
           leaseId l = k \<and> isMintedId k \<and> map_of (runBindings reg) (leaseBindingKey l) = Some k"
  shows "registryInv reg"
  using assms by (auto simp: registryInv_def list_all_iff)

lemma inv_distinct: "registryInv reg \<Longrightarrow> distinct (map fst (leases reg))"
  by (simp add: registryInv_def)

lemma inv_new: "registryInv (newLeaseRegistry options)"
  by (simp add: registryInv_def newLeaseRegistry_def Let_def)

lemma refreshLease_inv:
  assumes inv: "registryInv reg" and l: "map_of (leases reg) lid = Some lease"
    and r: "refreshLease reg lease ttl t = (l', reg')"
  shows "registryInv reg' \<and> leaseId l' = lid \<and> map_of (leases reg') lid = Some l'"
proof -
  let ?u = "lease\<lparr>heartbeatAt := t, expiresAt := t + ttl\<rparr>"
  from inv_entry[OF inv l] have id: "leaseId lease = lid" and m: "isMintedId lid"
    and b: "map_of (runBindings reg) (leaseBindingKey lease) = Some lid" by auto
  have key: "leaseBindingKey ?u = leaseBindingKey lease" by (simp add: leaseBindingKey_def)
  from r id have l': "l' = ?u"
    and ls: "leases reg' = AList.update lid ?u (leases reg)"
    and rb: "runBindings reg' = AList.update (leaseBindingKey lease) lid (runBindings reg)"
    by (auto simp: refreshLease_def Let_def key)
  from b have rb': "runBindings reg' = runBindings reg"
    unfolding rb by (rule update_triv)
  have "registryInv reg'"
  proof (rule inv_lookupI)
    show "distinct (map fst (leases reg'))"
      using inv_distinct[OF inv] by (simp add: ls distinct_update)
  next
    fix k l assume "map_of (leases reg') k = Some l"
    then have "(k = lid \<and> l = ?u) \<or> (k \<noteq> lid \<and> map_of (leases reg) k = Some l)"
      by (auto simp: ls update_conv' split: if_splits)
    then show "leaseId l = k \<and> isMintedId k \<and> map_of (runBindings reg') (leaseBindingKey l) = Some k"
      using id m b key inv_entry[OF inv] by (auto simp: rb')
  qed
  moreover have "map_of (leases reg') lid = Some l'"
    by (simp add: ls l' update_conv')
  ultimately show ?thesis using id l' by simp
qed

lemma mintLease_inv:
  assumes inv: "registryInv reg" and len: "length rnd = 16"
    and free: "\<forall>k l. map_of (leases reg) k = Some l \<longrightarrow>
                 leaseBindingKey l \<noteq> bindingKey tenant run be"
    and r: "mintLease reg t rnd tenant run be ttl = (Inr l', reg')"
  shows "registryInv reg' \<and> leaseId l' = toHex rnd \<and> map_of (leases reg') (leaseId l') = Some l' \<and>
         map_of (runBindings reg') (bindingKey tenant run be) = Some (leaseId l') \<and>
         leaseBindingKey l' = bindingKey tenant run be"
proof -
  let ?l = "\<lparr> leaseId = toHex rnd, tenantId = tenant, runId = run, backend = be,
              createdAt = t, heartbeatAt = t, expiresAt = t + ttl \<rparr>"
  from r have l': "l' = ?l"
    and ls: "leases reg' = AList.update (toHex rnd) ?l (leases reg)"
    and rb: "runBindings reg' = AList.update (bindingKey tenant run be) (toHex rnd) (runBindings reg)"
    by (auto simp: mintLease_def Let_def split: option.splits)
  have key: "leaseBindingKey ?l = bindingKey tenant run be" by (simp add: leaseBindingKey_def)
  have "registryInv reg'"
  proof (rule inv_lookupI)
    show "distinct (map fst (leases reg'))"
      using inv_distinct[OF inv] by (simp add: ls distinct_update)
  next
    fix k l assume "map_of (leases reg') k = Some l"
    then have "(k = toHex rnd \<and> l = ?l) \<or> (k \<noteq> toHex rnd \<and> map_of (leases reg) k = Some l)"
      by (auto simp: ls update_conv' split: if_splits)
    then show "leaseId l = k \<and> isMintedId k \<and> map_of (runBindings reg') (leaseBindingKey l) = Some k"
    proof
      assume "k = toHex rnd \<and> l = ?l"
      then show ?thesis using toHex_minted[OF len] by (simp add: rb update_conv' key)
    next
      assume a: "k \<noteq> toHex rnd \<and> map_of (leases reg) k = Some l"
      with free have "leaseBindingKey l \<noteq> bindingKey tenant run be" by blast
      with a inv_entry[OF inv, of k l] show ?thesis by (simp add: rb update_conv')
    qed
  qed
  moreover have "map_of (leases reg') (toHex rnd) = Some ?l" by (simp add: ls update_conv')
  moreover have "map_of (runBindings reg') (bindingKey tenant run be) = Some (toHex rnd)"
    by (simp add: rb update_conv')
  ultimately show ?thesis using l' key by simp
qed

lemma cleanup_binding_kept:
  assumes inv: "registryInv reg" and b: "map_of (runBindings reg) key = Some lid"
    and l: "map_of (leases reg) lid = Some l" and live: "t < expiresAt l"
  shows "map_of (runBindings (cleanupExpiredLeases reg t)) key = Some lid"
proof -
  have "key \<notin> (\<lambda>(k, l). leaseBindingKey l) ` {e \<in> set (leases reg). \<not> t < expiresAt (snd e)}"
  proof
    assume "key \<in> (\<lambda>(k, l). leaseBindingKey l) ` {e \<in> set (leases reg). \<not> t < expiresAt (snd e)}"
    then obtain k' l' where e: "(k', l') \<in> set (leases reg)" "\<not> t < expiresAt l'"
      "key = leaseBindingKey l'" by auto
    from e(1) inv_distinct[OF inv] have m: "map_of (leases reg) k' = Some l'" by simp
    from inv_entry(3)[OF inv m] b e(3) have "k' = lid" by simp
    with m l have "l' = l" by simp
    with e(2) live show False by simp
  qed
  with map_of_filter_key[of "\<lambda>key. key \<notin> (\<lambda>(k, l). leaseBindingKey l) ` {e \<in> set (leases reg). \<not> t < expiresAt (snd e)}" "runBindings reg" key]
    cleanup_bindings[OF inv, of t] b
  show ?thesis by simp
qed

lemma allocateLease_unfold:
  assumes "allocateLease reg t0 t1 rnd tenantRaw runRaw beRaw ttl = (Inr l, reg')"
  obtains be tenant run ttlv where
    "normalizeLeaseBackend beRaw = Inr be"
    "normalizeTenantId (Some tenantRaw) = Some tenant"
    "normalizeRunId (Some runRaw) = Some run"
    "resolveLeaseTtlMs (cleanupExpiredLeases reg t0) ttl = Inr ttlv"
    "(case map_of (runBindings (cleanupExpiredLeases reg t0)) (bindingKey tenant run be) of
        None \<Rightarrow> mintLease (cleanupExpiredLeases reg t0) t1 rnd tenant run be ttlv
      | Some existingId \<Rightarrow>
          if existingId = [] then mintLease (cleanupExpiredLeases reg t0) t1 rnd tenant run be ttlv
          else (case map_of (leases (cleanupExpiredLeases reg t0)) existingId of
                  Some existingLease \<Rightarrow>
                    (case refreshLease (cleanupExpiredLeases reg t0) existingLease ttlv t1 of
                       (l, reg2) \<Rightarrow> (Inr l, reg2))
                | None \<Rightarrow>
                    mintLease ((cleanupExpiredLeases reg t0)
                        \<lparr>runBindings := AList.delete (bindingKey tenant run be)
                                          (runBindings (cleanupExpiredLeases reg t0))\<rparr>)
                      t1 rnd tenant run be ttlv)) = (Inr l, reg')"
  using assms unfolding allocateLease_def Let_def
  by (auto split: sum.splits option.splits)

lemma allocateLease_result:
  assumes inv: "registryInv reg" and len: "length rnd = 16"
    and r: "allocateLease reg t0 t1 rnd tenantRaw runRaw beRaw ttl = (Inr l, reg')"
  shows "registryInv reg' \<and> isMintedId (leaseId l) \<and> map_of (leases reg') (leaseId l) = Some l \<and>
    (\<exists>tenant run be. normalizeLeaseBackend beRaw = Inr be \<and>
        normalizeTenantId (Some tenantRaw) = Some tenant \<and>
        normalizeRunId (Some runRaw) = Some run \<and>
        map_of (runBindings reg') (bindingKey tenant run be) = Some (leaseId l))"
proof -
  let ?reg1 = "cleanupExpiredLeases reg t0"
  have inv1: "registryInv ?reg1" by (rule cleanup_inv[OF inv])
  from r obtain be tenant run ttlv where n: "normalizeLeaseBackend beRaw = Inr be"
    "normalizeTenantId (Some tenantRaw) = Some tenant"
    "normalizeRunId (Some runRaw) = Some run"
    and body: "(case map_of (runBindings ?reg1) (bindingKey tenant run be) of
        None \<Rightarrow> mintLease ?reg1 t1 rnd tenant run be ttlv
      | Some existingId \<Rightarrow>
          if existingId = [] then mintLease ?reg1 t1 rnd tenant run be ttlv
          else (case map_of (leases ?reg1) existingId of
                  Some existingLease \<Rightarrow>
                    (case refreshLease ?reg1 existingLease ttlv t1 of
                       (l, reg2) \<Rightarrow> (Inr l, reg2))
                | None \<Rightarrow>
                    mintLease (?reg1\<lparr>runBindings := AList.delete (bindingKey tenant run be)
                                          (runBindings ?reg1)\<rparr>)
                      t1 rnd tenant run be ttlv)) = (Inr l, reg')"
    by (rule allocateLease_unfold)
  let ?key = "bindingKey tenant run be"
  have core: "registryInv reg' \<and> isMintedId (leaseId l) \<and> map_of (leases reg') (leaseId l) = Some l \<and>
      map_of (runBindings reg') ?key = Some (leaseId l)"
  proof (cases "map_of (runBindings ?reg1) ?key")
    case None
    with body have m: "mintLease ?reg1 t1 rnd tenant run be ttlv = (Inr l, reg')" by simp
    have "\<forall>k l0. map_of (leases ?reg1) k = Some l0 \<longrightarrow> leaseBindingKey l0 \<noteq> ?key"
    proof (intro allI impI)
      fix k l0 assume a: "map_of (leases ?reg1) k = Some l0"
      from inv_entry(3)[OF inv1 a] None show "leaseBindingKey l0 \<noteq> ?key" by auto
    qed
    from mintLease_inv[OF inv1 len this m] toHex_minted[OF len] show ?thesis by auto
  next
    case (Some existingId)
    show ?thesis
    proof (cases "existingId = []")
      case True
      with body Some have m: "mintLease ?reg1 t1 rnd tenant run be ttlv = (Inr l, reg')" by simp
      have "\<forall>k l0. map_of (leases ?reg1) k = Some l0 \<longrightarrow> leaseBindingKey l0 \<noteq> ?key"
      proof (intro allI impI)
        fix k l0 assume a: "map_of (leases ?reg1) k = Some l0"
        from inv_entry(2)[OF inv1 a] have "k \<noteq> []" by (rule isMintedId_nonempty)
        with inv_entry(3)[OF inv1 a] Some True show "leaseBindingKey l0 \<noteq> ?key" by auto
      qed
      from mintLease_inv[OF inv1 len this m] toHex_minted[OF len] show ?thesis by auto
    next
      case False
      show ?thesis
      proof (cases "map_of (leases ?reg1) existingId")
        case None
        let ?reg2 = "?reg1\<lparr>runBindings := AList.delete ?key (runBindings ?reg1)\<rparr>"
        from body Some False None
        have m: "mintLease ?reg2 t1 rnd tenant run be ttlv = (Inr l, reg')" by simp
        have ne: "leaseBindingKey l0 \<noteq> ?key" if "map_of (leases ?reg1) k = Some l0" for k l0
          using inv_entry(3)[OF inv1 that] Some None that by auto
        have inv2: "registryInv ?reg2"
        proof (rule inv_lookupI)
          show "distinct (map fst (leases ?reg2))" using inv_distinct[OF inv1] by simp
        next
          fix k l0 assume "map_of (leases ?reg2) k = Some l0"
          then have a: "map_of (leases ?reg1) k = Some l0" by simp
          from ne[OF a] inv_entry[OF inv1 a]
          show "leaseId l0 = k \<and> isMintedId k \<and> map_of (runBindings ?reg2) (leaseBindingKey l0) = Some k"
            by simp
        qed
        have "\<forall>k l0. map_of (leases ?reg2) k = Some l0 \<longrightarrow> leaseBindingKey l0 \<noteq> ?key"
        proof (intro allI impI)
          fix k l0 assume "map_of (leases ?reg2) k = Some l0"
          then have "map_of (leases ?reg1) k = Some l0" by simp
          then show "leaseBindingKey l0 \<noteq> ?key" by (rule ne)
        qed
        from mintLease_inv[OF inv2 len this m] toHex_minted[OF len] show ?thesis by auto
      next
        case (Some existingLease)
        with body \<open>map_of (runBindings ?reg1) ?key = Some existingId\<close> False
        obtain l2 reg2 where rf: "refreshLease ?reg1 existingLease ttlv t1 = (l2, reg2)"
          and eq: "l = l2" "reg' = reg2"
          by (auto split: prod.splits)
        from refreshLease_inv[OF inv1 Some rf] eq
        have f: "registryInv reg'" "leaseId l = existingId" "map_of (leases reg') existingId = Some l"
          by auto
        from inv_entry(2)[OF inv1 Some] have mi: "isMintedId existingId" .
        from rf eq have "runBindings reg' =
            AList.update (leaseBindingKey l) (leaseId l) (runBindings ?reg1)"
          by (auto simp: refreshLease_def Let_def)
        with \<open>map_of (runBindings ?reg1) ?key = Some existingId\<close> f(2)
        have "map_of (runBindings reg') ?key = Some existingId"
          by (simp add: update_conv')
        with f mi show ?thesis by simp
      qed
    qed
  qed
  with n show ?thesis by blast
qed

subsection \<open>Idempotence\<close>

lemma resolveLeaseTtlMs_cleanup [simp]:
  "resolveLeaseTtlMs (cleanupExpiredLeases reg t) ttl = resolveLeaseTtlMs reg ttl"
  by (simp add: resolveLeaseTtlMs_def split: option.splits)

lemma refreshLease_settings:
  "refreshLease reg l ttl t = (l', reg') \<Longrightarrow> resolveLeaseTtlMs reg' x = resolveLeaseTtlMs reg x"
  by (auto simp: refreshLease_def Let_def resolveLeaseTtlMs_def split: option.splits)

lemma mintLease_settings:
  "mintLease reg t rnd tn rn be ttl = (r, reg') \<Longrightarrow> resolveLeaseTtlMs reg' x = resolveLeaseTtlMs reg x"
  by (auto simp: mintLease_def Let_def resolveLeaseTtlMs_def split: option.splits)

lemma allocateLease_settings:
  assumes "allocateLease reg t0 t1 rnd tenantRaw runRaw beRaw ttl = (Inr l, reg')"
  shows "resolveLeaseTtlMs reg' x = resolveLeaseTtlMs reg x"
proof -
  from assms obtain be tenant run ttlv where
    body: "(case map_of (runBindings (cleanupExpiredLeases reg t0)) (bindingKey tenant run be) of
        None \<Rightarrow> mintLease (cleanupExpiredLeases reg t0) t1 rnd tenant run be ttlv
      | Some existingId \<Rightarrow>
          if existingId = [] then mintLease (cleanupExpiredLeases reg t0) t1 rnd tenant run be ttlv
          else (case map_of (leases (cleanupExpiredLeases reg t0)) existingId of
                  Some existingLease \<Rightarrow>
                    (case refreshLease (cleanupExpiredLeases reg t0) existingLease ttlv t1 of
                       (l, reg2) \<Rightarrow> (Inr l, reg2))
                | None \<Rightarrow>
                    mintLease ((cleanupExpiredLeases reg t0)
                        \<lparr>runBindings := AList.delete (bindingKey tenant run be)
                                          (runBindings (cleanupExpiredLeases reg t0))\<rparr>)
                      t1 rnd tenant run be ttlv)) = (Inr l, reg')"
    by (rule allocateLease_unfold)
  have "resolveLeaseTtlMs reg' x = resolveLeaseTtlMs (cleanupExpiredLeases reg t0) x"
    using body
    by (auto split: option.splits if_splits prod.splits
        dest!: refreshLease_settings[where x = x] mintLease_settings[where x = x]
        simp: resolveLeaseTtlMs_def)
  then show ?thesis by simp
qed

lemma allocateLease_again:
  assumes inv: "registryInv reg"
    and n: "normalizeLeaseBackend beRaw = Inr be" "normalizeTenantId (Some tenantRaw) = Some tenant"
      "normalizeRunId (Some runRaw) = Some run"
    and b: "map_of (runBindings reg) (bindingKey tenant run be) = Some lid"
    and l: "map_of (leases reg) lid = Some l1" and live: "t0 < expiresAt l1"
    and ttl: "resolveLeaseTtlMs reg ttl = Inr v"
  shows "\<exists>l2 reg2. allocateLease reg t0 t1 rnd tenantRaw runRaw beRaw ttl = (Inr l2, reg2) \<and>
           leaseId l2 = lid"
proof -
  let ?reg1 = "cleanupExpiredLeases reg t0"
  from cleanup_lookup[OF inv, of t0 lid] l live
  have l': "map_of (leases ?reg1) lid = Some l1" by simp
  from cleanup_binding_kept[OF inv b l live]
  have b': "map_of (runBindings ?reg1) (bindingKey tenant run be) = Some lid" .
  from inv_entry(2)[OF inv l] have ne: "lid \<noteq> []" by (rule isMintedId_nonempty)
  from inv_entry(1)[OF inv l] have id: "leaseId l1 = lid" .
  obtain l2 reg2 where rf: "refreshLease ?reg1 l1 v t1 = (l2, reg2)" by (cases "refreshLease ?reg1 l1 v t1")
  then have "leaseId l2 = lid" using id by (auto simp: refreshLease_def Let_def)
  moreover have "allocateLease reg t0 t1 rnd tenantRaw runRaw beRaw ttl = (Inr l2, reg2)"
    using n l' b' ne ttl rf by (simp add: allocateLease_def Let_def)
  ultimately show ?thesis by blast
qed

lemma releaseLease_absent:
  assumes "normalizeLeaseId (Some raw) = Some lid" "map_of (leases reg) lid = None"
  shows "fst (releaseLease reg t0 raw tn rn) = Inr False"
  using assms cleanup_no_new[OF assms(2), of t0]
  by (simp add: releaseLease_def Let_def)

lemma releaseLease_active:
  assumes inv: "registryInv reg" and n: "normalizeLeaseId (Some raw) = Some lid"
    and l: "map_of (leases reg) lid = Some l" and live: "t0 < expiresAt l"
    and sc: "assertOptionalScopeMatch l tn rn = None"
  shows "\<exists>reg1. releaseLease reg t0 raw tn rn = (Inr True, reg1) \<and> map_of (leases reg1) lid = None"
proof -
  from cleanup_lookup[OF inv, of t0 lid] l live
  have "map_of (leases (cleanupExpiredLeases reg t0)) lid = Some l" by simp
  with n sc show ?thesis
    by (simp add: releaseLease_def Let_def delete_conv')
qed

text \<open>
  Claim C4. In a registry that satisfies the invariant, an \<open>allocateLease\<close> that returns a
  lease, followed by an \<open>allocateLease\<close> for the same tenant, run and backend made before
  that lease expires (with any acceptable \<open>ttlMs\<close>), returns a lease with the same
  \<open>leaseId\<close>. \<open>releaseLease\<close> of a lease id that is not in the registry returns
  \<open>{released: false}\<close>. \<open>releaseLease\<close> of an active lease, called twice, returns
  \<open>{released: true}\<close> and then \<open>{released: false}\<close>.
\<close>

theorem lease_idempotence:
  "(\<forall>l1 reg1 v.
      registryInv reg \<and> length rnd = 16 \<and>
      allocateLease reg t0 t1 rnd tenant run be ttl = (Inr l1, reg1) \<and>
      t0' < expiresAt l1 \<and> resolveLeaseTtlMs reg ttl' = Inr v \<longrightarrow>
      (\<exists>l2 reg2. allocateLease reg1 t0' t1' rnd' tenant run be ttl' = (Inr l2, reg2) \<and>
                 leaseId l2 = leaseId l1)) \<and>
   (\<forall>lid. normalizeLeaseId (Some raw) = Some lid \<and> map_of (leases reg) lid = None \<longrightarrow>
      fst (releaseLease reg t0 raw tn rn) = Inr False) \<and>
   (\<forall>lid l.
      registryInv reg \<and> normalizeLeaseId (Some raw) = Some lid \<and>
      map_of (leases reg) lid = Some l \<and> t0 < expiresAt l \<and>
      assertOptionalScopeMatch l tn rn = None \<longrightarrow>
      (\<exists>reg1 reg2. releaseLease reg t0 raw tn rn = (Inr True, reg1) \<and>
                   releaseLease reg1 t0' raw tn' rn' = (Inr False, reg2)))"
proof (intro conjI allI impI)
  fix l1 reg1 v
  assume a: "registryInv reg \<and> length rnd = 16 \<and>
      allocateLease reg t0 t1 rnd tenant run be ttl = (Inr l1, reg1) \<and>
      t0' < expiresAt l1 \<and> resolveLeaseTtlMs reg ttl' = Inr v"
  then have r: "allocateLease reg t0 t1 rnd tenant run be ttl = (Inr l1, reg1)" by simp
  from a allocateLease_result[OF _ _ r]
  obtain tenant' run' be' where f: "registryInv reg1" "map_of (leases reg1) (leaseId l1) = Some l1"
    "normalizeLeaseBackend be = Inr be'" "normalizeTenantId (Some tenant) = Some tenant'"
    "normalizeRunId (Some run) = Some run'"
    "map_of (runBindings reg1) (bindingKey tenant' run' be') = Some (leaseId l1)"
    by blast
  from a allocateLease_settings[OF r, of ttl']
  have ttl: "resolveLeaseTtlMs reg1 ttl' = Inr v" by simp
  from a have live: "t0' < expiresAt l1" by simp
  show "\<exists>l2 reg2. allocateLease reg1 t0' t1' rnd' tenant run be ttl' = (Inr l2, reg2) \<and>
                 leaseId l2 = leaseId l1"
    by (rule allocateLease_again[OF f(1) f(3) f(4) f(5) f(6) f(2) live ttl])
next
  fix lid
  assume "normalizeLeaseId (Some raw) = Some lid \<and> map_of (leases reg) lid = None"
  then have "normalizeLeaseId (Some raw) = Some lid" and "map_of (leases reg) lid = None"
    by simp_all
  then show "fst (releaseLease reg t0 raw tn rn) = Inr False"
    by (rule releaseLease_absent)
next
  fix lid l
  assume a: "registryInv reg \<and> normalizeLeaseId (Some raw) = Some lid \<and>
      map_of (leases reg) lid = Some l \<and> t0 < expiresAt l \<and>
      assertOptionalScopeMatch l tn rn = None"
  then obtain reg1 where r1: "releaseLease reg t0 raw tn rn = (Inr True, reg1)"
    and gone: "map_of (leases reg1) lid = None"
    using releaseLease_active[of reg raw lid l t0 tn rn] by blast
  from a have n: "normalizeLeaseId (Some raw) = Some lid" by simp
  from releaseLease_absent[OF n gone, of t0' tn' rn']
  have "releaseLease reg1 t0' raw tn' rn' = (Inr False, snd (releaseLease reg1 t0' raw tn' rn'))"
    by (simp add: prod_eq_iff)
  with r1 show "\<exists>reg1 reg2. releaseLease reg t0 raw tn rn = (Inr True, reg1) \<and>
                   releaseLease reg1 t0' raw tn' rn' = (Inr False, reg2)"
    by blast
qed

lemma twoLeases_eval:
  "twoLeases =
     \<lparr>leases =
        [(''abcdef0123456789abcdef0123456789'',
          \<lparr>leaseId = ''abcdef0123456789abcdef0123456789'', tenantId = ''tenant-b'',
             runId = ''run-9'', backend = ''ios-simulator'', createdAt = 0, heartbeatAt = 0,
             expiresAt = 5000\<rparr>),
         (''000102030405060708090a0b0c0d0eff'',
          \<lparr>leaseId = ''000102030405060708090a0b0c0d0eff'', tenantId = ''tenant-a'',
             runId = ''run-1'', backend = ''ios-simulator'', createdAt = 1000,
             heartbeatAt = 1000, expiresAt = 61000\<rparr>)],
      runBindings =
        [(''tenant-b:run-9:ios-simulator'', ''abcdef0123456789abcdef0123456789''),
         (''tenant-a:run-1:ios-simulator'', ''000102030405060708090a0b0c0d0eff'')],
      maxActiveSimulatorLeases = 0, defaultLeaseTtlMs = 60000,
      minLeaseTtlMs = 5000, maxLeaseTtlMs = 600000\<rparr>"
  by (simp add: twoLeases_def bytesA_def bytesB_def lease_defs str_defs)

lemma twoLeases_inv: "registryInv twoLeases"
  by (simp add: twoLeases_eval registryInv_def isMintedId_def leaseBindingKey_def bindingKey_def)

theorem lease_idempotence_witness:
  "(\<exists>l1 reg1 l2 reg2.
      allocateLease (newLeaseRegistry noOptions) 1000 1000 bytesA ''tenant-a'' ''run-1'' None None
        = (Inr l1, reg1) \<and>
      allocateLease reg1 1000 1000 bytesB ''tenant-a'' ''run-1'' None None = (Inr l2, reg2) \<and>
      leaseId l2 = leaseId l1) \<and>
   fst (releaseLease (newLeaseRegistry noOptions) 0 ''ABCDEF0123456789'' None None) = Inr False \<and>
   (\<exists>reg1 reg2.
      releaseLease twoLeases 2000 ''000102030405060708090A0B0C0D0EFF'' None None
        = (Inr True, reg1) \<and>
      releaseLease reg1 2000 ''000102030405060708090A0B0C0D0EFF'' None None = (Inr False, reg2))"
proof -
  let ?L = "\<lparr>leaseId = ''000102030405060708090a0b0c0d0eff'', tenantId = ''tenant-a'',
             runId = ''run-1'', backend = ''ios-simulator'', createdAt = 1000,
             heartbeatAt = 1000, expiresAt = 61000\<rparr>"
  let ?R = "\<lparr>leases = [(''000102030405060708090a0b0c0d0eff'', ?L)],
             runBindings =
               [(''tenant-a:run-1:ios-simulator'', ''000102030405060708090a0b0c0d0eff'')],
             maxActiveSimulatorLeases = 0, defaultLeaseTtlMs = 60000,
             minLeaseTtlMs = 5000, maxLeaseTtlMs = 600000\<rparr>"
  have inv0: "registryInv (newLeaseRegistry noOptions)" by (rule inv_new)
  have len: "length bytesA = 16" by (simp add: bytesA_def)
  have a: "allocateLease (newLeaseRegistry noOptions) 1000 1000 bytesA ''tenant-a'' ''run-1''
             None None = (Inr ?L, ?R)"
    by (simp add: lease_defs str_defs bytesA_def)
  have live: "1000 < expiresAt ?L" by simp
  have ttl: "resolveLeaseTtlMs (newLeaseRegistry noOptions) None = Inr 60000"
    by (simp add: lease_defs)
  note p1 = lease_idempotence[THEN conjunct1, rule_format,
      OF conjI[OF inv0 conjI[OF len conjI[OF a conjI[OF live ttl]]]], of 1000 bytesB]
  from p1 a have c1: "\<exists>l1 reg1 l2 reg2.
      allocateLease (newLeaseRegistry noOptions) 1000 1000 bytesA ''tenant-a'' ''run-1'' None None
        = (Inr l1, reg1) \<and>
      allocateLease reg1 1000 1000 bytesB ''tenant-a'' ''run-1'' None None = (Inr l2, reg2) \<and>
      leaseId l2 = leaseId l1"
    by blast
  have n1: "normalizeLeaseId (Some ''ABCDEF0123456789'') = Some ''abcdef0123456789''"
    by (simp add: lease_defs str_defs)
  have e1: "map_of (leases (newLeaseRegistry noOptions)) ''abcdef0123456789'' = None"
    by (simp add: lease_defs)
  note c2 = lease_idempotence[THEN conjunct2, THEN conjunct1, rule_format,
      OF conjI[OF n1 e1], of 0 None None]
  have n2: "normalizeLeaseId (Some ''000102030405060708090A0B0C0D0EFF'')
      = Some ''000102030405060708090a0b0c0d0eff''"
    by (simp add: lease_defs str_defs)
  have e2: "map_of (leases twoLeases) ''000102030405060708090a0b0c0d0eff'' = Some ?L"
    by (simp add: twoLeases_eval)
  have live2: "2000 < expiresAt ?L" by simp
  have sc: "assertOptionalScopeMatch ?L None None = None"
    by (simp add: lease_defs)
  note c3 = lease_idempotence[THEN conjunct2, THEN conjunct2, rule_format,
      OF conjI[OF twoLeases_inv conjI[OF n2 conjI[OF e2 conjI[OF live2 sc]]]], of 2000 None None]
  show ?thesis
    by (intro conjI, rule c1, rule c2, rule c3)
qed

subsection \<open>Scope of a lease\<close>

lemma normalizeTenantId_nonempty: "normalizeTenantId raw = Some t \<Longrightarrow> t \<noteq> []"
  by (auto simp: normalizeTenantId_def Let_def split: option.splits if_splits)

lemma normalizeRunId_nonempty: "normalizeRunId raw = Some r \<Longrightarrow> r \<noteq> []"
  by (auto simp: normalizeRunId_def Let_def split: option.splits if_splits)

lemma scope_mismatch:
  assumes "tn = None \<or> tn = Some [] \<or> normalizeTenantId tn \<noteq> None"
    and "rn = None \<or> rn = Some [] \<or> normalizeRunId rn \<noteq> None"
    and "(\<exists>t. normalizeTenantId tn = Some t \<and> t \<noteq> tenantId l) \<or>
         (\<exists>r. normalizeRunId rn = Some r \<and> r \<noteq> runId l)"
  shows "assertOptionalScopeMatch l tn rn = Some leaseScopeMismatch"
  using assms normalizeTenantId_nonempty[of tn] normalizeRunId_nonempty[of rn]
  by (auto simp: assertOptionalScopeMatch_def truthy_def Let_def split: option.splits)

text \<open>
  Claim C5, as stated, says that a scope mismatch leaves the lease map and the binding
  index as they were before the call. In the registry \<open>twoLeases\<close> at time 10000 the lease
  of \<open>tenant-b\<close> has expired; a heartbeat of the other lease under the wrong tenant fails
  with \<open>LEASE_SCOPE_MISMATCH\<close>, and the expiry sweep that opens the call has removed the
  expired lease and its binding.
\<close>

theorem scope_mismatch_sweeps_expired:
  "fst (heartbeatLease twoLeases 10000 10000 ''000102030405060708090a0b0c0d0eff''
         (Some ''tenant-x'') None None)
     = Inl (AppError ''UNAUTHORIZED'' ''Lease does not match tenant/run scope''
            (Some [(''reason'', JStr ''LEASE_SCOPE_MISMATCH'')])) \<and>
   map fst (leases twoLeases)
     = [''abcdef0123456789abcdef0123456789'', ''000102030405060708090a0b0c0d0eff''] \<and>
   map fst (leases (snd (heartbeatLease twoLeases 10000 10000
         ''000102030405060708090a0b0c0d0eff'' (Some ''tenant-x'') None None)))
     = [''000102030405060708090a0b0c0d0eff''] \<and>
   map fst (runBindings twoLeases)
     = [''tenant-b:run-9:ios-simulator'', ''tenant-a:run-1:ios-simulator''] \<and>
   map fst (runBindings (snd (heartbeatLease twoLeases 10000 10000
         ''000102030405060708090a0b0c0d0eff'' (Some ''tenant-x'') None None)))
     = [''tenant-a:run-1:ios-simulator'']"
  by (simp add: twoLeases_eval lease_defs str_defs)

lemma cleanup_state:
  assumes "registryInv reg"
  shows "cleanupExpiredLeases reg t =
     reg\<lparr>leases := filter (\<lambda>(k, l). t < expiresAt l) (leases reg),
         runBindings :=
           filter (\<lambda>(key, v). key \<notin> set (map (\<lambda>(k, l). leaseBindingKey l)
                                         (filter (\<lambda>(k, l). \<not> t < expiresAt l) (leases reg))))
             (runBindings reg)\<rparr>"
proof -
  have s: "set (map (\<lambda>(k, l). leaseBindingKey l) (filter (\<lambda>(k, l). \<not> t < expiresAt l) (leases reg)))
      = (\<lambda>(k, l). leaseBindingKey l) ` {e \<in> set (leases reg). \<not> t < expiresAt (snd e)}"
    by (auto simp: case_prod_beta)
  have "leases (cleanupExpiredLeases reg t) = filter (\<lambda>(k, l). t < expiresAt l) (leases reg)"
    by (rule cleanup_leases[OF assms])
  moreover have "runBindings (cleanupExpiredLeases reg t) =
      filter (\<lambda>(key, v). key \<notin> set (map (\<lambda>(k, l). leaseBindingKey l)
                                         (filter (\<lambda>(k, l). \<not> t < expiresAt l) (leases reg))))
        (runBindings reg)"
    unfolding s by (rule cleanup_bindings[OF assms])
  ultimately show ?thesis
    by (simp add: cleanupExpiredLeases_def split: prod.splits)
qed

text \<open>
  Claim C5, amended. \<open>heartbeatLease\<close> and \<open>releaseLease\<close>, invoked on an active lease with
  an optional \<open>tenantId\<close> or \<open>runId\<close> that is well formed and differs from the recorded scope
  of the lease (the other optional value being absent, empty or well formed), fail with
  \<open>UNAUTHORIZED\<close> and reason \<open>LEASE_SCOPE_MISMATCH\<close>. The registry is left as the expiry
  sweep that opens the call leaves it: the lease map keeps exactly the leases that have not
  expired, the targeted lease among them, unchanged and still bound; the binding index
  loses exactly the bindings under the binding key of an expired lease; and when no lease
  has expired the registry is exactly as before the call.
\<close>

theorem lease_scope_mismatch:
  "registryInv reg \<and> normalizeLeaseId (Some raw) = Some lid \<and>
   map_of (leases reg) lid = Some l \<and> t0 < expiresAt l \<and>
   (tn = None \<or> tn = Some [] \<or> normalizeTenantId tn \<noteq> None) \<and>
   (rn = None \<or> rn = Some [] \<or> normalizeRunId rn \<noteq> None) \<and>
   ((\<exists>t. normalizeTenantId tn = Some t \<and> t \<noteq> tenantId l) \<or>
    (\<exists>r. normalizeRunId rn = Some r \<and> r \<noteq> runId l)) \<longrightarrow>
   heartbeatLease reg t0 t1 raw tn rn ttl
     = (Inl (AppError ''UNAUTHORIZED'' ''Lease does not match tenant/run scope''
             (Some [(''reason'', JStr ''LEASE_SCOPE_MISMATCH'')])),
        cleanupExpiredLeases reg t0) \<and>
   releaseLease reg t0 raw tn rn
     = (Inl (AppError ''UNAUTHORIZED'' ''Lease does not match tenant/run scope''
             (Some [(''reason'', JStr ''LEASE_SCOPE_MISMATCH'')])),
        cleanupExpiredLeases reg t0) \<and>
   cleanupExpiredLeases reg t0 =
     reg\<lparr>leases := filter (\<lambda>(k, l). t0 < expiresAt l) (leases reg),
         runBindings :=
           filter (\<lambda>(key, v). key \<notin> set (map (\<lambda>(k, l). leaseBindingKey l)
                                         (filter (\<lambda>(k, l). \<not> t0 < expiresAt l) (leases reg))))
             (runBindings reg)\<rparr> \<and>
   leases (cleanupExpiredLeases reg t0) = filter (\<lambda>(k, l). t0 < expiresAt l) (leases reg) \<and>
   runBindings (cleanupExpiredLeases reg t0) =
     filter (\<lambda>(key, v). key \<notin> set (map (\<lambda>(k, l). leaseBindingKey l)
                                   (filter (\<lambda>(k, l). \<not> t0 < expiresAt l) (leases reg))))
       (runBindings reg) \<and>
   map_of (leases (cleanupExpiredLeases reg t0)) lid = Some l \<and>
   map_of (runBindings (cleanupExpiredLeases reg t0)) (leaseBindingKey l) = Some lid \<and>
   (list_all (\<lambda>(k, l). t0 < expiresAt l) (leases reg) \<longrightarrow> cleanupExpiredLeases reg t0 = reg)"
proof (intro impI)
  assume a: "registryInv reg \<and> normalizeLeaseId (Some raw) = Some lid \<and>
   map_of (leases reg) lid = Some l \<and> t0 < expiresAt l \<and>
   (tn = None \<or> tn = Some [] \<or> normalizeTenantId tn \<noteq> None) \<and>
   (rn = None \<or> rn = Some [] \<or> normalizeRunId rn \<noteq> None) \<and>
   ((\<exists>t. normalizeTenantId tn = Some t \<and> t \<noteq> tenantId l) \<or>
    (\<exists>r. normalizeRunId rn = Some r \<and> r \<noteq> runId l))"
  then have inv: "registryInv reg" and n: "normalizeLeaseId (Some raw) = Some lid"
    and l: "map_of (leases reg) lid = Some l" and live: "t0 < expiresAt l"
    by simp_all
  from a have "assertOptionalScopeMatch l tn rn = Some leaseScopeMismatch"
    by (intro scope_mismatch) blast+
  then have sc: "assertOptionalScopeMatch l tn rn
      = Some (AppError ''UNAUTHORIZED'' ''Lease does not match tenant/run scope''
             (Some [(''reason'', JStr ''LEASE_SCOPE_MISMATCH'')]))"
    by (simp add: leaseScopeMismatch_def)
  from cleanup_lookup[OF inv, of t0 lid] l live
  have l': "map_of (leases (cleanupExpiredLeases reg t0)) lid = Some l" by simp
  have h: "heartbeatLease reg t0 t1 raw tn rn ttl
     = (Inl (AppError ''UNAUTHORIZED'' ''Lease does not match tenant/run scope''
             (Some [(''reason'', JStr ''LEASE_SCOPE_MISMATCH'')])),
        cleanupExpiredLeases reg t0)"
    using n l' sc by (simp add: heartbeatLease_def Let_def)
  have r: "releaseLease reg t0 raw tn rn
     = (Inl (AppError ''UNAUTHORIZED'' ''Lease does not match tenant/run scope''
             (Some [(''reason'', JStr ''LEASE_SCOPE_MISMATCH'')])),
        cleanupExpiredLeases reg t0)"
    using n l' sc by (simp add: releaseLease_def Let_def)
  note st = cleanup_state[OF inv, of t0]
  have ls: "leases (cleanupExpiredLeases reg t0)
      = filter (\<lambda>(k, l). t0 < expiresAt l) (leases reg)"
    by (rule cleanup_leases[OF inv])
  have rb: "runBindings (cleanupExpiredLeases reg t0) =
     filter (\<lambda>(key, v). key \<notin> set (map (\<lambda>(k, l). leaseBindingKey l)
                                   (filter (\<lambda>(k, l). \<not> t0 < expiresAt l) (leases reg))))
       (runBindings reg)"
    by (subst st) simp
  show "heartbeatLease reg t0 t1 raw tn rn ttl
     = (Inl (AppError ''UNAUTHORIZED'' ''Lease does not match tenant/run scope''
             (Some [(''reason'', JStr ''LEASE_SCOPE_MISMATCH'')])),
        cleanupExpiredLeases reg t0) \<and>
   releaseLease reg t0 raw tn rn
     = (Inl (AppError ''UNAUTHORIZED'' ''Lease does not match tenant/run scope''
             (Some [(''reason'', JStr ''LEASE_SCOPE_MISMATCH'')])),
        cleanupExpiredLeases reg t0) \<and>
   cleanupExpiredLeases reg t0 =
     reg\<lparr>leases := filter (\<lambda>(k, l). t0 < expiresAt l) (leases reg),
         runBindings :=
           filter (\<lambda>(key, v). key \<notin> set (map (\<lambda>(k, l). leaseBindingKey l)
                                         (filter (\<lambda>(k, l). \<not> t0 < expiresAt l) (leases reg))))
             (runBindings reg)\<rparr> \<and>
   leases (cleanupExpiredLeases reg t0) = filter (\<lambda>(k, l). t0 < expiresAt l) (leases reg) \<and>
   runBindings (cleanupExpiredLeases reg t0) =
     filter (\<lambda>(key, v). key \<notin> set (map (\<lambda>(k, l). leaseBindingKey l)
                                   (filter (\<lambda>(k, l). \<not> t0 < expiresAt l) (leases reg))))
       (runBindings reg) \<and>
   map_of (leases (cleanupExpiredLeases reg t0)) lid = Some l \<and>
   map_of (runBindings (cleanupExpiredLeases reg t0)) (leaseBindingKey l) = Some lid \<and>
   (list_all (\<lambda>(k, l). t0 < expiresAt l) (leases reg) \<longrightarrow> cleanupExpiredLeases reg t0 = reg)"
    using h r st ls rb l' cleanup_binding_lookup[OF inv l live] cleanup_unexpired[of t0 reg]
    by (intro conjI impI) assumption+
qed

theorem lease_scope_mismatch_witness:
  "heartbeatLease twoLeases 10000 10001 ''000102030405060708090a0b0c0d0eff''
       (Some ''tenant-x'') None None
     = (Inl (AppError ''UNAUTHORIZED'' ''Lease does not match tenant/run scope''
             (Some [(''reason'', JStr ''LEASE_SCOPE_MISMATCH'')])),
        twoLeases\<lparr>leases :=
            [(''000102030405060708090a0b0c0d0eff'',
              \<lparr>leaseId = ''000102030405060708090a0b0c0d0eff'', tenantId = ''tenant-a'',
                 runId = ''run-1'', backend = ''ios-simulator'', createdAt = 1000,
                 heartbeatAt = 1000, expiresAt = 61000\<rparr>)],
          runBindings :=
            [(''tenant-a:run-1:ios-simulator'', ''000102030405060708090a0b0c0d0eff'')]\<rparr>) \<and>
   releaseLease twoLeases 10000 ''000102030405060708090a0b0c0d0eff'' None (Some ''run-2'')
     = (Inl (AppError ''UNAUTHORIZED'' ''Lease does not match tenant/run scope''
             (Some [(''reason'', JStr ''LEASE_SCOPE_MISMATCH'')])),
        twoLeases\<lparr>leases :=
            [(''000102030405060708090a0b0c0d0eff'',
              \<lparr>leaseId = ''000102030405060708090a0b0c0d0eff'', tenantId = ''tenant-a'',
                 runId = ''run-1'', backend = ''ios-simulator'', createdAt = 1000,
                 heartbeatAt = 1000, expiresAt = 61000\<rparr>)],
          runBindings :=
            [(''tenant-a:run-1:ios-simulator'', ''000102030405060708090a0b0c0d0eff'')]\<rparr>) \<and>
   heartbeatLease twoLeases 2000 2000 ''000102030405060708090a0b0c0d0eff''
       (Some ''tenant-x'') None None
     = (Inl (AppError ''UNAUTHORIZED'' ''Lease does not match tenant/run scope''
             (Some [(''reason'', JStr ''LEASE_SCOPE_MISMATCH'')])), twoLeases) \<and>
   releaseLease twoLeases 2000 ''000102030405060708090a0b0c0d0eff'' None (Some ''run-2'')
     = (Inl (AppError ''UNAUTHORIZED'' ''Lease does not match tenant/run scope''
             (Some [(''reason'', JStr ''LEASE_SCOPE_MISMATCH'')])), twoLeases)"
proof -
  let ?L = "\<lparr>leaseId = ''000102030405060708090a0b0c0d0eff'', tenantId = ''tenant-a'',
             runId = ''run-1'', backend = ''ios-simulator'', createdAt = 1000,
             heartbeatAt = 1000, expiresAt = 61000\<rparr>"
  have n: "normalizeLeaseId (Some ''000102030405060708090a0b0c0d0eff'')
      = Some ''000102030405060708090a0b0c0d0eff''"
    by (simp add: lease_defs str_defs)
  have e: "map_of (leases twoLeases) ''000102030405060708090a0b0c0d0eff'' = Some ?L"
    by (simp add: twoLeases_eval)
  have live: "2000 < expiresAt ?L" and live': "10000 < expiresAt ?L" by simp_all
  have all: "list_all (\<lambda>(k, l). 2000 < expiresAt l) (leases twoLeases)"
    by (simp add: twoLeases_eval)
  have t1: "Some ''tenant-x'' = None \<or> Some ''tenant-x'' = Some [] \<or>
      normalizeTenantId (Some ''tenant-x'') \<noteq> None"
    by (simp add: lease_defs str_defs)
  have r0: "(None :: string option) = None \<or> None = Some [] \<or> normalizeRunId None \<noteq> None"
    by simp
  have m1: "(\<exists>t. normalizeTenantId (Some ''tenant-x'') = Some t \<and> t \<noteq> tenantId ?L) \<or>
      (\<exists>r. normalizeRunId None = Some r \<and> r \<noteq> runId ?L)"
    by (simp add: lease_defs str_defs)
  have t0: "(None :: string option) = None \<or> None = Some [] \<or> normalizeTenantId None \<noteq> None"
    by simp
  have r1: "Some ''run-2'' = None \<or> Some ''run-2'' = Some [] \<or>
      normalizeRunId (Some ''run-2'') \<noteq> None"
    by (simp add: lease_defs str_defs)
  have m2: "(\<exists>t. normalizeTenantId None = Some t \<and> t \<noteq> tenantId ?L) \<or>
      (\<exists>r. normalizeRunId (Some ''run-2'') = Some r \<and> r \<noteq> runId ?L)"
    by (simp add: lease_defs str_defs)
  note a = lease_scope_mismatch[rule_format,
      OF conjI[OF twoLeases_inv conjI[OF n conjI[OF e conjI[OF live conjI[OF t1 conjI[OF r0 m1]]]]]],
      of 2000 None]
  note b = lease_scope_mismatch[rule_format,
      OF conjI[OF twoLeases_inv conjI[OF n conjI[OF e conjI[OF live conjI[OF t0 conjI[OF r1 m2]]]]]],
      of 2000 None]
  note a' = lease_scope_mismatch[rule_format,
      OF conjI[OF twoLeases_inv conjI[OF n conjI[OF e conjI[OF live' conjI[OF t1 conjI[OF r0 m1]]]]]],
      of 10001 None]
  note b' = lease_scope_mismatch[rule_format,
      OF conjI[OF twoLeases_inv conjI[OF n conjI[OF e conjI[OF live' conjI[OF t0 conjI[OF r1 m2]]]]]],
      of 10001 None]
  from a all have c: "cleanupExpiredLeases twoLeases 2000 = twoLeases" by blast
  from a' have "cleanupExpiredLeases twoLeases 10000 =
     twoLeases\<lparr>leases := filter (\<lambda>(k, l). 10000 < expiresAt l) (leases twoLeases),
         runBindings :=
           filter (\<lambda>(key, v). key \<notin> set (map (\<lambda>(k, l). leaseBindingKey l)
                               (filter (\<lambda>(k, l). \<not> 10000 < expiresAt l) (leases twoLeases))))
             (runBindings twoLeases)\<rparr>"
    by blast
  also have "filter (\<lambda>(k, l). 10000 < expiresAt l) (leases twoLeases)
      = [(''000102030405060708090a0b0c0d0eff'', ?L)]"
    by (simp add: twoLeases_eval)
  also have "filter (\<lambda>(key, v). key \<notin> set (map (\<lambda>(k, l). leaseBindingKey l)
                               (filter (\<lambda>(k, l). \<not> 10000 < expiresAt l) (leases twoLeases))))
             (runBindings twoLeases)
      = [(''tenant-a:run-1:ios-simulator'', ''000102030405060708090a0b0c0d0eff'')]"
    by (simp add: twoLeases_eval leaseBindingKey_def bindingKey_def)
  finally have c': "cleanupExpiredLeases twoLeases 10000 =
     twoLeases\<lparr>leases := [(''000102030405060708090a0b0c0d0eff'', ?L)],
         runBindings :=
           [(''tenant-a:run-1:ios-simulator'', ''000102030405060708090a0b0c0d0eff'')]\<rparr>" .
  from a b have s2: "heartbeatLease twoLeases 2000 2000 ''000102030405060708090a0b0c0d0eff''
       (Some ''tenant-x'') None None
     = (Inl (AppError ''UNAUTHORIZED'' ''Lease does not match tenant/run scope''
             (Some [(''reason'', JStr ''LEASE_SCOPE_MISMATCH'')])), twoLeases)"
    "releaseLease twoLeases 2000 ''000102030405060708090a0b0c0d0eff'' None (Some ''run-2'')
     = (Inl (AppError ''UNAUTHORIZED'' ''Lease does not match tenant/run scope''
             (Some [(''reason'', JStr ''LEASE_SCOPE_MISMATCH'')])), twoLeases)"
    unfolding c by blast+
  from a' b' have s10: "heartbeatLease twoLeases 10000 10001 ''000102030405060708090a0b0c0d0eff''
       (Some ''tenant-x'') None None
     = (Inl (AppError ''UNAUTHORIZED'' ''Lease does not match tenant/run scope''
             (Some [(''reason'', JStr ''LEASE_SCOPE_MISMATCH'')])),
        cleanupExpiredLeases twoLeases 10000)"
    "releaseLease twoLeases 10000 ''000102030405060708090a0b0c0d0eff'' None (Some ''run-2'')
     = (Inl (AppError ''UNAUTHORIZED'' ''Lease does not match tenant/run scope''
             (Some [(''reason'', JStr ''LEASE_SCOPE_MISMATCH'')])),
        cleanupExpiredLeases twoLeases 10000)"
    by blast+
  show ?thesis
    using s10[unfolded c'] s2 by (intro conjI) assumption+
qed

subsection \<open>Lease ids\<close>

lemma isWhitespace_lower: "isWhitespace (lowerChar c) = isWhitespace c"
  by (simp add: isWhitespace_def lowerChar_def upperLetters_def lowerLetters_def)

lemma isHexChar_lower: "isHexChar (lowerChar c) = isHexChar c"
  by (simp add: isHexChar_def lowerChar_def upperLetters_def lowerLetters_def)

lemma trim_lower: "trim (toLowerCase s) = toLowerCase (trim s)"
proof -
  have "isWhitespace \<circ> lowerChar = isWhitespace"
    by (rule ext) (simp add: isWhitespace_lower)
  then show ?thesis
    by (simp add: trim_def toLowerCase_def rev_map dropWhile_map)
qed

lemma matchesLeaseId_lower: "matchesLeaseId (toLowerCase s) = matchesLeaseId s"
  by (simp add: matchesLeaseId_def toLowerCase_def list_all_iff isHexChar_lower)

lemma normalizeLeaseId_char:
  "normalizeLeaseId (Some raw) =
     (if matchesLeaseId (trim raw) then Some (toLowerCase (trim raw)) else None)"
proof -
  have "\<not> matchesLeaseId []" by (simp add: matchesLeaseId_def)
  moreover have "trim [] = []" by (simp add: trim_def)
  ultimately show ?thesis
    by (auto simp: normalizeLeaseId_def Let_def)
qed

lemma normalizeLeaseId_case:
  assumes "toLowerCase raw1 = toLowerCase raw2"
  shows "normalizeLeaseId (Some raw1) = normalizeLeaseId (Some raw2)"
proof -
  from assms have t: "toLowerCase (trim raw1) = toLowerCase (trim raw2)"
    by (simp add: trim_lower[symmetric])
  then have "matchesLeaseId (trim raw1) = matchesLeaseId (trim raw2)"
    using matchesLeaseId_lower[of "trim raw1"] matchesLeaseId_lower[of "trim raw2"] by simp
  with t show ?thesis by (simp add: normalizeLeaseId_char)
qed

lemma trim_idem: "trim (trim s) = trim s"
proof -
  define a where "a = dropWhile isWhitespace s"
  define b where "b = rev (dropWhile isWhitespace (rev a))"
  have a: "a = b @ rev (takeWhile isWhitespace (rev a))"
  proof -
    have "b @ rev (takeWhile isWhitespace (rev a))
        = rev (takeWhile isWhitespace (rev a) @ dropWhile isWhitespace (rev a))"
      by (simp only: b_def rev_append)
    also have "\<dots> = rev (rev a)" by (simp only: takeWhile_dropWhile_id)
    also have "\<dots> = a" by (simp only: rev_rev_ident)
    finally show ?thesis by (rule sym)
  qed
  have front: "dropWhile isWhitespace b = b"
  proof (cases b)
    case Nil then show ?thesis by simp
  next
    case (Cons y ys)
    with a have "\<exists>r. a = y # r" by (metis append_Cons)
    then obtain r where r: "a = y # r" ..
    then have "hd a = y" "a \<noteq> []" by simp_all
    then have "\<not> isWhitespace y" using hd_dropWhile[of isWhitespace s] by (auto simp: a_def)
    with Cons show ?thesis by simp
  qed
  have rear: "dropWhile isWhitespace (rev b) = rev b" by (simp add: b_def)
  have "trim s = b" by (simp add: trim_def a_def b_def)
  moreover have "trim b = b" by (simp add: trim_def front rear)
  ultimately show ?thesis by simp
qed

lemma normalizeLeaseId_trim:
  "normalizeLeaseId (Some (trim raw)) = normalizeLeaseId (Some raw)"
  by (simp add: normalizeLeaseId_char trim_idem)

lemma assertLeaseAdmission_malformed:
  assumes "normalizeLeaseId lraw = None"
  shows "\<exists>e. assertLeaseAdmission reg t0 tn rn lraw be = (Some e, reg) \<and>
             errorCode e = ''INVALID_ARGS''"
  using assms
  by (auto simp: assertLeaseAdmission_def normalizeLeaseBackend_def Let_def
      split: sum.splits option.splits)

text \<open>
  Claim C10, as stated, says that a supplied lease id outside the shape of 16 to 128
  hexadecimal characters fails with \<open>INVALID_ARGS\<close>. An id padded with white space is
  outside that shape, and is accepted: \<open>normalizeLeaseId\<close> trims it first. Here the
  heartbeat of the padded id succeeds and refreshes the lease.
\<close>

theorem padded_lease_id_accepted:
  "\<not> matchesLeaseId '' 000102030405060708090A0B0C0D0EFF '' \<and>
   fst (heartbeatLease twoLeases 2000 2001 '' 000102030405060708090A0B0C0D0EFF ''
          None None None)
     = Inr \<lparr>leaseId = ''000102030405060708090a0b0c0d0eff'', tenantId = ''tenant-a'',
             runId = ''run-1'', backend = ''ios-simulator'', createdAt = 1000,
             heartbeatAt = 2001, expiresAt = 62001\<rparr>"
  by (simp add: twoLeases_eval lease_defs str_defs)

text \<open>
  Claim C10, amended. Lease ids are matched case-insensitively at the public interface of
  the registry. A lease returned by \<open>allocateLease\<close> has an id of 32 lowercase hexadecimal
  characters. \<open>heartbeatLease\<close>, \<open>releaseLease\<close> and \<open>assertLeaseAdmission\<close> trim the
  supplied id (a padded id gives the outcome of the trimmed id) and, when the trimmed id
  has 16 to 128 hexadecimal characters, look up the lowercase form of the trimmed id in
  the swept lease map and go on with the lease stored there, so that two supplied ids that
  differ only in letter case give the same outcome. A supplied id whose trimmed form is
  outside that shape (an empty or absent id included) fails with \<open>INVALID_ARGS\<close> and leaves
  the registry untouched.
\<close>

theorem lease_id_case_insensitive:
  "(\<forall>l reg'. registryInv reg \<and> length rnd = 16 \<and>
       allocateLease reg t0 t1 rnd tenant run be ttl = (Inr l, reg') \<longrightarrow>
       length (leaseId l) = 32 \<and> list_all (\<lambda>c. c \<in> set ''0123456789abcdef'') (leaseId l)) \<and>
   normalizeLeaseId (Some raw) =
     (if matchesLeaseId (trim raw) then Some (toLowerCase (trim raw)) else None) \<and>
   (toLowerCase raw1 = toLowerCase raw2 \<longrightarrow>
      heartbeatLease reg t0 t1 raw1 tn rn ttl = heartbeatLease reg t0 t1 raw2 tn rn ttl \<and>
      releaseLease reg t0 raw1 tn rn = releaseLease reg t0 raw2 tn rn \<and>
      assertLeaseAdmission reg t0 tn rn (Some raw1) be
        = assertLeaseAdmission reg t0 tn rn (Some raw2) be) \<and>
   (\<not> matchesLeaseId (trim raw) \<longrightarrow>
      heartbeatLease reg t0 t1 raw tn rn ttl
        = (Inl (AppError ''INVALID_ARGS'' ''Invalid lease id.'' None), reg) \<and>
      releaseLease reg t0 raw tn rn
        = (Inl (AppError ''INVALID_ARGS'' ''Invalid lease id.'' None), reg) \<and>
      (\<exists>e. assertLeaseAdmission reg t0 tn rn (Some raw) be = (Some e, reg) \<and>
           errorCode e = ''INVALID_ARGS'') \<and>
      (\<exists>e. assertLeaseAdmission reg t0 tn rn None be = (Some e, reg) \<and>
           errorCode e = ''INVALID_ARGS'')) \<and>
   (heartbeatLease reg t0 t1 raw tn rn ttl = heartbeatLease reg t0 t1 (trim raw) tn rn ttl \<and>
    releaseLease reg t0 raw tn rn = releaseLease reg t0 (trim raw) tn rn \<and>
    assertLeaseAdmission reg t0 tn rn (Some raw) be
      = assertLeaseAdmission reg t0 tn rn (Some (trim raw)) be) \<and>
   (matchesLeaseId (trim raw) \<longrightarrow>
      heartbeatLease reg t0 t1 raw tn rn ttl =
        (case map_of (leases (cleanupExpiredLeases reg t0)) (toLowerCase (trim raw)) of
           None \<Rightarrow>
             (Inl (AppError ''UNAUTHORIZED'' ''Lease is not active''
                    (Some [(''reason'', JStr ''LEASE_NOT_FOUND'')])),
              cleanupExpiredLeases reg t0)
         | Some lease \<Rightarrow>
             (case assertOptionalScopeMatch lease tn rn of
                Some e \<Rightarrow> (Inl e, cleanupExpiredLeases reg t0)
              | None \<Rightarrow>
                  (case resolveLeaseTtlMs reg ttl of
                     Inl e \<Rightarrow> (Inl e, cleanupExpiredLeases reg t0)
                   | Inr v \<Rightarrow>
                       (case refreshLease (cleanupExpiredLeases reg t0) lease v t1 of
                          (l, reg') \<Rightarrow> (Inr l, reg'))))) \<and>
      releaseLease reg t0 raw tn rn =
        (case map_of (leases (cleanupExpiredLeases reg t0)) (toLowerCase (trim raw)) of
           None \<Rightarrow> (Inr False, cleanupExpiredLeases reg t0)
         | Some lease \<Rightarrow>
             (case assertOptionalScopeMatch lease tn rn of
                Some e \<Rightarrow> (Inl e, cleanupExpiredLeases reg t0)
              | None \<Rightarrow>
                  (Inr True,
                   (cleanupExpiredLeases reg t0)
                     \<lparr>leases := AList.delete (toLowerCase (trim raw))
                                   (leases (cleanupExpiredLeases reg t0)),
                      runBindings := AList.delete (leaseBindingKey lease)
                                       (runBindings (cleanupExpiredLeases reg t0))\<rparr>))) \<and>
      (\<forall>be' tenant' run'.
         normalizeLeaseBackend be = Inr be' \<and> normalizeTenantId tn = Some tenant' \<and>
         normalizeRunId rn = Some run' \<longrightarrow>
         assertLeaseAdmission reg t0 tn rn (Some raw) be =
           (case map_of (leases (cleanupExpiredLeases reg t0)) (toLowerCase (trim raw)) of
              None \<Rightarrow>
                (Some (AppError ''UNAUTHORIZED'' ''Lease is not active''
                         (Some [(''reason'', JStr ''LEASE_NOT_FOUND'')])),
                 cleanupExpiredLeases reg t0)
            | Some lease \<Rightarrow>
                if backend lease \<noteq> be' \<or> tenantId lease \<noteq> tenant' \<or> runId lease \<noteq> run'
                then (Some (AppError ''UNAUTHORIZED'' ''Lease does not match tenant/run scope''
                              (Some [(''reason'', JStr ''LEASE_SCOPE_MISMATCH'')])),
                      cleanupExpiredLeases reg t0)
                else (None, cleanupExpiredLeases reg t0))))"
proof (intro conjI allI impI)
  fix l reg'
  assume "registryInv reg \<and> length rnd = 16 \<and>
       allocateLease reg t0 t1 rnd tenant run be ttl = (Inr l, reg')"
  then have "isMintedId (leaseId l)"
    using allocateLease_result[of reg rnd t0 t1 tenant run be ttl l reg'] by simp
  then show "length (leaseId l) = 32" "list_all (\<lambda>c. c \<in> set ''0123456789abcdef'') (leaseId l)"
    by (simp_all add: isMintedId_def)
next
  show "normalizeLeaseId (Some raw) =
     (if matchesLeaseId (trim raw) then Some (toLowerCase (trim raw)) else None)"
    by (rule normalizeLeaseId_char)
next
  assume "toLowerCase raw1 = toLowerCase raw2"
  then have n: "normalizeLeaseId (Some raw1) = normalizeLeaseId (Some raw2)"
    by (rule normalizeLeaseId_case)
  show "heartbeatLease reg t0 t1 raw1 tn rn ttl = heartbeatLease reg t0 t1 raw2 tn rn ttl"
    by (simp add: heartbeatLease_def n)
  show "releaseLease reg t0 raw1 tn rn = releaseLease reg t0 raw2 tn rn"
    by (simp add: releaseLease_def n)
  show "assertLeaseAdmission reg t0 tn rn (Some raw1) be
        = assertLeaseAdmission reg t0 tn rn (Some raw2) be"
    unfolding assertLeaseAdmission_def n by (rule refl)
next
  assume "\<not> matchesLeaseId (trim raw)"
  then have n: "normalizeLeaseId (Some raw) = None"
    by (simp add: normalizeLeaseId_char)
  show "heartbeatLease reg t0 t1 raw tn rn ttl
        = (Inl (AppError ''INVALID_ARGS'' ''Invalid lease id.'' None), reg)"
    by (simp add: heartbeatLease_def n)
  show "releaseLease reg t0 raw tn rn
        = (Inl (AppError ''INVALID_ARGS'' ''Invalid lease id.'' None), reg)"
    by (simp add: releaseLease_def n)
  show "\<exists>e. assertLeaseAdmission reg t0 tn rn (Some raw) be = (Some e, reg) \<and>
           errorCode e = ''INVALID_ARGS''"
    using n by (rule assertLeaseAdmission_malformed)
  show "\<exists>e. assertLeaseAdmission reg t0 tn rn None be = (Some e, reg) \<and>
           errorCode e = ''INVALID_ARGS''"
    by (rule assertLeaseAdmission_malformed) (simp add: normalizeLeaseId_def)
next
  note n = normalizeLeaseId_trim[of raw, symmetric]
  show "heartbeatLease reg t0 t1 raw tn rn ttl = heartbeatLease reg t0 t1 (trim raw) tn rn ttl"
    by (simp add: heartbeatLease_def n)
  show "releaseLease reg t0 raw tn rn = releaseLease reg t0 (trim raw) tn rn"
    by (simp add: releaseLease_def n)
  show "assertLeaseAdmission reg t0 tn rn (Some raw) be
      = assertLeaseAdmission reg t0 tn rn (Some (trim raw)) be"
    unfolding assertLeaseAdmission_def n by (rule refl)
next
  assume "matchesLeaseId (trim raw)"
  then have n: "normalizeLeaseId (Some raw) = Some (toLowerCase (trim raw))"
    by (simp add: normalizeLeaseId_char)
  show "heartbeatLease reg t0 t1 raw tn rn ttl =
        (case map_of (leases (cleanupExpiredLeases reg t0)) (toLowerCase (trim raw)) of
           None \<Rightarrow>
             (Inl (AppError ''UNAUTHORIZED'' ''Lease is not active''
                    (Some [(''reason'', JStr ''LEASE_NOT_FOUND'')])),
              cleanupExpiredLeases reg t0)
         | Some lease \<Rightarrow>
             (case assertOptionalScopeMatch lease tn rn of
                Some e \<Rightarrow> (Inl e, cleanupExpiredLeases reg t0)
              | None \<Rightarrow>
                  (case resolveLeaseTtlMs reg ttl of
                     Inl e \<Rightarrow> (Inl e, cleanupExpiredLeases reg t0)
                   | Inr v \<Rightarrow>
                       (case refreshLease (cleanupExpiredLeases reg t0) lease v t1 of
                          (l, reg') \<Rightarrow> (Inr l, reg')))))"
    by (simp add: heartbeatLease_def n Let_def leaseNotFound_def
        split: option.splits sum.splits)
  show "releaseLease reg t0 raw tn rn =
        (case map_of (leases (cleanupExpiredLeases reg t0)) (toLowerCase (trim raw)) of
           None \<Rightarrow> (Inr False, cleanupExpiredLeases reg t0)
         | Some lease \<Rightarrow>
             (case assertOptionalScopeMatch lease tn rn of
                Some e \<Rightarrow> (Inl e, cleanupExpiredLeases reg t0)
              | None \<Rightarrow>
                  (Inr True,
                   (cleanupExpiredLeases reg t0)
                     \<lparr>leases := AList.delete (toLowerCase (trim raw))
                                   (leases (cleanupExpiredLeases reg t0)),
                      runBindings := AList.delete (leaseBindingKey lease)
                                       (runBindings (cleanupExpiredLeases reg t0))\<rparr>)))"
    by (simp add: releaseLease_def n Let_def split: option.splits)
  fix be' tenant' run'
  assume "normalizeLeaseBackend be = Inr be' \<and> normalizeTenantId tn = Some tenant' \<and>
         normalizeRunId rn = Some run'"
  then show "assertLeaseAdmission reg t0 tn rn (Some raw) be =
           (case map_of (leases (cleanupExpiredLeases reg t0)) (toLowerCase (trim raw)) of
              None \<Rightarrow>
                (Some (AppError ''UNAUTHORIZED'' ''Lease is not active''
                         (Some [(''reason'', JStr ''LEASE_NOT_FOUND'')])),
                 cleanupExpiredLeases reg t0)
            | Some lease \<Rightarrow>
                if backend lease \<noteq> be' \<or> tenantId lease \<noteq> tenant' \<or> runId lease \<noteq> run'
                then (Some (AppError ''UNAUTHORIZED'' ''Lease does not match tenant/run scope''
                              (Some [(''reason'', JStr ''LEASE_SCOPE_MISMATCH'')])),
                      cleanupExpiredLeases reg t0)
                else (None, cleanupExpiredLeases reg t0))"
    by (simp add: assertLeaseAdmission_def n Let_def leaseNotFound_def leaseScopeMismatch_def
        split: option.splits)
qed

theorem lease_id_case_insensitive_witness:
  "(\<exists>l reg'. allocateLease (newLeaseRegistry noOptions) 1000 1000 bytesA ''tenant-a'' ''run-1''
        None None = (Inr l, reg') \<and> leaseId l = ''000102030405060708090a0b0c0d0eff'' \<and>
      length (leaseId l) = 32) \<and>
   heartbeatLease twoLeases 2000 2001 ''000102030405060708090A0B0C0D0EFF'' None None None
     = heartbeatLease twoLeases 2000 2001 ''000102030405060708090a0b0c0d0eff'' None None None \<and>
   releaseLease twoLeases 2000 ''not-a-lease-id'' None None
     = (Inl (AppError ''INVALID_ARGS'' ''Invalid lease id.'' None), twoLeases) \<and>
   heartbeatLease twoLeases 2000 2001 (CHR 0xA0 # ''000102030405060708090A0B0C0D0EFF '')
       None None None
     = heartbeatLease twoLeases 2000 2001 ''000102030405060708090A0B0C0D0EFF'' None None None \<and>
   heartbeatLease twoLeases 2000 2001 (CHR 0xA0 # ''000102030405060708090A0B0C0D0EFF '')
       None None None
     = (Inr \<lparr>leaseId = ''000102030405060708090a0b0c0d0eff'', tenantId = ''tenant-a'',
              runId = ''run-1'', backend = ''ios-simulator'', createdAt = 1000,
              heartbeatAt = 2001, expiresAt = 62001\<rparr>,
        \<lparr>leases =
           [(''abcdef0123456789abcdef0123456789'',
             \<lparr>leaseId = ''abcdef0123456789abcdef0123456789'', tenantId = ''tenant-b'',
                runId = ''run-9'', backend = ''ios-simulator'', createdAt = 0, heartbeatAt = 0,
                expiresAt = 5000\<rparr>),
            (''000102030405060708090a0b0c0d0eff'',
             \<lparr>leaseId = ''000102030405060708090a0b0c0d0eff'', tenantId = ''tenant-a'',
                runId = ''run-1'', backend = ''ios-simulator'', createdAt = 1000,
                heartbeatAt = 2001, expiresAt = 62001\<rparr>)],
         runBindings =
           [(''tenant-b:run-9:ios-simulator'', ''abcdef0123456789abcdef0123456789''),
            (''tenant-a:run-1:ios-simulator'', ''000102030405060708090a0b0c0d0eff'')],
         maxActiveSimulatorLeases = 0, defaultLeaseTtlMs = 60000,
         minLeaseTtlMs = 5000, maxLeaseTtlMs = 600000\<rparr>) \<and>
   heartbeatLease twoLeases 2000 2001 ''ABCDEF0123456789'' None None None
     = (Inl (AppError ''UNAUTHORIZED'' ''Lease is not active''
              (Some [(''reason'', JStr ''LEASE_NOT_FOUND'')])), twoLeases) \<and>
   releaseLease twoLeases 10000 (CHR 0xA0 # ''000102030405060708090A0B0C0D0EFF '') None None
     = (Inr True,
        \<lparr>leases = [], runBindings = [],
         maxActiveSimulatorLeases = 0, defaultLeaseTtlMs = 60000,
         minLeaseTtlMs = 5000, maxLeaseTtlMs = 600000\<rparr>) \<and>
   assertLeaseAdmission twoLeases 2000 (Some ''tenant-a'') (Some ''run-1'')
       (Some (CHR 0xA0 # ''000102030405060708090A0B0C0D0EFF '')) None
     = (None, twoLeases) \<and>
   assertLeaseAdmission twoLeases 2000 (Some ''tenant-b'') (Some ''run-1'')
       (Some (CHR 0xA0 # ''000102030405060708090A0B0C0D0EFF '')) None
     = (Some (AppError ''UNAUTHORIZED'' ''Lease does not match tenant/run scope''
                (Some [(''reason'', JStr ''LEASE_SCOPE_MISMATCH'')])), twoLeases)"
proof -
  let ?L = "\<lparr>leaseId = ''000102030405060708090a0b0c0d0eff'', tenantId = ''tenant-a'',
             runId = ''run-1'', backend = ''ios-simulator'', createdAt = 1000,
             heartbeatAt = 1000, expiresAt = 61000\<rparr>"
  let ?R = "\<lparr>leases = [(''000102030405060708090a0b0c0d0eff'', ?L)],
             runBindings =
               [(''tenant-a:run-1:ios-simulator'', ''000102030405060708090a0b0c0d0eff'')],
             maxActiveSimulatorLeases = 0, defaultLeaseTtlMs = 60000,
             minLeaseTtlMs = 5000, maxLeaseTtlMs = 600000\<rparr>"
  let ?P = "CHR 0xA0 # ''000102030405060708090A0B0C0D0EFF ''"
  have inv0: "registryInv (newLeaseRegistry noOptions)" by (rule inv_new)
  have len: "length bytesA = 16" by (simp add: bytesA_def)
  have a: "allocateLease (newLeaseRegistry noOptions) 1000 1000 bytesA ''tenant-a'' ''run-1''
             None None = (Inr ?L, ?R)"
    by (simp add: lease_defs str_defs bytesA_def)
  note p1 = lease_id_case_insensitive[THEN conjunct1, rule_format,
      OF conjI[OF inv0 conjI[OF len a]]]
  from p1 a have c1: "\<exists>l reg'. allocateLease (newLeaseRegistry noOptions) 1000 1000 bytesA
        ''tenant-a'' ''run-1'' None None = (Inr l, reg') \<and>
      leaseId l = ''000102030405060708090a0b0c0d0eff'' \<and> length (leaseId l) = 32"
    by (intro exI[of _ ?L] exI[of _ ?R]) simp
  have lc: "toLowerCase ''000102030405060708090A0B0C0D0EFF''
      = toLowerCase ''000102030405060708090a0b0c0d0eff''"
    by (simp add: str_defs)
  note p2 = lease_id_case_insensitive[THEN conjunct2, THEN conjunct2, THEN conjunct1,
      rule_format, OF lc, THEN conjunct1, of twoLeases 2000 2001 None None None]
  have bad: "\<not> matchesLeaseId (trim ''not-a-lease-id'')"
    by (simp add: str_defs)
  note p3 = lease_id_case_insensitive[THEN conjunct2, THEN conjunct2, THEN conjunct2,
      THEN conjunct1, rule_format, OF bad, THEN conjunct2, THEN conjunct1,
      of twoLeases 2000 None None]
  have tr: "trim ?P = ''000102030405060708090A0B0C0D0EFF''"
    by (simp add: str_defs)
  note p5 = lease_id_case_insensitive[THEN conjunct2, THEN conjunct2, THEN conjunct2,
      THEN conjunct2, THEN conjunct1, THEN conjunct1,
      of twoLeases 2000 2001 ?P None None None, unfolded tr]
  have good: "matchesLeaseId (trim ?P)"
    unfolding tr by (simp add: str_defs)
  have good': "matchesLeaseId (trim ''ABCDEF0123456789'')"
    by (simp add: str_defs)
  have low: "toLowerCase (trim ?P) = ''000102030405060708090a0b0c0d0eff''"
    unfolding tr by (simp add: str_defs)
  have low': "toLowerCase (trim ''ABCDEF0123456789'') = ''abcdef0123456789''"
    by (simp add: str_defs)
  have c: "cleanupExpiredLeases twoLeases 2000 = twoLeases"
    by (simp add: twoLeases_eval cleanupExpiredLeases_def)
  have c': "cleanupExpiredLeases twoLeases 10000 =
     twoLeases\<lparr>leases := [(''000102030405060708090a0b0c0d0eff'', ?L)],
         runBindings :=
           [(''tenant-a:run-1:ios-simulator'', ''000102030405060708090a0b0c0d0eff'')]\<rparr>"
    by (simp add: twoLeases_eval cleanupExpiredLeases_def AList.delete_eq leaseBindingKey_def
        bindingKey_def)
  note p6 = lease_id_case_insensitive[THEN conjunct2, THEN conjunct2, THEN conjunct2,
      THEN conjunct2, THEN conjunct2, rule_format, OF good]
  note p6' = lease_id_case_insensitive[THEN conjunct2, THEN conjunct2, THEN conjunct2,
      THEN conjunct2, THEN conjunct2, rule_format, OF good']
  have h': "heartbeatLease twoLeases 2000 2001 ?P None None None
     = (Inr \<lparr>leaseId = ''000102030405060708090a0b0c0d0eff'', tenantId = ''tenant-a'',
              runId = ''run-1'', backend = ''ios-simulator'', createdAt = 1000,
              heartbeatAt = 2001, expiresAt = 62001\<rparr>,
        \<lparr>leases =
           [(''abcdef0123456789abcdef0123456789'',
             \<lparr>leaseId = ''abcdef0123456789abcdef0123456789'', tenantId = ''tenant-b'',
                runId = ''run-9'', backend = ''ios-simulator'', createdAt = 0, heartbeatAt = 0,
                expiresAt = 5000\<rparr>),
            (''000102030405060708090a0b0c0d0eff'',
             \<lparr>leaseId = ''000102030405060708090a0b0c0d0eff'', tenantId = ''tenant-a'',
                runId = ''run-1'', backend = ''ios-simulator'', createdAt = 1000,
                heartbeatAt = 2001, expiresAt = 62001\<rparr>)],
         runBindings =
           [(''tenant-b:run-9:ios-simulator'', ''abcdef0123456789abcdef0123456789''),
            (''tenant-a:run-1:ios-simulator'', ''000102030405060708090a0b0c0d0eff'')],
         maxActiveSimulatorLeases = 0, defaultLeaseTtlMs = 60000,
         minLeaseTtlMs = 5000, maxLeaseTtlMs = 600000\<rparr>)"
    unfolding p6[THEN conjunct1, of twoLeases 2000 2001 None None None] low c
    by (simp add: twoLeases_eval lease_defs)
  have nf: "heartbeatLease twoLeases 2000 2001 ''ABCDEF0123456789'' None None None
     = (Inl (AppError ''UNAUTHORIZED'' ''Lease is not active''
              (Some [(''reason'', JStr ''LEASE_NOT_FOUND'')])), twoLeases)"
    unfolding p6'[THEN conjunct1, of twoLeases 2000 2001 None None None] low' c
    by (simp add: twoLeases_eval)
  have r: "releaseLease twoLeases 10000 ?P None None
     = (Inr True,
        \<lparr>leases = [], runBindings = [],
         maxActiveSimulatorLeases = 0, defaultLeaseTtlMs = 60000,
         minLeaseTtlMs = 5000, maxLeaseTtlMs = 600000\<rparr>)"
    unfolding p6[THEN conjunct2, THEN conjunct1, of twoLeases 10000 None None] low c'
    by (simp add: twoLeases_eval lease_defs)
  have nb: "normalizeLeaseBackend None = Inr ''ios-simulator''"
    by (simp add: lease_defs str_defs)
  have nt: "normalizeTenantId (Some ''tenant-a'') = Some ''tenant-a''"
    and nt': "normalizeTenantId (Some ''tenant-b'') = Some ''tenant-b''"
    and nr: "normalizeRunId (Some ''run-1'') = Some ''run-1''"
    by (simp_all add: lease_defs str_defs)
  have ad: "assertLeaseAdmission twoLeases 2000 (Some ''tenant-a'') (Some ''run-1'')
       (Some ?P) None = (None, twoLeases)"
    unfolding p6[THEN conjunct2, THEN conjunct2, rule_format, OF conjI[OF nb conjI[OF nt nr]],
        of twoLeases 2000] low c
    by (simp add: twoLeases_eval)
  have ad': "assertLeaseAdmission twoLeases 2000 (Some ''tenant-b'') (Some ''run-1'')
       (Some ?P) None
     = (Some (AppError ''UNAUTHORIZED'' ''Lease does not match tenant/run scope''
                (Some [(''reason'', JStr ''LEASE_SCOPE_MISMATCH'')])), twoLeases)"
    unfolding p6[THEN conjunct2, THEN conjunct2, rule_format, OF conjI[OF nb conjI[OF nt' nr]],
        of twoLeases 2000] low c
    by (simp add: twoLeases_eval)
  show ?thesis
    by (intro conjI, rule c1, rule p2, rule p3, rule p5, rule h', rule nf, rule r, rule ad,
        rule ad')
qed

section \<open>Properties of the request pipeline\<close>

subsection \<open>Tenant scoping\<close>

lemma normalizeTenantId_char:
  "normalizeTenantId raw =
     (if truthy raw \<and> matchesScopeId (trim (valueOf raw)) then Some (trim (valueOf raw)) else None)"
proof -
  have "\<not> matchesScopeId []" by (simp add: matchesScopeId_def)
  then show ?thesis
    by (auto simp: normalizeTenantId_def truthy_def valueOf_def Let_def split: option.splits)
qed

lemma truthy_normalizeTenantId:
  "truthy (normalizeTenantId raw) = (truthy raw \<and> matchesScopeId (trim (valueOf raw)))"
proof -
  have "\<not> matchesScopeId []" by (simp add: matchesScopeId_def)
  then show ?thesis
    by (auto simp: normalizeTenantId_char truthy_def)
qed

text \<open>
  Claim C3, as stated, says that without tenant isolation the request passes through
  unchanged for every input, a malformed tenant flag included. The tenant is validated
  before the isolation mode is looked at: this request, with no isolation mode and the
  flag \<open>tenant = "bad tenant"\<close>, fails with \<open>INVALID_ARGS\<close>.
\<close>

theorem malformed_tenant_rejected_without_isolation:
  "resolveSessionIsolationMode
     (metaOrFlag \<lparr>token = ''secret'', session = ''s1'', command = ''session_list'',
                   positionals = None, flags = Some (noFlags\<lparr>f_tenant := Some ''bad tenant''\<rparr>),
                   meta = None\<rparr> m_sessionIsolation f_sessionIsolation) = ''none'' \<and>
   scopeRequestSession \<lparr>token = ''secret'', session = ''s1'', command = ''session_list'',
                   positionals = None, flags = Some (noFlags\<lparr>f_tenant := Some ''bad tenant''\<rparr>),
                   meta = None\<rparr>
     = Inl (AppError ''INVALID_ARGS''
         ''Invalid tenant id. Use 1-128 chars: letters, numbers, dot, underscore, hyphen.'' None)"
  by (simp add: scopeRequestSession_def resolveSessionIsolationMode_def metaOrFlag_def
      noFlags_def lease_defs str_defs)

text \<open>
  Claim C3, amended. \<open>scopeRequestSession\<close> takes the tenant id from \<open>meta.tenantId\<close> or
  \<open>flags.tenant\<close>. In every isolation mode, a tenant id that is present and non-empty must,
  once trimmed, match \<^verbatim>\<open>[A-Za-z0-9._-]{1,128}\<close>; otherwise the request fails with
  \<open>INVALID_ARGS\<close>. When the resolved isolation mode is \<open>tenant\<close>, a missing or empty tenant
  id fails with \<open>INVALID_ARGS\<close> too, and with a valid one the session name is rewritten to
  \<open><tenant>:<name>\<close> (with \<open>default\<close> for an empty name) and the meta carries the trimmed
  tenant id and the mode. When the mode is not \<open>tenant\<close> and the tenant id is absent,
  empty or valid, the request passes through unchanged.
\<close>

theorem scopeRequestSession_spec:
  "(resolveSessionIsolationMode (metaOrFlag req m_sessionIsolation f_sessionIsolation) = ''tenant'' \<and>
    truthy (metaOrFlag req m_tenantId f_tenant) \<and>
    matchesScopeId (trim (valueOf (metaOrFlag req m_tenantId f_tenant))) \<longrightarrow>
      scopeRequestSession req =
        Inr (req\<lparr> session := trim (valueOf (metaOrFlag req m_tenantId f_tenant)) @ '':'' @
                      (if session req = [] then ''default'' else session req),
                  meta := Some ((case meta req of None \<Rightarrow> noMeta | Some m \<Rightarrow> m)
                      \<lparr> m_tenantId := Some (trim (valueOf (metaOrFlag req m_tenantId f_tenant))),
                        m_sessionIsolation := Some ''tenant'' \<rparr>) \<rparr>)) \<and>
   (resolveSessionIsolationMode (metaOrFlag req m_sessionIsolation f_sessionIsolation) = ''tenant'' \<and>
    \<not> (truthy (metaOrFlag req m_tenantId f_tenant) \<and>
       matchesScopeId (trim (valueOf (metaOrFlag req m_tenantId f_tenant)))) \<longrightarrow>
      (\<exists>e. scopeRequestSession req = Inl e \<and> errorCode e = ''INVALID_ARGS'')) \<and>
   (resolveSessionIsolationMode (metaOrFlag req m_sessionIsolation f_sessionIsolation) \<noteq> ''tenant'' \<and>
    (\<not> truthy (metaOrFlag req m_tenantId f_tenant) \<or>
     matchesScopeId (trim (valueOf (metaOrFlag req m_tenantId f_tenant)))) \<longrightarrow>
      scopeRequestSession req = Inr req) \<and>
   (resolveSessionIsolationMode (metaOrFlag req m_sessionIsolation f_sessionIsolation) \<noteq> ''tenant'' \<and>
    truthy (metaOrFlag req m_tenantId f_tenant) \<and>
    \<not> matchesScopeId (trim (valueOf (metaOrFlag req m_tenantId f_tenant))) \<longrightarrow>
      scopeRequestSession req = Inl (AppError ''INVALID_ARGS'' invalidTenantMessage None))"
proof (cases "truthy (metaOrFlag req m_tenantId f_tenant) \<and>
    matchesScopeId (trim (valueOf (metaOrFlag req m_tenantId f_tenant)))")
  case True
  then have "trim (valueOf (metaOrFlag req m_tenantId f_tenant)) \<noteq> []"
    by (auto simp: matchesScopeId_def)
  with True show ?thesis
    by (simp add: scopeRequestSession_def Let_def normalizeTenantId_char truthy_def)
next
  case False
  then have n: "normalizeTenantId (metaOrFlag req m_tenantId f_tenant) = None"
    by (simp add: normalizeTenantId_char)
  have t: "\<not> truthy None" by (simp add: truthy_def)
  from False show ?thesis
    by (auto simp: scopeRequestSession_def Let_def n t)
qed

lemmas request_defs = scopeRequestSession_def resolveSessionIsolationMode_def metaOrFlag_def
  noFlags_def noMeta_def valueOf_def normalizeAliasedCommands_def resolveLeaseScope_def

theorem scopeRequestSession_spec_witness:
  "scopeRequestSession
     \<lparr>token = ''secret'', session = [], command = ''open'', positionals = None,
      flags = Some (noFlags\<lparr>f_sessionIsolation := Some ''Tenant'', f_tenant := Some '' acme ''\<rparr>),
      meta = None\<rparr>
     = Inr \<lparr>token = ''secret'', session = ''acme:default'', command = ''open'',
            positionals = None,
            flags = Some (noFlags\<lparr>f_sessionIsolation := Some ''Tenant'',
                                   f_tenant := Some '' acme ''\<rparr>),
            meta = Some (noMeta\<lparr>m_tenantId := Some ''acme'',
                                  m_sessionIsolation := Some ''tenant''\<rparr>)\<rparr> \<and>
   (\<exists>e. scopeRequestSession
          \<lparr>token = ''secret'', session = ''s1'', command = ''open'', positionals = None,
           flags = Some (noFlags\<lparr>f_sessionIsolation := Some ''tenant''\<rparr>), meta = None\<rparr>
        = Inl e \<and> errorCode e = ''INVALID_ARGS'') \<and>
   scopeRequestSession
     \<lparr>token = ''secret'', session = ''s1'', command = ''open'', positionals = None,
      flags = Some (noFlags\<lparr>f_tenant := Some ''acme''\<rparr>), meta = None\<rparr>
     = Inr \<lparr>token = ''secret'', session = ''s1'', command = ''open'', positionals = None,
            flags = Some (noFlags\<lparr>f_tenant := Some ''acme''\<rparr>), meta = None\<rparr> \<and>
   scopeRequestSession
     \<lparr>token = ''secret'', session = ''s1'', command = ''open'', positionals = None,
      flags = Some (noFlags\<lparr>f_tenant := Some ''bad tenant''\<rparr>), meta = None\<rparr>
     = Inl (AppError ''INVALID_ARGS'' invalidTenantMessage None) \<and>
   scopeRequestSession
     \<lparr>token = ''secret'', session = ''s1'', command = ''open'', positionals = None,
      flags = Some (noFlags\<lparr>f_sessionIsolation := Some (CHR 0xA0 # ''tenant''),
                             f_tenant := Some (CHR 0xA0 # ''acme'')\<rparr>),
      meta = None\<rparr>
     = Inr \<lparr>token = ''secret'', session = ''acme:s1'', command = ''open'',
            positionals = None,
            flags = Some (noFlags\<lparr>f_sessionIsolation := Some (CHR 0xA0 # ''tenant''),
                                   f_tenant := Some (CHR 0xA0 # ''acme'')\<rparr>),
            meta = Some (noMeta\<lparr>m_tenantId := Some ''acme'',
                                  m_sessionIsolation := Some ''tenant''\<rparr>)\<rparr>"
proof -
  let ?R5 = "\<lparr>token = ''secret'', session = ''s1'', command = ''open'', positionals = None,
      flags = Some (noFlags\<lparr>f_sessionIsolation := Some (CHR 0xA0 # ''tenant''),
                             f_tenant := Some (CHR 0xA0 # ''acme'')\<rparr>),
      meta = None\<rparr>"
  have h5: "resolveSessionIsolationMode (metaOrFlag ?R5 m_sessionIsolation f_sessionIsolation)
        = ''tenant'' \<and>
      truthy (metaOrFlag ?R5 m_tenantId f_tenant) \<and>
      matchesScopeId (trim (valueOf (metaOrFlag ?R5 m_tenantId f_tenant)))"
    by (simp add: request_defs truthy_def str_defs)
  have v5: "trim (valueOf (metaOrFlag ?R5 m_tenantId f_tenant)) = ''acme''"
    by (simp add: request_defs str_defs)
  from scopeRequestSession_spec[THEN conjunct1, rule_format, OF h5]
  have c5: "scopeRequestSession ?R5
     = Inr \<lparr>token = ''secret'', session = ''acme:s1'', command = ''open'',
            positionals = None,
            flags = Some (noFlags\<lparr>f_sessionIsolation := Some (CHR 0xA0 # ''tenant''),
                                   f_tenant := Some (CHR 0xA0 # ''acme'')\<rparr>),
            meta = Some (noMeta\<lparr>m_tenantId := Some ''acme'',
                                  m_sessionIsolation := Some ''tenant''\<rparr>)\<rparr>"
    by (simp add: v5)
  let ?R1 = "\<lparr>token = ''secret'', session = [], command = ''open'', positionals = None,
      flags = Some (noFlags\<lparr>f_sessionIsolation := Some ''Tenant'', f_tenant := Some '' acme ''\<rparr>),
      meta = None\<rparr>"
  let ?R2 = "\<lparr>token = ''secret'', session = ''s1'', command = ''open'', positionals = None,
           flags = Some (noFlags\<lparr>f_sessionIsolation := Some ''tenant''\<rparr>), meta = None\<rparr>"
  let ?R3 = "\<lparr>token = ''secret'', session = ''s1'', command = ''open'', positionals = None,
      flags = Some (noFlags\<lparr>f_tenant := Some ''acme''\<rparr>), meta = None\<rparr>"
  let ?R4 = "\<lparr>token = ''secret'', session = ''s1'', command = ''open'', positionals = None,
      flags = Some (noFlags\<lparr>f_tenant := Some ''bad tenant''\<rparr>), meta = None\<rparr>"
  have h1: "resolveSessionIsolationMode (metaOrFlag ?R1 m_sessionIsolation f_sessionIsolation)
        = ''tenant'' \<and>
      truthy (metaOrFlag ?R1 m_tenantId f_tenant) \<and>
      matchesScopeId (trim (valueOf (metaOrFlag ?R1 m_tenantId f_tenant)))"
    by (simp add: request_defs truthy_def str_defs)
  have v1: "trim (valueOf (metaOrFlag ?R1 m_tenantId f_tenant)) = ''acme''"
    by (simp add: request_defs str_defs)
  from scopeRequestSession_spec[THEN conjunct1, rule_format, OF h1]
  have c1: "scopeRequestSession ?R1
     = Inr \<lparr>token = ''secret'', session = ''acme:default'', command = ''open'',
            positionals = None,
            flags = Some (noFlags\<lparr>f_sessionIsolation := Some ''Tenant'',
                                   f_tenant := Some '' acme ''\<rparr>),
            meta = Some (noMeta\<lparr>m_tenantId := Some ''acme'',
                                  m_sessionIsolation := Some ''tenant''\<rparr>)\<rparr>"
    by (simp add: v1)
  have h2: "resolveSessionIsolationMode (metaOrFlag ?R2 m_sessionIsolation f_sessionIsolation)
        = ''tenant'' \<and>
      \<not> (truthy (metaOrFlag ?R2 m_tenantId f_tenant) \<and>
         matchesScopeId (trim (valueOf (metaOrFlag ?R2 m_tenantId f_tenant))))"
    by (simp add: request_defs truthy_def str_defs)
  note c2 = scopeRequestSession_spec[THEN conjunct2, THEN conjunct1, rule_format, OF h2]
  have h3: "resolveSessionIsolationMode (metaOrFlag ?R3 m_sessionIsolation f_sessionIsolation)
        \<noteq> ''tenant'' \<and>
      (\<not> truthy (metaOrFlag ?R3 m_tenantId f_tenant) \<or>
       matchesScopeId (trim (valueOf (metaOrFlag ?R3 m_tenantId f_tenant))))"
    by (simp add: request_defs truthy_def str_defs)
  note c3 = scopeRequestSession_spec[THEN conjunct2, THEN conjunct2, THEN conjunct1,
      rule_format, OF h3]
  have h4: "resolveSessionIsolationMode (metaOrFlag ?R4 m_sessionIsolation f_sessionIsolation)
        \<noteq> ''tenant'' \<and>
      truthy (metaOrFlag ?R4 m_tenantId f_tenant) \<and>
      \<not> matchesScopeId (trim (valueOf (metaOrFlag ?R4 m_tenantId f_tenant)))"
    by (simp add: request_defs truthy_def str_defs)
  note c4 = scopeRequestSession_spec[THEN conjunct2, THEN conjunct2, THEN conjunct2,
      rule_format, OF h4]
  show ?thesis
    by (intro conjI, rule c1, rule c2, rule c3, rule c4, rule c5)
qed

subsection \<open>Token check and selector validation\<close>

lemma normalizeError_plain:
  "normalizeError redact (ThrownAppError (AppError c msg None)) dg lp =
     \<lparr>code = c, message = msg, hint = Some (defaultHintForCode c), diagnosticId = dg,
      logPath = lp, details = None\<rparr>"
  by (simp add: normalizeError_def stringField_def stripDiagnosticMeta_def
      maybeEnrichCommandFailedMessage_def Let_def)

lemma token_normalizeAliasedCommands: "token (normalizeAliasedCommands req) = token req"
  by (simp add: normalizeAliasedCommands_def)

lemma handleRequest_token_mismatch:
  assumes "token req \<noteq> env_token env"
  shows "handleRequest env reg tAdm t0 t1 rnd req =
     (Responded (Fail \<lparr>code = ''UNAUTHORIZED'', message = ''Invalid token'',
         hint = Some ''Refresh daemon metadata and retry the command.'',
         diagnosticId = None, logPath = None, details = None\<rparr>), reg)"
  using assms
  by (simp add: handleRequest_def Let_def token_normalizeAliasedCommands normalizeError_plain
      defaultHintForCode_def)

lemma sublist_in_right: "sublist m zs \<Longrightarrow> sublist m (ys @ zs)"
  by (simp add: sublist_append)

lemma sublist_in_left: "sublist m ys \<Longrightarrow> sublist m (ys @ zs)"
  by (simp add: sublist_append)

lemma joinWith_sublist: "m \<in> set ms \<Longrightarrow> sublist m (joinWith sep ms)"
proof (induction sep ms rule: joinWith.induct)
  case (1 sep)
  then show ?case by simp
next
  case (2 sep x)
  then show ?case by simp
next
  case (3 sep x y ys)
  show ?case
  proof (cases "m = x")
    case True
    then show ?thesis by simp
  next
    case False
    with 3 have "sublist m (joinWith sep (y # ys))" by simp
    then have "sublist m (x @ sep @ joinWith sep (y # ys))"
      by (intro sublist_in_right)
    then show ?thesis by simp
  qed
qed

lemma handleRequest_proceeds:
  assumes "fst (handleRequest env reg tAdm t0 t1 rnd req) = Proceeds scoped name"
  shows "token req = env_token env \<and>
         scopeRequestSession (normalizeAliasedCommands req) = Inr scoped \<and>
         name = env_resolveEffectiveSessionName env scoped \<and>
         (\<forall>s. env_sessionGet env name = Some s \<and>
              command scoped \<notin> set selectorValidationExemptCommands \<longrightarrow>
              assertSessionSelectorMatches s (flags scoped) = None)"
  using assms
  by (auto simp: handleRequest_def Let_def requestFailed_def token_normalizeAliasedCommands
      split: if_splits sum.splits prod.splits option.splits)

lemma scopeRequestSession_keeps:
  assumes "scopeRequestSession r = Inr scoped"
  shows "flags scoped = flags r" and "command scoped = command r"
  using assms
  by (auto simp: scopeRequestSession_def Let_def split: if_splits option.splits)

lemma normalizeAliasedCommands_keeps:
  "flags (normalizeAliasedCommands req) = flags req"
  "(command (normalizeAliasedCommands req) \<in> set selectorValidationExemptCommands)
     = (command req \<in> set selectorValidationExemptCommands)"
  by (auto simp: normalizeAliasedCommands_def selectorValidationExemptCommands_def)

lemma selectorMismatches_platform:
  "(''--platform='' @ valueOf (f_platform f) \<in> set (selectorMismatches s f)) =
     (truthy (normalizePlatformSelector (f_platform f)) \<and>
      normalizePlatformSelector (f_platform f) \<noteq> Some (dev_platform (sess_device s)))"
  by (simp add: selectorMismatches_def Let_def)

lemma selectorMismatches_target:
  "(''--target='' @ valueOf (f_target f) \<in> set (selectorMismatches s f)) =
     (truthy (f_target f) \<and>
      f_target f \<noteq> Some (case dev_target (sess_device s) of Some t \<Rightarrow> t | None \<Rightarrow> ''mobile''))"
  by (simp add: selectorMismatches_def Let_def)

lemma selectorMismatches_udid:
  "(''--udid='' @ valueOf (f_udid f) \<in> set (selectorMismatches s f)) =
     (truthy (f_udid f) \<and>
      (dev_platform (sess_device s) \<noteq> ''ios'' \<or> f_udid f \<noteq> Some (dev_id (sess_device s))))"
  by (simp add: selectorMismatches_def Let_def)

lemma selectorMismatches_serial:
  "(''--serial='' @ valueOf (f_serial f) \<in> set (selectorMismatches s f)) =
     (truthy (f_serial f) \<and>
      (dev_platform (sess_device s) \<noteq> ''android'' \<or>
       f_serial f \<noteq> Some (dev_id (sess_device s))))"
  by (simp add: selectorMismatches_def Let_def)

lemma selectorMismatches_device:
  "(''--device='' @ valueOf (f_device f) \<in> set (selectorMismatches s f)) =
     (truthy (f_device f) \<and>
      toLowerCase (trim (valueOf (f_device f)))
        \<noteq> toLowerCase (trim (dev_name (sess_device s))))"
  by (simp add: selectorMismatches_def Let_def)

lemma selectorMismatches_deviceSet:
  "(''--ios-simulator-device-set='' @ valueOf (f_iosSimulatorDeviceSet f)
      \<in> set (selectorMismatches s f)) =
     (truthy (f_iosSimulatorDeviceSet f) \<and>
      (dev_platform (sess_device s) \<noteq> ''ios'' \<or> dev_kind (sess_device s) \<noteq> ''simulator'' \<or>
       Some (trim (valueOf (f_iosSimulatorDeviceSet f)))
         \<noteq> map_option trim (dev_simulatorSetPath (sess_device s))))"
  by (simp add: selectorMismatches_def Let_def)

lemma selectorMismatches_allowlist:
  "(''--android-device-allowlist='' @ valueOf (f_androidDeviceAllowlist f)
      \<in> set (selectorMismatches s f)) =
     (truthy (f_androidDeviceAllowlist f) \<and>
      (dev_platform (sess_device s) \<noteq> ''android'' \<or>
       dev_id (sess_device s)
         \<notin> set (parseSerialAllowlist (valueOf (f_androidDeviceAllowlist f)))))"
  by (simp add: selectorMismatches_def Let_def)

lemma selectorMismatches_only:
  "set (selectorMismatches s f) \<subseteq>
     {''--platform='' @ valueOf (f_platform f), ''--target='' @ valueOf (f_target f),
      ''--udid='' @ valueOf (f_udid f), ''--serial='' @ valueOf (f_serial f),
      ''--device='' @ valueOf (f_device f),
      ''--ios-simulator-device-set='' @ valueOf (f_iosSimulatorDeviceSet f),
      ''--android-device-allowlist='' @ valueOf (f_androidDeviceAllowlist f)}"
  by (auto simp: selectorMismatches_def Let_def)

lemma handleRequest_selector_mismatch:
  assumes tok: "token req = env_token env"
    and sc: "scopeRequestSession (normalizeAliasedCommands req) = Inr scoped"
    and adm: "(if command scoped \<notin> set leaseAdmissionExemptCommands \<and>
                 (case meta scoped of None \<Rightarrow> None | Some m \<Rightarrow> m_sessionIsolation m)
                   = Some ''tenant''
              then assertLeaseAdmission reg tAdm (ls_tenantId (resolveLeaseScope scoped))
                     (ls_runId (resolveLeaseScope scoped)) (ls_leaseId (resolveLeaseScope scoped))
                     (ls_leaseBackend (resolveLeaseScope scoped))
              else (None, reg)) = (None, reg1)"
    and cmd: "command req \<notin> set selectorValidationExemptCommands"
    and sess: "env_sessionGet env (env_resolveEffectiveSessionName env scoped) = Some s"
    and fl: "flags req = Some f"
    and mis: "selectorMismatches s f \<noteq> []"
  shows "handleRequest env reg tAdm t0 t1 rnd req =
     (Responded (Fail
        \<lparr>code = ''INVALID_ARGS'',
         message = ''Session \"'' @ sess_name s @ ''\" is bound to '' @ describeDevice s
                   @ '' and cannot be used with '' @ joinWith '', '' (selectorMismatches s f)
                   @ ''. Use a different --session name or close this session first.'',
         hint = Some ''Check command arguments and run --help for usage examples.'',
         diagnosticId = env_diagnosticId env, logPath = env_logPathOnFailure env,
         details = None\<rparr>), reg1)"
proof -
  have tok': "token (normalizeAliasedCommands req) = env_token env"
    using tok by (simp add: token_normalizeAliasedCommands)
  have fl': "flags scoped = Some f"
    using scopeRequestSession_keeps(1)[OF sc] fl by (simp add: normalizeAliasedCommands_keeps)
  have cmd': "command scoped \<notin> set selectorValidationExemptCommands"
    using scopeRequestSession_keeps(2)[OF sc] cmd by (simp add: normalizeAliasedCommands_keeps)
  have as: "assertSessionSelectorMatches s (flags scoped) =
      Some (AppError ''INVALID_ARGS''
              (''Session \"'' @ sess_name s @ ''\" is bound to '' @ describeDevice s
               @ '' and cannot be used with '' @ joinWith '', '' (selectorMismatches s f)
               @ ''. Use a different --session name or close this session first.'') None)"
    using mis by (simp add: assertSessionSelectorMatches_def fl' Let_def)
  have h: "defaultHintForCode ''INVALID_ARGS''
      = ''Check command arguments and run --help for usage examples.''"
    by (simp add: defaultHintForCode_def)
  show ?thesis
    unfolding handleRequest_def Let_def
    by (simp add: tok' sc adm sess cmd' as requestFailed_def normalizeError_plain h
        del: append_assoc)
qed

text \<open>
  Claim C6. For every request on a command outside the exempt set
  \<open>{session_list, devices}\<close>, if a session exists under the effective name and the request
  carries a selector flag incompatible with the device of that session (platform, target,
  udid, serial, device name compared without regard to case, iOS simulator set, Android
  serial allowlist), then the request never goes on to the handlers that dispatch the
  command; and when the request has passed the token check, the tenant scoping and the
  lease admission, the pipeline fails with \<open>INVALID_ARGS\<close> and a message that enumerates
  the offending flags, all of them and no other.
\<close>

theorem selector_mismatch_never_dispatched:
  "(fst (handleRequest env reg tAdm t0 t1 rnd req) = Proceeds scoped' name \<and>
    env_sessionGet env name = Some s' \<and>
    command req \<notin> set selectorValidationExemptCommands \<and> flags req = Some f'
    \<longrightarrow> name = env_resolveEffectiveSessionName env scoped' \<and> selectorMismatches s' f' = []) \<and>
   (token req = env_token env \<and>
    scopeRequestSession (normalizeAliasedCommands req) = Inr scoped \<and>
    (if command scoped \<notin> set leaseAdmissionExemptCommands \<and>
        (case meta scoped of None \<Rightarrow> None | Some m \<Rightarrow> m_sessionIsolation m) = Some ''tenant''
     then assertLeaseAdmission reg tAdm (ls_tenantId (resolveLeaseScope scoped))
            (ls_runId (resolveLeaseScope scoped)) (ls_leaseId (resolveLeaseScope scoped))
            (ls_leaseBackend (resolveLeaseScope scoped))
     else (None, reg)) = (None, reg1) \<and>
    command req \<notin> set selectorValidationExemptCommands \<and>
    env_sessionGet env (env_resolveEffectiveSessionName env scoped) = Some s \<and>
    flags req = Some f \<and> selectorMismatches s f \<noteq> []
    \<longrightarrow>
    handleRequest env reg tAdm t0 t1 rnd req =
      (Responded (Fail
         \<lparr>code = ''INVALID_ARGS'',
          message = ''Session \"'' @ sess_name s @ ''\" is bound to '' @ describeDevice s
                    @ '' and cannot be used with '' @ joinWith '', '' (selectorMismatches s f)
                    @ ''. Use a different --session name or close this session first.'',
          hint = Some ''Check command arguments and run --help for usage examples.'',
          diagnosticId = env_diagnosticId env, logPath = env_logPathOnFailure env,
          details = None\<rparr>), reg1) \<and>
    (\<forall>m \<in> set (selectorMismatches s f).
       sublist m (''Session \"'' @ sess_name s @ ''\" is bound to '' @ describeDevice s
                    @ '' and cannot be used with '' @ joinWith '', '' (selectorMismatches s f)
                    @ ''. Use a different --session name or close this session first.''))) \<and>
   ((''--platform='' @ valueOf (f_platform f) \<in> set (selectorMismatches s f)) =
      (truthy (normalizePlatformSelector (f_platform f)) \<and>
       normalizePlatformSelector (f_platform f) \<noteq> Some (dev_platform (sess_device s))) \<and>
    (''--target='' @ valueOf (f_target f) \<in> set (selectorMismatches s f)) =
      (truthy (f_target f) \<and>
       f_target f \<noteq> Some (case dev_target (sess_device s) of Some t \<Rightarrow> t | None \<Rightarrow> ''mobile'')) \<and>
    (''--udid='' @ valueOf (f_udid f) \<in> set (selectorMismatches s f)) =
      (truthy (f_udid f) \<and>
       (dev_platform (sess_device s) \<noteq> ''ios'' \<or> f_udid f \<noteq> Some (dev_id (sess_device s)))) \<and>
    (''--serial='' @ valueOf (f_serial f) \<in> set (selectorMismatches s f)) =
      (truthy (f_serial f) \<and>
       (dev_platform (sess_device s) \<noteq> ''android'' \<or>
        f_serial f \<noteq> Some (dev_id (sess_device s)))) \<and>
    (''--device='' @ valueOf (f_device f) \<in> set (selectorMismatches s f)) =
      (truthy (f_device f) \<and>
       toLowerCase (trim (valueOf (f_device f)))
         \<noteq> toLowerCase (trim (dev_name (sess_device s)))) \<and>
    (''--ios-simulator-device-set='' @ valueOf (f_iosSimulatorDeviceSet f)
       \<in> set (selectorMismatches s f)) =
      (truthy (f_iosSimulatorDeviceSet f) \<and>
       (dev_platform (sess_device s) \<noteq> ''ios'' \<or> dev_kind (sess_device s) \<noteq> ''simulator'' \<or>
        Some (trim (valueOf (f_iosSimulatorDeviceSet f)))
          \<noteq> map_option trim (dev_simulatorSetPath (sess_device s)))) \<and>
    (''--android-device-allowlist='' @ valueOf (f_androidDeviceAllowlist f)
       \<in> set (selectorMismatches s f)) =
      (truthy (f_androidDeviceAllowlist f) \<and>
       (dev_platform (sess_device s) \<noteq> ''android'' \<or>
        dev_id (sess_device s)
          \<notin> set (parseSerialAllowlist (valueOf (f_androidDeviceAllowlist f))))) \<and>
    set (selectorMismatches s f) \<subseteq>
      {''--platform='' @ valueOf (f_platform f), ''--target='' @ valueOf (f_target f),
       ''--udid='' @ valueOf (f_udid f), ''--serial='' @ valueOf (f_serial f),
       ''--device='' @ valueOf (f_device f),
       ''--ios-simulator-device-set='' @ valueOf (f_iosSimulatorDeviceSet f),
       ''--android-device-allowlist='' @ valueOf (f_androidDeviceAllowlist f)})"
proof (intro conjI impI ballI)
  assume a: "fst (handleRequest env reg tAdm t0 t1 rnd req) = Proceeds scoped' name \<and>
    env_sessionGet env name = Some s' \<and>
    command req \<notin> set selectorValidationExemptCommands \<and> flags req = Some f'"
  then have p: "fst (handleRequest env reg tAdm t0 t1 rnd req) = Proceeds scoped' name"
    and g: "env_sessionGet env name = Some s'"
    and c: "command req \<notin> set selectorValidationExemptCommands"
    and f: "flags req = Some f'"
    by simp_all
  note q = handleRequest_proceeds[OF p]
  from q have sc: "scopeRequestSession (normalizeAliasedCommands req) = Inr scoped'" by simp
  from q show "name = env_resolveEffectiveSessionName env scoped'" by simp
  have fl': "flags scoped' = Some f'"
    using scopeRequestSession_keeps(1)[OF sc] f by (simp add: normalizeAliasedCommands_keeps)
  have cmd': "command scoped' \<notin> set selectorValidationExemptCommands"
    using scopeRequestSession_keeps(2)[OF sc] c by (simp add: normalizeAliasedCommands_keeps)
  from q g cmd' have "assertSessionSelectorMatches s' (flags scoped') = None" by simp
  then show "selectorMismatches s' f' = []"
    by (simp add: assertSessionSelectorMatches_def fl' Let_def split: if_splits)
next
  assume a: "token req = env_token env \<and>
    scopeRequestSession (normalizeAliasedCommands req) = Inr scoped \<and>
    (if command scoped \<notin> set leaseAdmissionExemptCommands \<and>
        (case meta scoped of None \<Rightarrow> None | Some m \<Rightarrow> m_sessionIsolation m) = Some ''tenant''
     then assertLeaseAdmission reg tAdm (ls_tenantId (resolveLeaseScope scoped))
            (ls_runId (resolveLeaseScope scoped)) (ls_leaseId (resolveLeaseScope scoped))
            (ls_leaseBackend (resolveLeaseScope scoped))
     else (None, reg)) = (None, reg1) \<and>
    command req \<notin> set selectorValidationExemptCommands \<and>
    env_sessionGet env (env_resolveEffectiveSessionName env scoped) = Some s \<and>
    flags req = Some f \<and> selectorMismatches s f \<noteq> []"
  show "handleRequest env reg tAdm t0 t1 rnd req =
      (Responded (Fail
         \<lparr>code = ''INVALID_ARGS'',
          message = ''Session \"'' @ sess_name s @ ''\" is bound to '' @ describeDevice s
                    @ '' and cannot be used with '' @ joinWith '', '' (selectorMismatches s f)
                    @ ''. Use a different --session name or close this session first.'',
          hint = Some ''Check command arguments and run --help for usage examples.'',
          diagnosticId = env_diagnosticId env, logPath = env_logPathOnFailure env,
          details = None\<rparr>), reg1)"
    using a by (elim conjE) (rule handleRequest_selector_mismatch; assumption)
next
  fix m
  assume "m \<in> set (selectorMismatches s f)"
  then have "sublist m (joinWith '', '' (selectorMismatches s f))"
    by (rule joinWith_sublist)
  then have "sublist m (joinWith '', '' (selectorMismatches s f)
      @ ''. Use a different --session name or close this session first.'')"
    by (rule sublist_in_left)
  then have "sublist m ((''Session \"'' @ sess_name s @ ''\" is bound to '' @ describeDevice s
                    @ '' and cannot be used with '') @ joinWith '', '' (selectorMismatches s f)
                    @ ''. Use a different --session name or close this session first.'')"
    by (rule sublist_in_right)
  then show "sublist m (''Session \"'' @ sess_name s @ ''\" is bound to '' @ describeDevice s
                    @ '' and cannot be used with '' @ joinWith '', '' (selectorMismatches s f)
                    @ ''. Use a different --session name or close this session first.'')"
    by (simp only: append_assoc)
qed (rule selectorMismatches_platform selectorMismatches_target selectorMismatches_udid
      selectorMismatches_serial selectorMismatches_device selectorMismatches_deviceSet
      selectorMismatches_allowlist selectorMismatches_only)+

theorem selector_mismatch_never_dispatched_witness:
  "handleRequest
     \<lparr>env_token = ''secret'', env_redact = id, env_diagnosticId = Some ''diag-1'',
      env_logPathOnFailure = None, env_resolveEffectiveSessionName = session,
      env_sessionGet = map_of
        [(''default'',
          \<lparr>sess_name = ''default'',
           sess_device = \<lparr>dev_platform = ''ios'', dev_id = ''UDID-1'', dev_name = ''iPhone 15'',
                          dev_kind = ''simulator'', dev_target = None, dev_booted = Some True,
                          dev_simulatorSetPath = None\<rparr>\<rparr>)]\<rparr>
     (newLeaseRegistry noOptions) 0 0 0 []
     \<lparr>token = ''secret'', session = ''default'', command = ''click'', positionals = None,
      flags = Some (noFlags\<lparr>f_platform := Some ''android'', f_device := Some ''Pixel 8''\<rparr>),
      meta = None\<rparr>
   = (Responded (Fail
        \<lparr>code = ''INVALID_ARGS'',
         message = ''Session \"default\" is bound to ios device \"iPhone 15\" (UDID-1) and cannot be used with --platform=android, --device=Pixel 8. Use a different --session name or close this session first.'',
         hint = Some ''Check command arguments and run --help for usage examples.'',
         diagnosticId = Some ''diag-1'', logPath = None, details = None\<rparr>),
      newLeaseRegistry noOptions) \<and>
   sublist ''--device=Pixel 8''
     ''Session \"default\" is bound to ios device \"iPhone 15\" (UDID-1) and cannot be used with --platform=android, --device=Pixel 8. Use a different --session name or close this session first.'' \<and>
   fst (handleRequest
     \<lparr>env_token = ''secret'', env_redact = id, env_diagnosticId = Some ''diag-1'',
      env_logPathOnFailure = None, env_resolveEffectiveSessionName = session,
      env_sessionGet = map_of
        [(''default'',
          \<lparr>sess_name = ''default'',
           sess_device = \<lparr>dev_platform = ''ios'', dev_id = ''UDID-1'', dev_name = ''iPhone 15'',
                          dev_kind = ''simulator'', dev_target = None, dev_booted = Some True,
                          dev_simulatorSetPath = None\<rparr>\<rparr>)]\<rparr>
     (newLeaseRegistry noOptions) 0 0 0 []
     \<lparr>token = ''secret'', session = ''default'', command = ''click'', positionals = None,
      flags = Some (noFlags\<lparr>f_platform := Some ''apple'', f_device := Some '' iphone 15''\<rparr>),
      meta = None\<rparr>)
   = Proceeds
       \<lparr>token = ''secret'', session = ''default'', command = ''press'', positionals = None,
        flags = Some (noFlags\<lparr>f_platform := Some ''apple'', f_device := Some '' iphone 15''\<rparr>),
        meta = None\<rparr> ''default'' \<and>
   selectorMismatches
     \<lparr>sess_name = ''default'',
      sess_device = \<lparr>dev_platform = ''ios'', dev_id = ''UDID-1'', dev_name = ''iPhone 15'',
                     dev_kind = ''simulator'', dev_target = None, dev_booted = Some True,
                     dev_simulatorSetPath = None\<rparr>\<rparr>
     (noFlags\<lparr>f_platform := Some ''apple'', f_device := Some '' iphone 15''\<rparr>) = []"
proof -
  let ?S = "\<lparr>sess_name = ''default'',
      sess_device = \<lparr>dev_platform = ''ios'', dev_id = ''UDID-1'', dev_name = ''iPhone 15'',
                     dev_kind = ''simulator'', dev_target = None, dev_booted = Some True,
                     dev_simulatorSetPath = None\<rparr>\<rparr>"
  let ?E = "\<lparr>env_token = ''secret'', env_redact = id, env_diagnosticId = Some ''diag-1'',
      env_logPathOnFailure = None, env_resolveEffectiveSessionName = session,
      env_sessionGet = map_of [(''default'', ?S)]\<rparr>"
  let ?F = "noFlags\<lparr>f_platform := Some ''android'', f_device := Some ''Pixel 8''\<rparr>"
  let ?G = "noFlags\<lparr>f_platform := Some ''apple'', f_device := Some '' iphone 15''\<rparr>"
  let ?R = "\<lparr>token = ''secret'', session = ''default'', command = ''click'', positionals = None,
      flags = Some ?F, meta = None\<rparr>"
  let ?Q = "\<lparr>token = ''secret'', session = ''default'', command = ''click'', positionals = None,
      flags = Some ?G, meta = None\<rparr>"
  let ?R' = "\<lparr>token = ''secret'', session = ''default'', command = ''press'',
      positionals = None, flags = Some ?F, meta = None\<rparr>"
  let ?Q' = "\<lparr>token = ''secret'', session = ''default'', command = ''press'',
      positionals = None, flags = Some ?G, meta = None\<rparr>"
  have mm: "selectorMismatches ?S ?F = [''--platform=android'', ''--device=Pixel 8'']"
    by (simp add: selectorMismatches_def Let_def normalizePlatformSelector_def truthy_def
        valueOf_def noFlags_def str_defs)
  have tok: "token ?R = env_token ?E" by simp
  have sc: "scopeRequestSession (normalizeAliasedCommands ?R) = Inr ?R'"
    by (simp add: request_defs truthy_def normalizeTenantId_def str_defs)
  have adm: "(if command ?R' \<notin> set leaseAdmissionExemptCommands \<and>
        (case meta ?R' of None \<Rightarrow> None | Some m \<Rightarrow> m_sessionIsolation m) = Some ''tenant''
     then assertLeaseAdmission (newLeaseRegistry noOptions) 0 (ls_tenantId (resolveLeaseScope ?R'))
            (ls_runId (resolveLeaseScope ?R')) (ls_leaseId (resolveLeaseScope ?R'))
            (ls_leaseBackend (resolveLeaseScope ?R'))
     else (None, newLeaseRegistry noOptions)) = (None, newLeaseRegistry noOptions)"
    by simp
  have cmd: "command ?R \<notin> set selectorValidationExemptCommands"
    by (simp add: selectorValidationExemptCommands_def)
  have sess: "env_sessionGet ?E (env_resolveEffectiveSessionName ?E ?R') = Some ?S" by simp
  have fl: "flags ?R = Some ?F" by simp
  have ne: "selectorMismatches ?S ?F \<noteq> []" by (simp add: mm)
  note r = selector_mismatch_never_dispatched[THEN conjunct2, THEN conjunct1, rule_format,
      OF conjI[OF tok conjI[OF sc conjI[OF adm conjI[OF cmd conjI[OF sess conjI[OF fl ne]]]]]],
      of 0 0 "[]"]
  have d: "describeDevice ?S = ''ios device \"iPhone 15\" (UDID-1)''"
    by (simp add: describeDevice_def str_defs)
  have msg: "''Session \"'' @ sess_name ?S @ ''\" is bound to '' @ describeDevice ?S
                    @ '' and cannot be used with '' @ joinWith '', '' (selectorMismatches ?S ?F)
                    @ ''. Use a different --session name or close this session first.''
      = ''Session \"default\" is bound to ios device \"iPhone 15\" (UDID-1) and cannot be used with --platform=android, --device=Pixel 8. Use a different --session name or close this session first.''"
    by (simp add: mm d)
  have c1: "handleRequest ?E (newLeaseRegistry noOptions) 0 0 0 [] ?R
   = (Responded (Fail
        \<lparr>code = ''INVALID_ARGS'',
         message = ''Session \"default\" is bound to ios device \"iPhone 15\" (UDID-1) and cannot be used with --platform=android, --device=Pixel 8. Use a different --session name or close this session first.'',
         hint = Some ''Check command arguments and run --help for usage examples.'',
         diagnosticId = Some ''diag-1'', logPath = None, details = None\<rparr>),
      newLeaseRegistry noOptions)"
    using r[THEN conjunct1] unfolding msg by simp
  have "''--device=Pixel 8'' \<in> set (selectorMismatches ?S ?F)" by (simp add: mm)
  from r[THEN conjunct2, rule_format, OF this]
  have c2: "sublist ''--device=Pixel 8''
     ''Session \"default\" is bound to ios device \"iPhone 15\" (UDID-1) and cannot be used with --platform=android, --device=Pixel 8. Use a different --session name or close this session first.''"
    unfolding msg .
  have c3: "fst (handleRequest ?E (newLeaseRegistry noOptions) 0 0 0 [] ?Q) = Proceeds ?Q' ''default''"
    by (simp add: handleRequest_def request_defs truthy_def normalizeTenantId_def str_defs
        Let_def selectorValidationExemptCommands_def leaseAdmissionExemptCommands_def
        assertSessionSelectorMatches_def selectorMismatches_def normalizePlatformSelector_def
        handleLeaseCommands_def)
  have g: "env_sessionGet ?E ''default'' = Some ?S" by simp
  have cmdq: "command ?Q \<notin> set selectorValidationExemptCommands"
    by (simp add: selectorValidationExemptCommands_def)
  have flq: "flags ?Q = Some ?G" by simp
  note c4 = selector_mismatch_never_dispatched[THEN conjunct1, rule_format,
      OF conjI[OF c3 conjI[OF g conjI[OF cmdq flq]]], THEN conjunct2]
  show ?thesis
    by (intro conjI, rule c1, rule c2, rule c3, rule c4)
qed

section \<open>Properties of the normalized errors\<close>

lemma firstStderrLineLoop_filter:
  "firstStderrLineLoop ls =
     (case filter (\<lambda>l. l \<noteq> [] \<and> \<not> isBoilerplate l) (map trim ls) of
        [] \<Rightarrow> None
      | l # rest \<Rightarrow> Some (if length l > 200 then take 200 l @ ''...'' else l))"
  by (induction ls) (simp_all add: Let_def)

lemma stripDiagnosticMeta_filter:
  "stripDiagnosticMeta d =
     (case d of
        None \<Rightarrow> None
      | Some obj \<Rightarrow>
          if filter (\<lambda>(k, v). k \<noteq> ''hint'' \<and> k \<noteq> ''diagnosticId'' \<and> k \<noteq> ''logPath'') obj = []
          then None
          else Some (filter (\<lambda>(k, v). k \<noteq> ''hint'' \<and> k \<noteq> ''diagnosticId'' \<and> k \<noteq> ''logPath'')
                       obj))"
proof -
  have "AList.delete ''logPath'' (AList.delete ''diagnosticId'' (AList.delete ''hint'' obj))
      = filter (\<lambda>(k, v). k \<noteq> ''hint'' \<and> k \<noteq> ''diagnosticId'' \<and> k \<noteq> ''logPath'') obj"
    for obj :: jsobject
    by (induction obj) (auto simp: AList.delete_eq)
  then show ?thesis
    by (simp add: stripDiagnosticMeta_def Let_def split: option.splits)
qed

lemma defaultHintForCode_nonempty: "defaultHintForCode c \<noteq> []"
  by (simp add: defaultHintForCode_def)

lemma maybeEnrich_char:
  "maybeEnrichCommandFailedMessage c msg d =
     (case filter (\<lambda>l. l \<noteq> [] \<and> \<not> isBoilerplate l)
             (map trim (splitOn (CHR 0x0A)
                (case stringField d ''stderr'' of Some s \<Rightarrow> s | None \<Rightarrow> []))) of
        [] \<Rightarrow> msg
      | l # rest \<Rightarrow>
          if c = ''COMMAND_FAILED'' \<and>
             (case d of None \<Rightarrow> None | Some obj \<Rightarrow> map_of obj ''processExitError'')
               = Some (JBool True)
          then (if length l > 200 then take 200 l @ ''...'' else l)
          else msg)"
proof -
  have ne: "(l # rest = filter (\<lambda>l. l \<noteq> [] \<and> \<not> isBoilerplate l) xs) \<Longrightarrow> l \<noteq> []"
    for l rest xs
    by (metis (mono_tags, lifting) filter_eq_ConsD list.set_intros(1) mem_Collect_eq set_filter)
  show ?thesis
    by (auto simp: maybeEnrichCommandFailedMessage_def firstStderrLine_def Let_def
        firstStderrLineLoop_filter split: list.splits dest: ne[OF sym])
qed

lemma trim_fixed:
  assumes "s \<noteq> []" "\<not> isWhitespace (hd s)" "\<not> isWhitespace (last s)"
  shows "trim s = s"
proof -
  from assms have a: "dropWhile isWhitespace s = s" by (cases s) simp_all
  from assms have "rev s \<noteq> []" "\<not> isWhitespace (hd (rev s))" by (simp_all add: hd_rev)
  then have "dropWhile isWhitespace (rev s) = rev s" by (cases "rev s") simp_all
  with a show ?thesis by (simp add: trim_def)
qed

lemma startsWithCI_first:
  assumes "lowerChar d \<noteq> c"
  shows "\<not> startsWithCI (c # p) (d # line)"
  using assms by (simp add: startsWithCI_def toLowerCase_def)

text \<open>
  Claim C9, as stated, says that the stderr line that replaces the message is truncated to
  200 characters. A line of 216 characters gives a message of 203 characters: its first 200
  characters followed by three dots. (The redaction is the identity here: the details hold
  no secret.)
\<close>

theorem stderr_excerpt_keeps_ellipsis:
  "maybeEnrichCommandFailedMessage ''COMMAND_FAILED'' ''xcrun exited with code 1''
     (Some [(''exitCode'', JNum 1), (''processExitError'', JBool True),
            (''stderr'', JStr
        ''Operation not permitted;Operation not permitted;Operation not permitted;Operation not permitted;Operation not permitted;Operation not permitted;Operation not permitted;Operation not permitted;Operation not permitted;'')])
     = ''Operation not permitted;Operation not permitted;Operation not permitted;Operation not permitted;Operation not permitted;Operation not permitted;Operation not permitted;Operation not permitted;Operatio...'' \<and>
   message (normalizeError id
     (ThrownAppError (AppError ''COMMAND_FAILED'' ''xcrun exited with code 1''
        (Some [(''exitCode'', JNum 1), (''processExitError'', JBool True),
               (''stderr'', JStr
        ''Operation not permitted;Operation not permitted;Operation not permitted;Operation not permitted;Operation not permitted;Operation not permitted;Operation not permitted;Operation not permitted;Operation not permitted;'')])))
     None None)
     = ''Operation not permitted;Operation not permitted;Operation not permitted;Operation not permitted;Operation not permitted;Operation not permitted;Operation not permitted;Operation not permitted;Operatio...'' \<and>
   ''Operation not permitted;Operation not permitted;Operation not permitted;Operation not permitted;Operation not permitted;Operation not permitted;Operation not permitted;Operation not permitted;Operatio...''
     \<noteq> take 200
        ''Operation not permitted;Operation not permitted;Operation not permitted;Operation not permitted;Operation not permitted;Operation not permitted;Operation not permitted;Operation not permitted;Operation not permitted;'' \<and>
   length
        ''Operation not permitted;Operation not permitted;Operation not permitted;Operation not permitted;Operation not permitted;Operation not permitted;Operation not permitted;Operation not permitted;Operatio...'' = 203"
proof -
  let ?L = "''Operation not permitted;Operation not permitted;Operation not permitted;Operation not permitted;Operation not permitted;Operation not permitted;Operation not permitted;Operation not permitted;Operation not permitted;''"
  have s: "splitOn (CHR 0x0A) ?L = [?L]" by simp
  have t: "trim ?L = ?L" by (rule trim_fixed) (simp_all add: isWhitespace_def)
  have b: "\<not> isBoilerplate ?L"
    unfolding isBoilerplate_def
    by (simp add: startsWithCI_first lowerChar_def upperLetters_def lowerLetters_def)
  have f: "firstStderrLineLoop [?L] = Some (take 200 ?L @ ''...'')"
    unfolding firstStderrLineLoop.simps Let_def t using b by simp
  have m: "maybeEnrichCommandFailedMessage ''COMMAND_FAILED'' ''xcrun exited with code 1''
     (Some [(''exitCode'', JNum 1), (''processExitError'', JBool True), (''stderr'', JStr ?L)])
     = take 200 ?L @ ''...''"
    unfolding maybeEnrichCommandFailedMessage_def firstStderrLine_def stringField_def
    by (simp add: s f del: firstStderrLineLoop.simps)
  have e: "take 200 ?L @ ''...'' = ''Operation not permitted;Operation not permitted;Operation not permitted;Operation not permitted;Operation not permitted;Operation not permitted;Operation not permitted;Operation not permitted;Operatio...''" by simp
  have n: "message (normalizeError id
     (ThrownAppError (AppError ''COMMAND_FAILED'' ''xcrun exited with code 1''
        (Some [(''exitCode'', JNum 1), (''processExitError'', JBool True),
               (''stderr'', JStr ?L)])))
     None None) = take 200 ?L @ ''...''"
    unfolding normalizeError_def Let_def by (simp add: m)
  have d: "take 200 ?L @ ''...'' \<noteq> take 200 ?L" by simp
  have l: "length (take 200 ?L @ ''...'') = 203" by simp
  show ?thesis
    using m n d l unfolding e by (intro conjI)
qed

text \<open>
  Claim C9, amended. \<open>normalizeError\<close>: for every error, the string-valued keys \<open>hint\<close>,
  \<open>diagnosticId\<close> and \<open>logPath\<close> of the redacted details are lifted to the top level (the
  last two falling back to the context), and the three keys are removed from the details
  map; a details map left empty is dropped entirely; every code receives a non-empty
  default hint when none was supplied; and when the code is \<open>COMMAND_FAILED\<close> and the
  details mark a direct subprocess exit, the message is replaced by the first stderr line
  that, once trimmed, is non-empty and matches no known boilerplate prefix: the whole
  line when it has at most 200 characters, its first 200 characters followed by \<open>...\<close>
  when it is longer. In every other case the message is kept.
\<close>

theorem normalizeError_spec:
  "(let e = asAppError err;
        d = map_option redact (errorDetails e);
        n = normalizeError redact err ctxDiagnosticId ctxLogPath;
        kept = filter (\<lambda>(k, v). k \<noteq> ''hint'' \<and> k \<noteq> ''diagnosticId'' \<and> k \<noteq> ''logPath'')
                 (case d of None \<Rightarrow> [] | Some obj \<Rightarrow> obj);
        informative = filter (\<lambda>l. l \<noteq> [] \<and> \<not> isBoilerplate l)
                        (map trim (splitOn (CHR 0x0A)
                           (case stringField d ''stderr'' of Some s \<Rightarrow> s | None \<Rightarrow> [])))
    in code n = errorCode e \<and>
       hint n = Some (case stringField d ''hint'' of
                        Some h \<Rightarrow> h | None \<Rightarrow> defaultHintForCode (errorCode e)) \<and>
       defaultHintForCode (errorCode e) \<noteq> [] \<and>
       diagnosticId n = (case stringField d ''diagnosticId'' of
                           Some x \<Rightarrow> Some x | None \<Rightarrow> ctxDiagnosticId) \<and>
       logPath n = (case stringField d ''logPath'' of Some x \<Rightarrow> Some x | None \<Rightarrow> ctxLogPath) \<and>
       details n = (if kept = [] then None else Some kept) \<and>
       message n =
         (if errorCode e = ''COMMAND_FAILED'' \<and>
             (case d of None \<Rightarrow> None | Some obj \<Rightarrow> map_of obj ''processExitError'')
               = Some (JBool True) \<and>
             informative \<noteq> []
          then (if length (hd informative) > 200 then take 200 (hd informative) @ ''...''
                else hd informative)
          else errorMessage e))"
proof -
  obtain c msg d0 where e: "asAppError err = AppError c msg d0"
    by (cases "asAppError err") blast
  define d where "d = map_option redact d0"
  define n where "n = normalizeError redact err ctxDiagnosticId ctxLogPath"
  define kept where "kept =
    filter (\<lambda>(k, v). k \<noteq> ''hint'' \<and> k \<noteq> ''diagnosticId'' \<and> k \<noteq> ''logPath'')
      (case d of None \<Rightarrow> [] | Some obj \<Rightarrow> obj)"
  define informative where "informative =
    filter (\<lambda>l. l \<noteq> [] \<and> \<not> isBoilerplate l)
      (map trim (splitOn (CHR 0x0A) (case stringField d ''stderr'' of Some s \<Rightarrow> s | None \<Rightarrow> [])))"
  have d': "(case d0 of None \<Rightarrow> None | Some obj \<Rightarrow> Some (redact obj)) = d"
    by (cases d0) (simp_all add: d_def)
  have n: "n = \<lparr>code = c, message = maybeEnrichCommandFailedMessage c msg d,
      hint = Some (case stringField d ''hint'' of Some x \<Rightarrow> x | None \<Rightarrow> defaultHintForCode c),
      diagnosticId = (case stringField d ''diagnosticId'' of
                        Some x \<Rightarrow> Some x | None \<Rightarrow> ctxDiagnosticId),
      logPath = (case stringField d ''logPath'' of Some x \<Rightarrow> Some x | None \<Rightarrow> ctxLogPath),
      details = stripDiagnosticMeta d\<rparr>"
    unfolding n_def normalizeError_def e AppError.case Let_def d' by (rule refl)
  have p1: "code n = c" by (simp add: n)
  have p2: "hint n = Some (case stringField d ''hint'' of
                        Some h \<Rightarrow> h | None \<Rightarrow> defaultHintForCode c)"
    by (simp add: n)
  have p3: "defaultHintForCode c \<noteq> []" by (rule defaultHintForCode_nonempty)
  have p4: "diagnosticId n = (case stringField d ''diagnosticId'' of
                           Some x \<Rightarrow> Some x | None \<Rightarrow> ctxDiagnosticId)"
    by (simp add: n)
  have p5: "logPath n = (case stringField d ''logPath'' of Some x \<Rightarrow> Some x | None \<Rightarrow> ctxLogPath)"
    by (simp add: n)
  have "details n = stripDiagnosticMeta d" by (simp add: n)
  then have p6: "details n = (if kept = [] then None else Some kept)"
    unfolding stripDiagnosticMeta_filter kept_def by (cases d) simp_all
  have "message n = maybeEnrichCommandFailedMessage c msg d" by (simp add: n)
  then have p7: "message n =
         (if c = ''COMMAND_FAILED'' \<and>
             (case d of None \<Rightarrow> None | Some obj \<Rightarrow> map_of obj ''processExitError'')
               = Some (JBool True) \<and>
             informative \<noteq> []
          then (if length (hd informative) > 200 then take 200 (hd informative) @ ''...''
                else hd informative)
          else msg)"
    unfolding maybeEnrich_char[of c msg d] informative_def[symmetric]
    by (cases informative) simp_all
  from p1 p2 p3 p4 p5 p6 p7 show ?thesis
    unfolding Let_def e errorCode.simps errorMessage.simps errorDetails.simps
      d_def[symmetric] n_def[symmetric] kept_def[symmetric] informative_def[symmetric]
    by (intro conjI)
qed

theorem normalizeError_spec_witness:
  "normalizeError id
     (ThrownAppError (AppError ''COMMAND_FAILED'' ''runner failed''
        (Some [(''hint'', JStr ''custom hint''), (''diagnosticId'', JStr ''diag-1''),
               (''logPath'', JStr ''/tmp/diag.log''), (''safe'', JStr ''ok'')])))
     None None
     = \<lparr>code = ''COMMAND_FAILED'', message = ''runner failed'', hint = Some ''custom hint'',
        diagnosticId = Some ''diag-1'', logPath = Some ''/tmp/diag.log'',
        details = Some [(''safe'', JStr ''ok'')]\<rparr> \<and>
   normalizeError id (ThrownAppError (AppError ''INVALID_ARGS'' ''bad argument'' None))
     (Some ''diag-ctx'') (Some ''/tmp/context.log'')
     = \<lparr>code = ''INVALID_ARGS'', message = ''bad argument'',
        hint = Some ''Check command arguments and run --help for usage examples.'',
        diagnosticId = Some ''diag-ctx'', logPath = Some ''/tmp/context.log'',
        details = None\<rparr> \<and>
   normalizeError id
     (ThrownAppError (AppError ''COMMAND_FAILED'' ''xcrun exited with code 1''
        (Some [(''hint'', JNum 7), (''processExitError'', JBool True),
               (''stderr'', JStr [CHR 0x0A, CHR ''U'', CHR ''n'', CHR ''d'', CHR ''e'', CHR ''r'',
                  CHR ''l'', CHR ''y'', CHR ''i'', CHR ''n'', CHR ''g'', CHR '' '', CHR ''e'',
                  CHR ''r'', CHR ''r'', CHR ''o'', CHR ''r'', CHR '':'', CHR 0x0A, CHR '' '',
                  CHR ''d'', CHR ''e'', CHR ''n'', CHR ''i'', CHR ''e'', CHR ''d'', CHR '' ''])])))
     None None
     = \<lparr>code = ''COMMAND_FAILED'', message = ''denied'',
        hint = Some ''Retry with --debug and inspect diagnostics log for details.'',
        diagnosticId = None, logPath = None,
        details = Some [(''processExitError'', JBool True),
                        (''stderr'', JStr [CHR 0x0A, CHR ''U'', CHR ''n'', CHR ''d'', CHR ''e'',
                  CHR ''r'', CHR ''l'', CHR ''y'', CHR ''i'', CHR ''n'', CHR ''g'', CHR '' '',
                  CHR ''e'', CHR ''r'', CHR ''r'', CHR ''o'', CHR ''r'', CHR '':'', CHR 0x0A,
                  CHR '' '', CHR ''d'', CHR ''e'', CHR ''n'', CHR ''i'', CHR ''e'', CHR ''d'',
                  CHR '' ''])]\<rparr>"
proof -
  have eq: "n = \<lparr>code = code n, message = message n, hint = hint n,
                 diagnosticId = diagnosticId n, logPath = logPath n, details = details n\<rparr>"
    for n :: NormalizedError
    by simp
  have b: "isBoilerplate ''Underlying error:''" "\<not> isBoilerplate ''denied''"
    by (simp_all add: isBoilerplate_def startsWithCI_def isWordChar_def str_defs)
  show ?thesis
    apply (intro conjI)
      apply (subst eq)
      apply (insert normalizeError_spec[where redact=id and err="ThrownAppError (AppError ''COMMAND_FAILED'' ''runner failed''
        (Some [(''hint'', JStr ''custom hint''), (''diagnosticId'', JStr ''diag-1''),
               (''logPath'', JStr ''/tmp/diag.log''), (''safe'', JStr ''ok'')]))"
          and ctxDiagnosticId=None and ctxLogPath=None])[1]
      apply (simp add: Let_def stringField_def)
     apply (subst eq)
     apply (insert normalizeError_spec[where redact=id and err="ThrownAppError (AppError ''INVALID_ARGS'' ''bad argument'' None)"
          and ctxDiagnosticId="Some ''diag-ctx''" and ctxLogPath="Some ''/tmp/context.log''"])[1]
     apply (simp add: Let_def stringField_def defaultHintForCode_def)
    apply (subst eq)
    apply (insert normalizeError_spec[where redact=id and err="ThrownAppError (AppError ''COMMAND_FAILED'' ''xcrun exited with code 1''
        (Some [(''hint'', JNum 7), (''processExitError'', JBool True),
               (''stderr'', JStr [CHR 0x0A, CHR ''U'', CHR ''n'', CHR ''d'', CHR ''e'', CHR ''r'',
                  CHR ''l'', CHR ''y'', CHR ''i'', CHR ''n'', CHR ''g'', CHR '' '', CHR ''e'',
                  CHR ''r'', CHR ''r'', CHR ''o'', CHR ''r'', CHR '':'', CHR 0x0A, CHR '' '',
                  CHR ''d'', CHR ''e'', CHR ''n'', CHR ''i'', CHR ''e'', CHR ''d'', CHR '' ''])]))"
          and ctxDiagnosticId=None and ctxLogPath=None])[1]
    apply (simp add: Let_def stringField_def defaultHintForCode_def b isWhitespace_def trim_def)
    done
qed

section \<open>Properties of the singleton lock\<close>

lemma readLockInfo_present:
  assumes "fs_lock fs \<noteq> None"
  shows "readLockInfo fs
     = (fst (readLockInfo fs), fs\<lparr>fs_calls := fs_calls fs @ [ExistsSync, ReadFile]\<rparr>)"
  using assms by (auto simp: readLockInfo_def split: option.splits)

lemma readLockInfo_calls:
  "fst (readLockInfo (fs\<lparr>fs_calls := cs\<rparr>)) = fst (readLockInfo fs)"
  by (simp add: readLockInfo_def split: option.splits)

lemma readLockInfo_positive:
  assumes "fst (readLockInfo fs) = Some info"
  shows "0 < lock_pid info"
  using assms
  by (auto simp: readLockInfo_def
      split: option.splits JsonText.splits jsval.splits if_splits)

lemma tryWriteLock_exists:
  assumes "fs_lock fs \<noteq> None"
  shows "tryWriteLock payload fs = (Inr False, fs\<lparr>fs_calls := fs_calls fs @ [WriteExclusive]\<rparr>)"
  using assms by (simp add: tryWriteLock_def Let_def)

lemma acquireDaemonLock_free:
  assumes "fs_lock fs = None"
  shows "acquireDaemonLock self now fs =
     (if fs_writable fs
      then (Inr True, fs\<lparr>fs_lock := Some (Json (lockPayload self now)),
                         fs_calls := fs_calls fs @ [WriteExclusive]\<rparr>)
      else (Inl (Errno ''EACCES''), fs\<lparr>fs_calls := fs_calls fs @ [WriteExclusive]\<rparr>))"
  using assms by (simp add: acquireDaemonLock_def tryWriteLock_def Let_def)

lemma acquireDaemonLock_held:
  assumes "fs_lock fs \<noteq> None"
  shows "acquireDaemonLock self now fs =
     (if (case fst (readLockInfo fs) of
            None \<Rightarrow> False
          | Some info \<Rightarrow>
              lock_pid info \<noteq> d_pid self \<and>
              isAgentDeviceDaemonProcess (d_processes self) (lock_pid info)
                (lock_processStartTime info))
      then (Inr False, fs\<lparr>fs_calls := fs_calls fs @ [WriteExclusive, ExistsSync, ReadFile]\<rparr>)
      else if fs_writable fs
      then (Inr True,
            fs\<lparr>fs_lock := Some (Json (lockPayload self now)),
               fs_calls := fs_calls fs
                 @ [WriteExclusive, ExistsSync, ReadFile, Unlink, WriteExclusive]\<rparr>)
      else (Inr False,
            fs\<lparr>fs_calls := fs_calls fs
                 @ [WriteExclusive, ExistsSync, ReadFile, Unlink, WriteExclusive]\<rparr>))"
proof -
  let ?fs1 = "fs\<lparr>fs_calls := fs_calls fs @ [WriteExclusive]\<rparr>"
  have l1: "fs_lock ?fs1 \<noteq> None" using assms by simp
  have r: "readLockInfo ?fs1
      = (fst (readLockInfo fs),
         fs\<lparr>fs_calls := fs_calls fs @ [WriteExclusive, ExistsSync, ReadFile]\<rparr>)"
    using readLockInfo_present[OF l1] by (simp add: readLockInfo_calls)
  have nz: "lock_pid info \<noteq> 0" if "fst (readLockInfo fs) = Some info" for info
    using readLockInfo_positive[OF that] by simp
  show ?thesis
    unfolding acquireDaemonLock_def Let_def tryWriteLock_exists[OF assms]
    using assms
    by (auto simp: r unlinkLock_def tryWriteLock_def Let_def nz split: option.splits)
qed

text \<open>
  Claim C7, as stated, makes the starting daemon yield whenever the recorded pid identifies
  a live daemon process of this codebase. When the recorded pid is the pid of the starting
  daemon itself (a lock left by a predecessor that had the same pid, with no start time
  recorded), the pid does identify a live daemon, the starting one, and the daemon does
  not yield: it deletes the lock, creates its own and goes on.
\<close>

theorem own_pid_lock_not_yielded:
  "isAgentDeviceDaemonProcess [(4242, \<lparr>proc_isDaemon = True, proc_startTime = None\<rparr>)] 4242 None \<and>
   fst (readLockInfo
     \<lparr>fs_lock = Some (Json (JObj [(''pid'', JNum 4242), (''version'', JStr ''0.5.0''),
                                   (''startedAt'', JNum 500)])),
      fs_writable = True, fs_calls = []\<rparr>)
     = Some \<lparr>lock_pid = 4242, lock_processStartTime = None\<rparr> \<and>
   start
     \<lparr>d_pid = 4242, d_version = ''0.5.0'', d_processStartTime = None,
      d_processes = [(4242, \<lparr>proc_isDaemon = True, proc_startTime = None\<rparr>)]\<rparr>
     1000
     \<lparr>fs_lock = Some (Json (JObj [(''pid'', JNum 4242), (''version'', JStr ''0.5.0''),
                                   (''startedAt'', JNum 500)])),
      fs_writable = True, fs_calls = []\<rparr>
   = (Inr StartsServers,
      \<lparr>fs_lock = Some (Json (JObj [(''pid'', JNum 4242), (''version'', JStr ''0.5.0''),
                                    (''startedAt'', JNum 1000)])),
       fs_writable = True,
       fs_calls = [WriteExclusive, ExistsSync, ReadFile, Unlink, WriteExclusive]\<rparr>)"
  by (simp add: isAgentDeviceDaemonProcess_def readLockInfo_def stringField_def start_def
      acquireDaemonLock_def tryWriteLock_def unlinkLock_def lockPayload_def Let_def)

text \<open>
  Claim C7, amended. Singleton election at daemon startup: if the lock file exists and its
  recorded pid is not the pid of the starting daemon and identifies a live daemon process
  of this codebase (with matching process start time when recorded), the starting daemon
  yields: it prints a message to stderr and exits with code 0, and the lock file is left
  as it is. Otherwise it deletes the lock file and retries the exclusive create exactly
  once; it goes on to start the servers when the retry creates the file, and yields in the
  same way when the retry finds a lock file again. When there is no lock file the first
  exclusive create takes the lock.
\<close>

theorem singleton_election:
  "(fs_lock fs = None \<and> fs_writable fs \<longrightarrow>
      start self now fs =
        (Inr StartsServers,
         fs\<lparr>fs_lock := Some (Json (lockPayload self now)),
            fs_calls := fs_calls fs @ [WriteExclusive]\<rparr>)) \<and>
   (fs_lock fs \<noteq> None \<and> fst (readLockInfo fs) = Some info \<and>
    lock_pid info \<noteq> d_pid self \<and>
    isAgentDeviceDaemonProcess (d_processes self) (lock_pid info) (lock_processStartTime info)
    \<longrightarrow>
      start self now fs =
        (Inr (Exits (''Daemon lock is held by another process; exiting.'' @ [CHR 0x0A]) 0),
         fs\<lparr>fs_calls := fs_calls fs @ [WriteExclusive, ExistsSync, ReadFile]\<rparr>)) \<and>
   (fs_lock fs \<noteq> None \<and>
    (case fst (readLockInfo fs) of
       None \<Rightarrow> True
     | Some i \<Rightarrow>
         lock_pid i = d_pid self \<or>
         \<not> isAgentDeviceDaemonProcess (d_processes self) (lock_pid i) (lock_processStartTime i))
    \<longrightarrow>
      start self now fs =
        (if fs_writable fs
         then (Inr StartsServers,
               fs\<lparr>fs_lock := Some (Json (lockPayload self now)),
                  fs_calls := fs_calls fs
                    @ [WriteExclusive, ExistsSync, ReadFile, Unlink, WriteExclusive]\<rparr>)
         else (Inr (Exits (''Daemon lock is held by another process; exiting.'' @ [CHR 0x0A]) 0),
               fs\<lparr>fs_calls := fs_calls fs
                    @ [WriteExclusive, ExistsSync, ReadFile, Unlink, WriteExclusive]\<rparr>)))"
proof (intro conjI impI)
  assume "fs_lock fs = None \<and> fs_writable fs"
  then show "start self now fs =
        (Inr StartsServers,
         fs\<lparr>fs_lock := Some (Json (lockPayload self now)),
            fs_calls := fs_calls fs @ [WriteExclusive]\<rparr>)"
    by (simp add: start_def acquireDaemonLock_free)
next
  assume a: "fs_lock fs \<noteq> None \<and> fst (readLockInfo fs) = Some info \<and>
    lock_pid info \<noteq> d_pid self \<and>
    isAgentDeviceDaemonProcess (d_processes self) (lock_pid info) (lock_processStartTime info)"
  then have l: "fs_lock fs \<noteq> None" by simp
  from a show "start self now fs =
        (Inr (Exits (''Daemon lock is held by another process; exiting.'' @ [CHR 0x0A]) 0),
         fs\<lparr>fs_calls := fs_calls fs @ [WriteExclusive, ExistsSync, ReadFile]\<rparr>)"
    by (simp add: start_def acquireDaemonLock_held[OF l])
next
  assume a: "fs_lock fs \<noteq> None \<and>
    (case fst (readLockInfo fs) of
       None \<Rightarrow> True
     | Some i \<Rightarrow>
         lock_pid i = d_pid self \<or>
         \<not> isAgentDeviceDaemonProcess (d_processes self) (lock_pid i) (lock_processStartTime i))"
  then have l: "fs_lock fs \<noteq> None" by simp
  from a have n: "\<not> (case fst (readLockInfo fs) of
            None \<Rightarrow> False
          | Some info \<Rightarrow>
              lock_pid info \<noteq> d_pid self \<and>
              isAgentDeviceDaemonProcess (d_processes self) (lock_pid info)
                (lock_processStartTime info))"
    by (auto split: option.splits)
  show "start self now fs =
        (if fs_writable fs
         then (Inr StartsServers,
               fs\<lparr>fs_lock := Some (Json (lockPayload self now)),
                  fs_calls := fs_calls fs
                    @ [WriteExclusive, ExistsSync, ReadFile, Unlink, WriteExclusive]\<rparr>)
         else (Inr (Exits (''Daemon lock is held by another process; exiting.'' @ [CHR 0x0A]) 0),
               fs\<lparr>fs_calls := fs_calls fs
                    @ [WriteExclusive, ExistsSync, ReadFile, Unlink, WriteExclusive]\<rparr>))"
    unfolding start_def acquireDaemonLock_held[OF l] using n by simp
qed

theorem singleton_election_witness:
  "start
     \<lparr>d_pid = 4242, d_version = ''0.5.0'', d_processStartTime = Some ''Mon Nov  2 01:00:00 2026'',
      d_processes = [(4242, \<lparr>proc_isDaemon = True,
                              proc_startTime = Some ''Mon Nov  2 01:00:00 2026''\<rparr>)]\<rparr>
     1000 \<lparr>fs_lock = None, fs_writable = True, fs_calls = []\<rparr>
   = (Inr StartsServers,
      \<lparr>fs_lock = Some (Json (JObj [(''pid'', JNum 4242), (''version'', JStr ''0.5.0''),
                                    (''startedAt'', JNum 1000),
                                    (''processStartTime'', JStr ''Mon Nov  2 01:00:00 2026'')])),
       fs_writable = True, fs_calls = [WriteExclusive]\<rparr>) \<and>
   start
     \<lparr>d_pid = 4242, d_version = ''0.5.0'', d_processStartTime = Some ''Mon Nov  2 01:00:00 2026'',
      d_processes =
        [(4000, \<lparr>proc_isDaemon = True, proc_startTime = Some ''Sun Nov  1 09:30:00 2026''\<rparr>),
         (4242, \<lparr>proc_isDaemon = True, proc_startTime = Some ''Mon Nov  2 01:00:00 2026''\<rparr>)]\<rparr>
     1000
     \<lparr>fs_lock = Some (Json (JObj [(''pid'', JNum 4000), (''version'', JStr ''0.5.0''),
                                   (''startedAt'', JNum 500),
                                   (''processStartTime'', JStr ''Sun Nov  1 09:30:00 2026'')])),
      fs_writable = True, fs_calls = []\<rparr>
   = (Inr (Exits (''Daemon lock is held by another process; exiting.'' @ [CHR 0x0A]) 0),
      \<lparr>fs_lock = Some (Json (JObj [(''pid'', JNum 4000), (''version'', JStr ''0.5.0''),
                                    (''startedAt'', JNum 500),
                                    (''processStartTime'', JStr ''Sun Nov  1 09:30:00 2026'')])),
       fs_writable = True, fs_calls = [WriteExclusive, ExistsSync, ReadFile]\<rparr>) \<and>
   start
     \<lparr>d_pid = 4242, d_version = ''0.5.0'', d_processStartTime = None,
      d_processes =
        [(4000, \<lparr>proc_isDaemon = True, proc_startTime = Some ''Mon Nov  2 00:59:00 2026''\<rparr>),
         (4242, \<lparr>proc_isDaemon = True, proc_startTime = None\<rparr>)]\<rparr>
     1000
     \<lparr>fs_lock = Some (Json (JObj [(''pid'', JNum 4000), (''version'', JStr ''0.5.0''),
                                   (''startedAt'', JNum 500),
                                   (''processStartTime'', JStr ''Sun Nov  1 09:30:00 2026'')])),
      fs_writable = True, fs_calls = []\<rparr>
   = (Inr StartsServers,
      \<lparr>fs_lock = Some (Json (JObj [(''pid'', JNum 4242), (''version'', JStr ''0.5.0''),
                                    (''startedAt'', JNum 1000)])),
       fs_writable = True,
       fs_calls = [WriteExclusive, ExistsSync, ReadFile, Unlink, WriteExclusive]\<rparr>) \<and>
   start
     \<lparr>d_pid = 4242, d_version = ''0.5.0'', d_processStartTime = None, d_processes = []\<rparr>
     1000 \<lparr>fs_lock = Some NotJson, fs_writable = False, fs_calls = []\<rparr>
   = (Inr (Exits (''Daemon lock is held by another process; exiting.'' @ [CHR 0x0A]) 0),
      \<lparr>fs_lock = Some NotJson, fs_writable = False,
       fs_calls = [WriteExclusive, ExistsSync, ReadFile, Unlink, WriteExclusive]\<rparr>)"
proof -
  let ?T = "''Mon Nov  2 01:00:00 2026''"
  let ?U = "''Sun Nov  1 09:30:00 2026''"
  let ?D1 = "\<lparr>d_pid = 4242, d_version = ''0.5.0'', d_processStartTime = Some ?T,
      d_processes = [(4242, \<lparr>proc_isDaemon = True, proc_startTime = Some ?T\<rparr>)]\<rparr>"
  let ?F1 = "\<lparr>fs_lock = None, fs_writable = True, fs_calls = []\<rparr>"
  have h1: "fs_lock ?F1 = None \<and> fs_writable ?F1" by simp
  from singleton_election[THEN conjunct1, rule_format, OF h1, of ?D1 1000]
  have c1: "start ?D1 1000 ?F1
   = (Inr StartsServers,
      \<lparr>fs_lock = Some (Json (JObj [(''pid'', JNum 4242), (''version'', JStr ''0.5.0''),
                                    (''startedAt'', JNum 1000),
                                    (''processStartTime'', JStr ?T)])),
       fs_writable = True, fs_calls = [WriteExclusive]\<rparr>)"
    by (simp add: lockPayload_def)
  let ?D2 = "\<lparr>d_pid = 4242, d_version = ''0.5.0'', d_processStartTime = Some ?T,
      d_processes =
        [(4000, \<lparr>proc_isDaemon = True, proc_startTime = Some ?U\<rparr>),
         (4242, \<lparr>proc_isDaemon = True, proc_startTime = Some ?T\<rparr>)]\<rparr>"
  let ?L = "JObj [(''pid'', JNum 4000), (''version'', JStr ''0.5.0''),
                                   (''startedAt'', JNum 500),
                                   (''processStartTime'', JStr ?U)]"
  let ?F2 = "\<lparr>fs_lock = Some (Json ?L), fs_writable = True, fs_calls = []\<rparr>"
  let ?I = "\<lparr>lock_pid = 4000, lock_processStartTime = Some ?U\<rparr>"
  have r2: "fst (readLockInfo ?F2) = Some ?I"
    by (simp add: readLockInfo_def stringField_def)
  have h2: "fs_lock ?F2 \<noteq> None \<and> fst (readLockInfo ?F2) = Some ?I \<and>
    lock_pid ?I \<noteq> d_pid ?D2 \<and>
    isAgentDeviceDaemonProcess (d_processes ?D2) (lock_pid ?I) (lock_processStartTime ?I)"
    unfolding r2 by (simp add: isAgentDeviceDaemonProcess_def)
  from singleton_election[THEN conjunct2, THEN conjunct1, rule_format, OF h2, of 1000]
  have c2: "start ?D2 1000 ?F2
   = (Inr (Exits (''Daemon lock is held by another process; exiting.'' @ [CHR 0x0A]) 0),
      \<lparr>fs_lock = Some (Json ?L), fs_writable = True,
       fs_calls = [WriteExclusive, ExistsSync, ReadFile]\<rparr>)"
    by simp
  let ?D3 = "\<lparr>d_pid = 4242, d_version = ''0.5.0'', d_processStartTime = None,
      d_processes =
        [(4000, \<lparr>proc_isDaemon = True, proc_startTime = Some ''Mon Nov  2 00:59:00 2026''\<rparr>),
         (4242, \<lparr>proc_isDaemon = True, proc_startTime = None\<rparr>)]\<rparr>"
  have h3: "fs_lock ?F2 \<noteq> None \<and>
    (case fst (readLockInfo ?F2) of
       None \<Rightarrow> True
     | Some i \<Rightarrow>
         lock_pid i = d_pid ?D3 \<or>
         \<not> isAgentDeviceDaemonProcess (d_processes ?D3) (lock_pid i) (lock_processStartTime i))"
    unfolding r2 by (simp add: isAgentDeviceDaemonProcess_def)
  from singleton_election[THEN conjunct2, THEN conjunct2, rule_format, OF h3, of 1000]
  have c3: "start ?D3 1000 ?F2
   = (Inr StartsServers,
      \<lparr>fs_lock = Some (Json (JObj [(''pid'', JNum 4242), (''version'', JStr ''0.5.0''),
                                    (''startedAt'', JNum 1000)])),
       fs_writable = True,
       fs_calls = [WriteExclusive, ExistsSync, ReadFile, Unlink, WriteExclusive]\<rparr>)"
    by (simp add: lockPayload_def)
  let ?D4 = "\<lparr>d_pid = 4242, d_version = ''0.5.0'', d_processStartTime = None,
      d_processes = []\<rparr>"
  let ?F4 = "\<lparr>fs_lock = Some NotJson, fs_writable = False, fs_calls = []\<rparr>"
  have h4: "fs_lock ?F4 \<noteq> None \<and>
    (case fst (readLockInfo ?F4) of
       None \<Rightarrow> True
     | Some i \<Rightarrow>
         lock_pid i = d_pid ?D4 \<or>
         \<not> isAgentDeviceDaemonProcess (d_processes ?D4) (lock_pid i) (lock_processStartTime i))"
    by (simp add: readLockInfo_def)
  from singleton_election[THEN conjunct2, THEN conjunct2, rule_format, OF h4, of 1000]
  have c4: "start ?D4 1000 ?F4
   = (Inr (Exits (''Daemon lock is held by another process; exiting.'' @ [CHR 0x0A]) 0),
      \<lparr>fs_lock = Some NotJson, fs_writable = False,
       fs_calls = [WriteExclusive, ExistsSync, ReadFile, Unlink, WriteExclusive]\<rparr>)"
    by simp
  show ?thesis
    by (intro conjI, rule c1, rule c2, rule c3, rule c4)
qed

end
